theory Spec2Isabelle
  imports Main "HOL-Library.Word"
begin

section \<open>JavaScript values\<close>

text \<open>
  The server handles untyped JSON data: request bodies, decoded requests, arguments and
  results. They are modelled by one datatype of JavaScript values. Numbers are integers
  (no property below reads a fractional number, and none is large enough to be printed
  with an exponent); an object is the list of its own properties in insertion order,
  with distinct keys.
\<close>

datatype jsval =
    JUndefined
  | JNull
  | JBool bool
  | JNum int
  | JStr string
  | JArr "jsval list"
  | JObj "(string \<times> jsval) list"

text \<open>
  A thrown value, as far as the server observes it: \<^verbatim>\<open>e.type\<close>, \<^verbatim>\<open>e.message\<close> and
  \<^verbatim>\<open>e.toString()\<close>. Anything can be thrown, so each of the three observations may itself
  throw: all three do on a thrown \<^verbatim>\<open>null\<close> or \<^verbatim>\<open>undefined\<close>, and \<^verbatim>\<open>e.toString()\<close> does on an
  object without that method.
\<close>

datatype exn =
  Thrown (ex_type: "exn + jsval") (ex_message: "exn + jsval") (ex_toString: "exn + string")

text \<open>\<^verbatim>\<open>new Error(msg)\<close>: no \<^verbatim>\<open>type\<close> property, and \<^verbatim>\<open>toString()\<close> prefixes the class name.\<close>

definition new_Error :: "string \<Rightarrow> exn" where
  "new_Error msg = Thrown (Inr JUndefined) (Inr (JStr msg)) (Inr (''Error: '' @ msg))"

text \<open>
  A \<^verbatim>\<open>TypeError\<close> raised by the engine. The wording of its message is the engine's own;
  only its class name is fixed here.
\<close>

definition TypeError :: "string \<Rightarrow> exn" where
  "TypeError msg = Thrown (Inr JUndefined) (Inr (JStr msg)) (Inr (''TypeError: '' @ msg))"

definition bindE :: "exn + 'a \<Rightarrow> ('a \<Rightarrow> exn + 'b) \<Rightarrow> exn + 'b" where
  "bindE m f = (case m of Inl e \<Rightarrow> Inl e | Inr v \<Rightarrow> f v)"

text \<open>Truthiness (\<^verbatim>\<open>ToBoolean\<close>), and the operator \<^verbatim>\<open>a || b\<close> on values.\<close>

fun truthy :: "jsval \<Rightarrow> bool" where
  "truthy JUndefined = False"
| "truthy JNull = False"
| "truthy (JBool b) = b"
| "truthy (JNum n) = (n \<noteq> 0)"
| "truthy (JStr s) = (s \<noteq> [])"
| "truthy (JArr xs) = True"
| "truthy (JObj kvs) = True"

definition js_or :: "jsval \<Rightarrow> jsval \<Rightarrow> jsval" where
  "js_or a b = (if truthy a then a else b)"

text \<open>A field that is not there reads as \<^verbatim>\<open>undefined\<close>, or as \<^verbatim>\<open>null\<close> once decoded.\<close>

definition absent :: "jsval \<Rightarrow> bool" where
  "absent v = (v = JUndefined \<or> v = JNull)"

subsection \<open>Strings of numbers and values\<close>

definition digit_char :: "nat \<Rightarrow> char" where
  "digit_char d = ''0123456789abcdef'' ! d"

fun string_of_nat :: "nat \<Rightarrow> string" where
  "string_of_nat n =
     (if n < 10 then [digit_char n] else string_of_nat (n div 10) @ [digit_char (n mod 10)])"

definition string_of_int :: "int \<Rightarrow> string" where
  "string_of_int i = (if i < 0 then CHR ''-'' # string_of_nat (nat (- i)) else string_of_nat (nat i))"

fun join_comma :: "string list \<Rightarrow> string" where
  "join_comma [] = []"
| "join_comma [s] = s"
| "join_comma (s # t # ss) = s @ '','' @ join_comma (t # ss)"

text \<open>\<^verbatim>\<open>String(v)\<close>, which a template literal and a computed property name apply.\<close>

fun toStr :: "jsval \<Rightarrow> string" where
  "toStr JUndefined = ''undefined''"
| "toStr JNull = ''null''"
| "toStr (JBool b) = (if b then ''true'' else ''false'')"
| "toStr (JNum n) = string_of_int n"
| "toStr (JStr s) = s"
| "toStr (JArr xs) =
     join_comma (map (\<lambda>x. case x of JUndefined \<Rightarrow> [] | JNull \<Rightarrow> [] | _ \<Rightarrow> toStr x) xs)"
| "toStr (JObj kvs) = ''[object Object]''"

subsection \<open>Properties\<close>

text \<open>
  Own properties only: the inherited members of \<^verbatim>\<open>Object.prototype\<close>, \<^verbatim>\<open>Array.prototype\<close>
  and \<^verbatim>\<open>String.prototype\<close> are functions, which \<open>jsval\<close> does not hold, and none of
  the names the server reads on such a value is one of them. (The host's tables, which
  are read under a name the client chooses, are modelled apart, with the inherited
  members.)
\<close>

definition index_of :: "string \<Rightarrow> nat \<Rightarrow> nat option" where
  "index_of k n = find (\<lambda>i. string_of_nat i = k) [0..<n]"

definition own_prop :: "(string \<times> jsval) list \<Rightarrow> string \<Rightarrow> jsval" where
  "own_prop kvs k = (case map_of kvs k of None \<Rightarrow> JUndefined | Some v \<Rightarrow> v)"

fun getProp :: "jsval \<Rightarrow> string \<Rightarrow> exn + jsval" where
  "getProp JUndefined k = Inl (TypeError (''Cannot read property '' @ k @ '' of undefined''))"
| "getProp JNull k = Inl (TypeError (''Cannot read property '' @ k @ '' of null''))"
| "getProp (JObj kvs) k = Inr (own_prop kvs k)"
| "getProp (JArr xs) k =
     Inr (if k = ''length'' then JNum (int (length xs))
          else case index_of k (length xs) of None \<Rightarrow> JUndefined | Some i \<Rightarrow> xs ! i)"
| "getProp (JStr s) k =
     Inr (if k = ''length'' then JNum (int (length s))
          else case index_of k (length s) of None \<Rightarrow> JUndefined | Some i \<Rightarrow> JStr [s ! i])"
| "getProp (JBool b) k = Inr JUndefined"
| "getProp (JNum n) k = Inr JUndefined"

text \<open>
  \<^verbatim>\<open>throw v\<close> for a value \<open>v\<close>: reading a property of \<^verbatim>\<open>null\<close> or \<^verbatim>\<open>undefined\<close>, or calling a
  method on it, throws a \<^verbatim>\<open>TypeError\<close>.
\<close>

definition throw_value :: "jsval \<Rightarrow> exn" where
  "throw_value v =
     Thrown (getProp v ''type'') (getProp v ''message'')
       (case v of
          JUndefined \<Rightarrow> Inl (TypeError ''Cannot read property toString of undefined'')
        | JNull \<Rightarrow> Inl (TypeError ''Cannot read property toString of null'')
        | _ \<Rightarrow> Inr (toStr v))"

text \<open>The operator \<^verbatim>\<open>k in v\<close>: a \<^verbatim>\<open>TypeError\<close> unless \<open>v\<close> is an object.\<close>

fun js_in :: "string \<Rightarrow> jsval \<Rightarrow> exn + bool" where
  "js_in k (JObj kvs) = Inr (k \<in> set (map fst kvs))"
| "js_in k (JArr xs) = Inr (k = ''length'' \<or> index_of k (length xs) \<noteq> None)"
| "js_in k v = Inl (TypeError (''Cannot use in operator to search for '' @ k @ '' in '' @ toStr v))"

text \<open>Object spread \<^verbatim>\<open>{...v}\<close>: the own enumerable properties of \<open>v\<close>.\<close>

fun spread :: "jsval \<Rightarrow> (string \<times> jsval) list" where
  "spread (JObj kvs) = kvs"
| "spread (JArr xs) = zip (map string_of_nat [0..<length xs]) xs"
| "spread (JStr s) = zip (map string_of_nat [0..<length s]) (map (\<lambda>c. JStr [c]) s)"
| "spread v = []"

subsection \<open>Random identifiers\<close>

text \<open>
  The system's random source is a stream of bytes; \<^verbatim>\<open>randomBytes(n)\<close> takes the next
  \<open>n\<close> of them. \<^verbatim>\<open>toString("hex")\<close> writes each byte as two lowercase hexadecimal digits.
\<close>

type_synonym rng = "nat \<Rightarrow> 8 word"

definition randomBytes :: "nat \<Rightarrow> rng \<Rightarrow> 8 word list \<times> rng" where
  "randomBytes n g = (map g [0..<n], \<lambda>i. g (i + n))"

definition hex_byte :: "8 word \<Rightarrow> string" where
  "hex_byte b = [digit_char (unat b div 16), digit_char (unat b mod 16)]"

definition toHex :: "8 word list \<Rightarrow> string" where
  "toHex bs = concat (map hex_byte bs)"

definition is_hex_char :: "char \<Rightarrow> bool" where
  "is_hex_char c = (c \<in> set ''0123456789abcdef'')"

section \<open>The protocol normalizer\<close>

text \<open>
  \<^verbatim>\<open>JSON.parse\<close> and the schema codec of \<^verbatim>\<open>./encode-decode\<close> are collaborators outside
  this file of the server: they are parameters of the functions that call them. The type
  tables the parsers pass to \<^verbatim>\<open>decode\<close> are the source's. A type description is a name
  or a list of fields; \<open>TUndefined\<close> is \<^verbatim>\<open>undefined\<close> passed where a description is expected.
\<close>

datatype tdesc = TName string | TFields "(string \<times> tdesc) list" | TUndefined

type_synonym typeTable = "(string \<times> tdesc) list"

type_synonym json_parser = "string \<Rightarrow> exn + jsval"

type_synonym codec = "typeTable \<Rightarrow> string \<Rightarrow> tdesc \<Rightarrow> jsval \<Rightarrow> exn + jsval"

record request =
  req_method :: string
  req_pathname :: string
  req_headers :: "(string \<times> string) list"
  req_clientIp :: "string option"

record DeviceInfo =
  di_id :: jsval
  di_language :: jsval
  di_platform :: jsval
  di_timezone :: jsval
  di_type :: jsval
  di_version :: jsval

record ContextRequest =
  rq_version :: nat
  rq_id :: jsval
  rq_args :: jsval
  rq_name :: jsval
  rq_extra :: jsval
  rq_headers :: "(string \<times> string) list"
  rq_deviceInfo :: DeviceInfo

definition identifyRequestVersion :: "json_parser \<Rightarrow> string \<Rightarrow> exn + jsval" where
  "identifyRequestVersion json_parse body =
     bindE (json_parse body) (\<lambda>parsed.
     bindE (js_in ''version'' parsed) (\<lambda>has_version.
       if has_version then getProp parsed ''version''
       else bindE (js_in ''requestId'' parsed) (\<lambda>has_requestId.
         if has_requestId then Inr (JNum 2) else Inr (JNum 1))))"


text \<open>The type tables of the three request formats, as the parsers write them.\<close>

definition typesV1 :: typeTable where
  "typesV1 =
     [(''Request'', TFields
        [(''id'', TName ''string''),
         (''args'', TName ''any''),
         (''name'', TName ''string''),
         (''device'', TFields
            [(''id'', TName ''string?''),
             (''type'', TName ''string?''),
             (''platform'', TName ''any?''),
             (''version'', TName ''string?''),
             (''language'', TName ''string?''),
             (''timezone'', TName ''string?'')])])]"

definition typesV2 :: typeTable where
  "typesV2 =
     [(''Request'', TFields
        [(''requestId'', TName ''string''),
         (''deviceId'', TName ''string''),
         (''sessionId'', TName ''string?''),
         (''partnerId'', TName ''string?''),
         (''args'', TName ''any''),
         (''name'', TName ''string''),
         (''info'', TFields
            [(''type'', TName ''string''),
             (''browserUserAgent'', TName ''string?''),
             (''language'', TName ''string'')])])]"

definition typesV3 :: typeTable where
  "typesV3 =
     [(''Request'', TFields
        [(''requestId'', TName ''string?''),
         (''name'', TName ''string''),
         (''args'', TName ''any''),
         (''extra'', TName ''any?''),
         (''deviceInfo'', TName ''DeviceInfo?'')]),
      (''DeviceInfo'', TFields
        [(''id'', TName ''string?''),
         (''type'', TName ''string?''),
         (''browserUserAgent'', TName ''string?''),
         (''timezone'', TName ''string?''),
         (''version'', TName ''string?''),
         (''language'', TName ''string?'')])]"

text \<open>Old Sdkgen format.\<close>

definition parseRequestV1 ::
  "json_parser \<Rightarrow> codec \<Rightarrow> request \<Rightarrow> string \<Rightarrow> exn + ContextRequest" where
  "parseRequestV1 json_parse decode req body =
     bindE (json_parse body) (\<lambda>json.
     bindE (decode typesV1 ''root'' (TName ''Request'') json) (\<lambda>parsed.
     bindE (getProp parsed ''id'') (\<lambda>p_id.
     bindE (getProp parsed ''args'') (\<lambda>p_args.
     bindE (getProp parsed ''name'') (\<lambda>p_name.
     bindE (getProp parsed ''device'') (\<lambda>device.
     bindE (getProp device ''id'') (\<lambda>d_id.
     bindE (getProp device ''language'') (\<lambda>d_language.
     bindE (getProp device ''platform'') (\<lambda>d_platform.
     bindE (getProp device ''timezone'') (\<lambda>d_timezone.
     bindE (getProp device ''type'') (\<lambda>d_type.
     bindE (getProp device ''version'') (\<lambda>d_version.
       Inr \<lparr> rq_version = 1,
             rq_id = p_id,
             rq_args = p_args,
             rq_name = p_name,
             rq_extra = JObj [],
             rq_headers = req_headers req,
             rq_deviceInfo =
               \<lparr> di_id = js_or d_id p_id,
                 di_language = d_language,
                 di_platform = d_platform,
                 di_timezone = d_timezone,
                 di_type = js_or (js_or d_type d_platform) (JStr []),
                 di_version = d_version \<rparr> \<rparr>))))))))))))"

text \<open>Maxima sdkgen format.\<close>

definition parseRequestV2 ::
  "json_parser \<Rightarrow> codec \<Rightarrow> request \<Rightarrow> string \<Rightarrow> exn + ContextRequest" where
  "parseRequestV2 json_parse decode req body =
     bindE (json_parse body) (\<lambda>json.
     bindE (decode typesV2 ''root'' (TName ''Request'') json) (\<lambda>parsed.
     bindE (getProp parsed ''requestId'') (\<lambda>p_requestId.
     bindE (getProp parsed ''args'') (\<lambda>p_args.
     bindE (getProp parsed ''name'') (\<lambda>p_name.
     bindE (getProp parsed ''sessionId'') (\<lambda>p_sessionId.
     bindE (getProp parsed ''partnerId'') (\<lambda>p_partnerId.
     bindE (getProp parsed ''deviceId'') (\<lambda>p_deviceId.
     bindE (getProp parsed ''info'') (\<lambda>info.
     bindE (getProp info ''language'') (\<lambda>i_language.
     bindE (getProp info ''browserUserAgent'') (\<lambda>i_browserUserAgent.
     bindE (getProp info ''type'') (\<lambda>i_type.
       Inr \<lparr> rq_version = 2,
             rq_id = p_requestId,
             rq_args = p_args,
             rq_name = p_name,
             rq_extra = JObj [(''sessionId'', p_sessionId), (''partnerId'', p_partnerId)],
             rq_headers = req_headers req,
             rq_deviceInfo =
               \<lparr> di_id = p_deviceId,
                 di_language = i_language,
                 di_platform = JObj [(''browserUserAgent'', js_or i_browserUserAgent JNull)],
                 di_timezone = JNull,
                 di_type = i_type,
                 di_version = JStr [] \<rparr> \<rparr>))))))))))))"

text \<open>
  \<^verbatim>\<open>v || randomBytes(16).toString("hex")\<close>: the random source is read only when \<open>v\<close>
  is falsy.
\<close>

definition or_random :: "jsval \<Rightarrow> rng \<Rightarrow> jsval \<times> rng" where
  "or_random v g =
     (if truthy v then (v, g)
      else (case randomBytes 16 g of (bytes, g') \<Rightarrow> (JStr (toHex bytes), g')))"

text \<open>New sdkgen format.\<close>

definition parseRequestV3 ::
  "json_parser \<Rightarrow> codec \<Rightarrow> request \<Rightarrow> string \<Rightarrow> rng \<Rightarrow> exn + ContextRequest \<times> rng" where
  "parseRequestV3 json_parse decode req body g =
     bindE (json_parse body) (\<lambda>json.
     bindE (decode typesV3 ''root'' (TName ''Request'') json) (\<lambda>parsed.
     bindE (getProp parsed ''deviceInfo'') (\<lambda>p_deviceInfo.
     let deviceInfo = js_or p_deviceInfo (JObj []) in
     bindE (getProp parsed ''requestId'') (\<lambda>p_requestId.
     case or_random p_requestId g of (r_id, g1) \<Rightarrow>
     bindE (getProp parsed ''args'') (\<lambda>p_args.
     bindE (getProp parsed ''name'') (\<lambda>p_name.
     bindE (getProp parsed ''extra'') (\<lambda>p_extra.
     bindE (getProp deviceInfo ''id'') (\<lambda>d_id.
     case or_random d_id g1 of (r_deviceId, g2) \<Rightarrow>
     bindE (getProp deviceInfo ''language'') (\<lambda>d_language.
     bindE (getProp deviceInfo ''browserUserAgent'') (\<lambda>d_browserUserAgent.
     bindE (getProp deviceInfo ''timezone'') (\<lambda>d_timezone.
     bindE (getProp deviceInfo ''type'') (\<lambda>d_type.
     bindE (getProp deviceInfo ''version'') (\<lambda>d_version.
       Inr (\<lparr> rq_version = 3,
              rq_id = r_id,
              rq_args = p_args,
              rq_name = p_name,
              rq_extra = (if truthy p_extra then JObj (spread p_extra) else JObj []),
              rq_headers = req_headers req,
              rq_deviceInfo =
                \<lparr> di_id = r_deviceId,
                  di_language = js_or d_language JNull,
                  di_platform = JObj [(''browserUserAgent'', js_or d_browserUserAgent JNull)],
                  di_timezone = js_or d_timezone JNull,
                  di_type = js_or d_type (JStr ''api''),
                  di_version = js_or d_version JNull \<rparr> \<rparr>, g2))))))))))))))"

text \<open>
  The \<^verbatim>\<open>switch\<close> compares the detected version with \<^verbatim>\<open>===\<close>: only the numbers 1, 2 and 3
  select a parser.
\<close>

definition parseRequest ::
  "json_parser \<Rightarrow> codec \<Rightarrow> request \<Rightarrow> string \<Rightarrow> rng \<Rightarrow> exn + ContextRequest \<times> rng" where
  "parseRequest json_parse decode req body g =
     bindE (identifyRequestVersion json_parse body) (\<lambda>v.
       if v = JNum 1 then bindE (parseRequestV1 json_parse decode req body) (\<lambda>r. Inr (r, g))
       else if v = JNum 2 then bindE (parseRequestV2 json_parse decode req body) (\<lambda>r. Inr (r, g))
       else if v = JNum 3 then parseRequestV3 json_parse decode req body g
       else Inl (new_Error ''Failed to understand request''))"

section \<open>The handler registry\<close>

text \<open>
  A matcher is a literal path or a regular expression. The regular-expression engine is
  the platform's: \<open>exec r path\<close> is the leftmost match of \<open>r\<close> in \<open>path\<close>, as its
  start index and matched text, or \<open>None\<close>. Expressions are stateless (no sticky flag).
\<close>

datatype 're matcher = Literal string | Pattern 're

type_synonym 're regex_engine = "'re \<Rightarrow> string \<Rightarrow> (nat \<times> string) option"

text \<open>\<^verbatim>\<open>path.search(r)\<close>: the index of the leftmost match, or -1.\<close>

definition js_search :: "'re regex_engine \<Rightarrow> string \<Rightarrow> 're \<Rightarrow> int" where
  "js_search exec path r = (case exec r path of None \<Rightarrow> - 1 | Some (i, m) \<Rightarrow> int i)"

text \<open>\<^verbatim>\<open>path.match(r)[0]\<close>: the matched text; reading \<^verbatim>\<open>[0]\<close> of \<^verbatim>\<open>null\<close> throws.\<close>

definition js_match0 :: "'re regex_engine \<Rightarrow> string \<Rightarrow> 're \<Rightarrow> exn + string" where
  "js_match0 exec path r =
     (case exec r path of
        None \<Rightarrow> Inl (TypeError ''Cannot read property 0 of null'')
      | Some (i, m) \<Rightarrow> Inr m)"

text \<open>
  \<^verbatim>\<open>Array.prototype.sort\<close> with a comparison function: a stable sort (ECMAScript 2019),
  here by insertion. \<open>x\<close> goes before the first \<open>y\<close> with \<open>cmp x y \<le> 0\<close>; an exception
  of the comparison function ends the sort.
\<close>

fun insert_by :: "('a \<Rightarrow> 'a \<Rightarrow> exn + int) \<Rightarrow> 'a \<Rightarrow> 'a list \<Rightarrow> exn + 'a list" where
  "insert_by cmp x [] = Inr [x]"
| "insert_by cmp x (y # ys) =
     bindE (cmp x y) (\<lambda>c.
       if c \<le> 0 then Inr (x # y # ys)
       else bindE (insert_by cmp x ys) (\<lambda>r. Inr (y # r)))"

fun js_sort :: "('a \<Rightarrow> 'a \<Rightarrow> exn + int) \<Rightarrow> 'a list \<Rightarrow> exn + 'a list" where
  "js_sort cmp [] = Inr []"
| "js_sort cmp (x # xs) = bindE (js_sort cmp xs) (\<lambda>r. insert_by cmp x r)"

section \<open>The response and the console\<close>

text \<open>
  What a request leaves behind: the status code, the \<^verbatim>\<open>setHeader\<close> calls in order, the
  chunks written, whether the response was ended, and the lines printed. A chunk
  \<open>Json v\<close> is the text \<^verbatim>\<open>JSON.stringify(v)\<close>.
\<close>

datatype chunk = Json jsval | Text string

record io =
  res_statusCode :: nat
  res_headers :: "(string \<times> string) list"
  res_body :: "chunk list"
  res_ended :: bool
  console :: "string list"

text \<open>A fresh \<^verbatim>\<open>ServerResponse\<close>: status 200, nothing set or written.\<close>

definition fresh_io :: io where
  "fresh_io = \<lparr> res_statusCode = 200, res_headers = [], res_body = [], res_ended = False,
                 console = [] \<rparr>"

definition setHeader :: "string \<Rightarrow> string \<Rightarrow> io \<Rightarrow> io" where
  "setHeader h v s = s\<lparr> res_headers := res_headers s @ [(h, v)] \<rparr>"

definition writeHead :: "nat \<Rightarrow> io \<Rightarrow> io" where
  "writeHead code s = s\<lparr> res_statusCode := code \<rparr>"

definition res_write :: "chunk \<Rightarrow> io \<Rightarrow> io" where
  "res_write c s = s\<lparr> res_body := res_body s @ [c] \<rparr>"

definition res_end :: "io \<Rightarrow> io" where
  "res_end s = s\<lparr> res_ended := True \<rparr>"

text \<open>The clock and the host name, read from the system.\<close>

record env =
  env_now :: string
  env_hostname :: string
  env_hrtime :: "nat \<times> nat"
  env_duration :: "nat \<times> nat \<Rightarrow> jsval"
  env_toFixed6 :: "jsval \<Rightarrow> string"

definition log :: "env \<Rightarrow> string \<Rightarrow> io \<Rightarrow> io" where
  "log e message s = s\<lparr> console := console s @ [env_now e @ '' '' @ message] \<rparr>"

text \<open>
  An entry of the registry. Its callback is given the request and the body, and works on
  the response; it may throw.
\<close>

record 're handler =
  h_method :: string
  h_matcher :: "'re matcher"
  h_handler :: "request \<Rightarrow> string \<Rightarrow> io \<Rightarrow> io \<times> exn option"

section \<open>Contexts, replies and the host's configuration\<close>

record 'x Context =
  ctx_extra :: 'x
  ctx_ip :: string
  ctx_request :: ContextRequest
  ctx_hrStart :: "nat \<times> nat"

record ReplyError =
  err_type :: jsval
  err_message :: jsval

record ContextReply =
  rep_result :: jsval
  rep_error :: "ReplyError option"

definition error_reply :: "jsval \<Rightarrow> jsval \<Rightarrow> ContextReply" where
  "error_reply t m = \<lparr> rep_result = JUndefined, rep_error = Some \<lparr> err_type = t, err_message = m \<rparr> \<rparr>"

definition result_reply :: "jsval \<Rightarrow> ContextReply" where
  "result_reply v = \<lparr> rep_result = v, rep_error = None \<rparr>"

definition error_json :: "ReplyError option \<Rightarrow> jsval" where
  "error_json e =
     (case e of
        None \<Rightarrow> JNull
      | Some err \<Rightarrow> JObj [(''type'', err_type err), (''message'', err_message err)])"

record FunctionDescription =
  fd_args :: tdesc
  fd_ret :: tdesc

text \<open>
  The function table and the table of implementations are plain objects, and the
  dispatcher reads them with \<^verbatim>\<open>table[name]\<close>. Such a read finds the table's own entry under
  the name, and failing that the member of that name which every plain object inherits
  from \<^verbatim>\<open>Object.prototype\<close>; only failing both is it \<^verbatim>\<open>undefined\<close>. An inherited member is a
  built-in function (the object \<^verbatim>\<open>Object.prototype\<close> itself under \<^verbatim>\<open>__proto__\<close>): it is truthy,
  and its properties \<^verbatim>\<open>args\<close> and \<^verbatim>\<open>ret\<close> are \<^verbatim>\<open>undefined\<close>.
\<close>

definition object_prototype_names :: "string list" where
  "object_prototype_names =
     [''constructor'', ''__defineGetter__'', ''__defineSetter__'', ''hasOwnProperty'',
      ''__lookupGetter__'', ''__lookupSetter__'', ''isPrototypeOf'', ''propertyIsEnumerable'',
      ''toString'', ''valueOf'', ''__proto__'', ''toLocaleString'']"

datatype 'a member = Own 'a | Inherited | Missing

definition js_read :: "(string \<Rightarrow> 'a option) \<Rightarrow> string \<Rightarrow> 'a member" where
  "js_read table name =
     (case table name of
        Some v \<Rightarrow> Own v
      | None \<Rightarrow> if name \<in> set object_prototype_names then Inherited else Missing)"

fun falsy_member :: "'a member \<Rightarrow> bool" where
  "falsy_member Missing = True"
| "falsy_member m = False"

text \<open>What \<^verbatim>\<open>functionDescription.args\<close> and \<^verbatim>\<open>functionDescription.ret\<close> read on such a value.\<close>

definition member_description :: "FunctionDescription member \<Rightarrow> FunctionDescription" where
  "member_description m =
     (case m of Own d \<Rightarrow> d | _ \<Rightarrow> \<lparr> fd_args = TUndefined, fd_ret = TUndefined \<rparr>)"

text \<open>
  The host's configuration: the own entries of the function table and of the table of
  implementations, the type table of the interface description, and the hooks. A hook or
  an implementation either returns or throws; a hook returns a reply or nothing.
\<close>

record 'x ApiConfig =
  functionTable :: "string \<Rightarrow> FunctionDescription option"
  typeTable :: typeTable
  fn :: "string \<Rightarrow> ('x Context \<Rightarrow> jsval \<Rightarrow> exn + jsval) option"
  onHealthCheck :: "exn + bool"
  onRequestStart :: "'x Context \<Rightarrow> exn + ContextReply option"
  onRequestEnd :: "'x Context \<Rightarrow> ContextReply \<Rightarrow> exn + ContextReply option"

record ('x, 're) server =
  apiConfig :: "'x ApiConfig"
  extraContext :: 'x
  headers :: "(string \<times> string) list"
  handlers :: "'re handler list"
  dynamicCorsOrigin :: bool
  ignoredUrlPrefix :: string

text \<open>
  The collaborators outside the server's file. \<open>pf_builtin name ctx args\<close> is the engine's
  call \<^verbatim>\<open>f(ctx, args)\<close> where \<open>f\<close> is the member \<open>name\<close> of \<^verbatim>\<open>Object.prototype\<close> (a \<^verbatim>\<open>TypeError\<close>
  where the member is not callable).
\<close>

record ('x, 're) platform =
  pf_json_parse :: json_parser
  pf_decode :: codec
  pf_encode :: codec
  pf_exec :: "'re regex_engine"
  pf_env :: env
  pf_builtin :: "string \<Rightarrow> 'x Context \<Rightarrow> jsval \<Rightarrow> exn + jsval"

text \<open>What calling the value read from the table of implementations does.\<close>

definition member_impl ::
  "('x, 're) platform \<Rightarrow> string \<Rightarrow> ('x Context \<Rightarrow> jsval \<Rightarrow> exn + jsval) member \<Rightarrow>
   'x Context \<Rightarrow> jsval \<Rightarrow> exn + jsval" where
  "member_impl pf name m = (case m of Own f \<Rightarrow> f | _ \<Rightarrow> pf_builtin pf name)"

section \<open>The server\<close>

definition addHttpHandler ::
  "string \<Rightarrow> 're matcher \<Rightarrow> (request \<Rightarrow> string \<Rightarrow> io \<Rightarrow> io \<times> exn option) \<Rightarrow>
   ('x, 're) server \<Rightarrow> ('x, 're) server" where
  "addHttpHandler m mt h srv =
     srv\<lparr> handlers := handlers srv @ [\<lparr> h_method = m, h_matcher = mt, h_handler = h \<rparr>] \<rparr>"

text \<open>The comparison function that \<^verbatim>\<open>findBestHandler\<close> sorts the candidates with.\<close>

definition compareMatchers ::
  "'re regex_engine \<Rightarrow> string \<Rightarrow> 're matcher \<Rightarrow> 're matcher \<Rightarrow> exn + int" where
  "compareMatchers ex path first second =
     (case first of
        Literal f \<Rightarrow> (case second of Literal s \<Rightarrow> Inr 0 | Pattern s \<Rightarrow> Inr (- 1))
      | Pattern f \<Rightarrow>
          (case second of
             Literal s \<Rightarrow> Inr 1
           | Pattern s \<Rightarrow>
               bindE (js_match0 ex path f) (\<lambda>firstMatch.
               bindE (js_match0 ex path s) (\<lambda>secondMatch.
                 Inr (int (length secondMatch) - int (length firstMatch))))))"

definition matches :: "'re regex_engine \<Rightarrow> string \<Rightarrow> 're matcher \<Rightarrow> bool" where
  "matches ex path m =
     (case m of Literal l \<Rightarrow> l = path | Pattern r \<Rightarrow> js_search ex path r = 0)"

definition findBestHandler ::
  "'re regex_engine \<Rightarrow> 're handler list \<Rightarrow> string \<Rightarrow> request \<Rightarrow> exn + 're handler option" where
  "findBestHandler ex hs path req =
     bindE (js_sort (\<lambda>a b. compareMatchers ex path (h_matcher a) (h_matcher b))
              (filter (\<lambda>h. matches ex path (h_matcher h))
                 (filter (\<lambda>h. h_method h = req_method req) hs)))
       (\<lambda>sorted. Inr (case sorted of [] \<Rightarrow> None | h # rest \<Rightarrow> Some h))"

text \<open>The status of a reply in the formats that carry one.\<close>

definition status_of :: "ReplyError option \<Rightarrow> nat" where
  "status_of e =
     (case e of None \<Rightarrow> 200 | Some err \<Rightarrow> if err_type err = JStr ''Fatal'' then 500 else 400)"

definition writeReply :: "env \<Rightarrow> 'x Context option \<Rightarrow> ContextReply \<Rightarrow> io \<Rightarrow> io" where
  "writeReply e ctx reply s =
     (case ctx of
        None \<Rightarrow>
          (let reply' = (if rep_error reply = None
                         then error_reply (JStr ''Fatal'') (JStr ''Response without context'')
                         else reply)
           in res_end
                (res_write (Json (JObj [(''error'', error_json (rep_error reply'))]))
                   (s\<lparr> res_statusCode := 500 \<rparr>)))
      | Some c \<Rightarrow>
          (let duration = env_duration e (ctx_hrStart c);
               rq = ctx_request c;
               s1 = log e (toStr (rq_id rq) @ '' ['' @ env_toFixed6 e duration @ ''s] '' @
                           toStr (rq_name rq) @ ''() -> '' @
                           (case rep_error reply of
                              Some err \<Rightarrow> toStr (err_type err)
                            | None \<Rightarrow> ''OK'')) s
           in if rq_version rq = 1 then
                res_end
                  (res_write
                     (Json (JObj [(''id'', rq_id rq),
                                  (''ok'', JBool (rep_error reply = None)),
                                  (''deviceId'', di_id (rq_deviceInfo rq)),
                                  (''duration'', duration),
                                  (''host'', JStr (env_hostname e)),
                                  (''result'', js_or (rep_result reply) JNull),
                                  (''error'', error_json (rep_error reply))]))
                     (s1\<lparr> res_statusCode := status_of (rep_error reply) \<rparr>))
              else if rq_version rq = 2 then res_end s1
              else if rq_version rq = 3 then
                res_end
                  (res_write
                     (Json (JObj [(''duration'', duration),
                                  (''host'', JStr (env_hostname e)),
                                  (''result'', js_or (rep_result reply) JNull),
                                  (''error'', error_json (rep_error reply))]))
                     (s1\<lparr> res_statusCode := status_of (rep_error reply) \<rparr>))
              else s1))"

text \<open>
  The \<^verbatim>\<open>catch\<close> block of the dispatcher. It reads \<^verbatim>\<open>e.type\<close>, then \<^verbatim>\<open>e.message\<close>, and calls
  \<^verbatim>\<open>e.toString()\<close> only when the message is falsy; where one of them throws, so does the
  block.
\<close>

definition caught :: "exn \<Rightarrow> exn + ContextReply" where
  "caught e =
     bindE (ex_type e) (\<lambda>t.
     bindE (ex_message e) (\<lambda>m.
       if truthy m then Inr (error_reply (js_or t (JStr ''Fatal'')) m)
       else bindE (ex_toString e) (\<lambda>str.
              Inr (error_reply (js_or t (JStr ''Fatal'')) (JStr str)))))"

text \<open>
  The \<^verbatim>\<open>try\<close> statement of the dispatcher: the start hook, and unless it returns a reply,
  the call itself. What is thrown there goes through the \<^verbatim>\<open>catch\<close> block; the result is
  the reply, or what the \<^verbatim>\<open>catch\<close> block throws.
\<close>

definition execute ::
  "('x, 're) platform \<Rightarrow> 'x ApiConfig \<Rightarrow> 'x Context \<Rightarrow> FunctionDescription \<Rightarrow>
   ('x Context \<Rightarrow> jsval \<Rightarrow> exn + jsval) \<Rightarrow> exn + ContextReply" where
  "execute pf api ctx functionDescription functionImplementation =
     (let name = toStr (rq_name (ctx_request ctx));
          attempt =
            bindE (onRequestStart api ctx) (\<lambda>started.
              case started of
                Some reply \<Rightarrow> Inr reply
              | None \<Rightarrow>
                  bindE (pf_decode pf (typeTable api) (name @ ''.args'') (fd_args functionDescription)
                           (rq_args (ctx_request ctx))) (\<lambda>args.
                  bindE (functionImplementation ctx args) (\<lambda>ret.
                  bindE (pf_encode pf (typeTable api) (name @ ''.ret'') (fd_ret functionDescription) ret)
                    (\<lambda>encodedRet. Inr (result_reply encodedRet)))))
      in case attempt of
           Inr reply \<Rightarrow> Inr reply
         | Inl e \<Rightarrow> caught e)"

text \<open>\<^verbatim>\<open>path.startsWith(prefix)\<close> and \<^verbatim>\<open>path.slice(prefix.length)\<close>.\<close>

definition strip_prefix :: "string \<Rightarrow> string \<Rightarrow> string" where
  "strip_prefix pre path =
     (if take (length pre) path = pre then drop (length pre) path else path)"

text \<open>
  The asynchronous body of a request. The result is the state it leaves and, when its
  promise is rejected, the exception.
\<close>

definition handleRequestWithBody ::
  "('x, 're) platform \<Rightarrow> ('x, 're) server \<Rightarrow> request \<Rightarrow> string \<Rightarrow> rng \<Rightarrow> io \<Rightarrow> io \<times> exn option" where
  "handleRequestWithBody pf srv req body g s =
     (let path = strip_prefix (ignoredUrlPrefix srv) (req_pathname req) in
      case findBestHandler (pf_exec pf) (handlers srv) path req of
        Inl e \<Rightarrow> (s, Some e)
      | Inr (Some externalHandler) \<Rightarrow>
          h_handler externalHandler req body
            (log (pf_env pf) (''HTTP '' @ req_method req @ '' '' @ path) s)
      | Inr None \<Rightarrow>
          (let s1 = setHeader ''Content-Type'' ''application/json; charset=utf-8'' s in
           if req_method req = ''HEAD'' then (res_end (writeHead 200 s1), None)
           else if req_method req = ''GET'' then
             (let ok = (case onHealthCheck (apiConfig srv) of Inl e \<Rightarrow> False | Inr b \<Rightarrow> b) in
              (res_end (res_write (Json (JObj [(''ok'', JBool ok)]))
                          (writeHead (if ok then 200 else 500) s1)), None))
           else if req_method req \<noteq> ''POST'' then (res_end (writeHead 400 s1), None)
           else
             (case req_clientIp req of
                None \<Rightarrow>
                  (writeReply (pf_env pf) (None :: 'x Context option)
                     (error_reply (JStr ''Fatal'') (JStr ''Couldn't determine client IP'')) s1, None)
              | Some clientIp \<Rightarrow>
                  if clientIp = [] then
                    (writeReply (pf_env pf) (None :: 'x Context option)
                       (error_reply (JStr ''Fatal'') (JStr ''Couldn't determine client IP'')) s1,
                     None)
                  else
                    (case parseRequest (pf_json_parse pf) (pf_decode pf) req body g of
                       Inl e \<Rightarrow> (s1, Some e)
                     | Inr (request, g') \<Rightarrow>
                         (let ctx = \<lparr> ctx_extra = extraContext srv, ctx_ip = clientIp,
                                      ctx_request = request,
                                      ctx_hrStart = env_hrtime (pf_env pf) \<rparr>;
                              name = toStr (rq_name request);
                              functionDescription = js_read (functionTable (apiConfig srv)) name;
                              functionImplementation = js_read (fn (apiConfig srv)) name
                          in if falsy_member functionDescription \<or>
                                falsy_member functionImplementation
                             then
                               (writeReply (pf_env pf) (Some ctx)
                                  (error_reply (JStr ''Fatal'')
                                     (JStr (''Function does not exist: '' @ name))) s1,
                                None)
                             else
                               (case execute pf (apiConfig srv) ctx
                                       (member_description functionDescription)
                                       (member_impl pf name functionImplementation) of
                                  Inl e \<Rightarrow> (s1, Some e)
                                | Inr reply \<Rightarrow>
                                    (case onRequestEnd (apiConfig srv) ctx reply of
                                       Inl e \<Rightarrow> (s1, Some e)
                                     | Inr ended \<Rightarrow>
                                         (writeReply (pf_env pf) (Some ctx)
                                            (case ended of Some r \<Rightarrow> r | None \<Rightarrow> reply) s1,
                                          None))))))))"

text \<open>
  The entry point: CORS and the registered headers, the preflight reply, and the
  request's body handed on; a rejection is written as a reply without context. The
  callback that writes it calls \<^verbatim>\<open>e.toString()\<close> first: where that throws, nothing handles
  it and nothing is written.
\<close>

definition handleRequest ::
  "('x, 're) platform \<Rightarrow> ('x, 're) server \<Rightarrow> request \<Rightarrow> string \<Rightarrow> rng \<Rightarrow> io \<Rightarrow> io" where
  "handleRequest pf srv req body g s =
     (let origin = (case map_of (req_headers req) ''origin'' of None \<Rightarrow> [] | Some v \<Rightarrow> v);
          s1 = (if dynamicCorsOrigin srv \<and> origin \<noteq> []
                then setHeader ''Vary'' ''Origin''
                       (setHeader ''Access-Control-Allow-Origin'' origin s)
                else s);
          s2 = fold (\<lambda>(header, v) t.
                       if req_method req = ''OPTIONS'' \<and>
                          take 15 header \<noteq> ''access-control-''
                       then t else setHeader header v t)
                 (headers srv) s1
      in if req_method req = ''OPTIONS'' then res_end (writeHead 200 s2)
         else
           (case handleRequestWithBody pf srv req body g s2 of
              (s3, None) \<Rightarrow> s3
            | (s3, Some e) \<Rightarrow>
                (case ex_toString e of
                   Inl e' \<Rightarrow> s3
                 | Inr str \<Rightarrow>
                     writeReply (pf_env pf) (None :: 'x Context option)
                       (error_reply (JStr ''Fatal'') (JStr str)) s3)))"

section \<open>Notions used in the statements\<close>

text \<open>
  The identifier the V3 parser makes from the 16 bytes that start at position \<open>n\<close> of the
  random source.
\<close>

definition random_id :: "rng \<Rightarrow> nat \<Rightarrow> jsval" where
  "random_id g n = JStr (toHex (map (\<lambda>i. g (i + n)) [0..<16]))"

text \<open>An optional string field that is missing, or present and empty.\<close>

definition blank :: "jsval \<Rightarrow> bool" where
  "blank v = (absent v \<or> v = JStr [])"

text \<open>
  Two readings of an optional field that agree, or are both missing or empty; and the
  number of random bytes the V3 parser draws for a field.
\<close>

definition same_or_blank :: "jsval \<Rightarrow> jsval \<Rightarrow> bool" where
  "same_or_blank v w = (v = w \<or> blank v \<and> blank w)"

definition drawn :: "jsval \<Rightarrow> nat" where
  "drawn v = (if truthy v then 0 else 16)"






text \<open>
  The context the dispatcher builds for a parsed request; the requests that reach the
  function lookup (no auxiliary route, a POST, a client address, a body the normalizer
  accepts); the response once the JSON content type is set; and the access log line.
\<close>

definition make_ctx :: "('x, 're) platform \<Rightarrow> ('x, 're) server \<Rightarrow> string \<Rightarrow> ContextRequest \<Rightarrow> 'x Context" where
  "make_ctx pf srv ip request =
     \<lparr> ctx_extra = extraContext srv, ctx_ip = ip, ctx_request = request,
       ctx_hrStart = env_hrtime (pf_env pf) \<rparr>"

definition rpc_request ::
  "('x, 're) platform \<Rightarrow> ('x, 're) server \<Rightarrow> request \<Rightarrow> string \<Rightarrow> rng \<Rightarrow> string \<Rightarrow> ContextRequest \<Rightarrow> bool" where
  "rpc_request pf srv req body g ip request =
     (findBestHandler (pf_exec pf) (handlers srv)
        (strip_prefix (ignoredUrlPrefix srv) (req_pathname req)) req = Inr None \<and>
      req_method req = ''POST'' \<and>
      req_clientIp req = Some ip \<and> ip \<noteq> [] \<and>
      (\<exists>g'. parseRequest (pf_json_parse pf) (pf_decode pf) req body g = Inr (request, g')))"

definition json_header :: "io \<Rightarrow> io" where
  "json_header s = setHeader ''Content-Type'' ''application/json; charset=utf-8'' s"

definition access_log :: "env \<Rightarrow> 'x Context \<Rightarrow> string \<Rightarrow> string" where
  "access_log e ctx outcome =
     env_now e @ '' '' @ toStr (rq_id (ctx_request ctx)) @ '' ['' @
     env_toFixed6 e (env_duration e (ctx_hrStart ctx)) @ ''s] '' @
     toStr (rq_name (ctx_request ctx)) @ ''() -> '' @ outcome"

section \<open>A sample host\<close>

text \<open>
  Concrete collaborators for the closed examples below. The clock reads zero, the JSON
  parser returns a given value, the decoder returns a given decoded request for the
  request schemas (path \<^verbatim>\<open>root\<close>) and passes arguments and results through, and no
  pattern matches. An inherited member called as the dispatcher calls an implementation,
  with no receiver, does what the built-in does: \<^verbatim>\<open>constructor\<close> (the function \<^verbatim>\<open>Object\<close>)
  returns its first argument, the context; \<^verbatim>\<open>toString\<close> returns \<^verbatim>\<open>"[object Undefined]"\<close>; the
  others need a receiver, or are not functions (\<^verbatim>\<open>__proto__\<close>), and throw a \<^verbatim>\<open>TypeError\<close>.

  The server has the headers and the four GET routes its constructor registers (their
  callbacks, which call the source generators, are not modelled: a POST never reaches
  them), one function \<^verbatim>\<open>ping\<close> that returns a given value (the one own entry of both
  tables), no extra context, and hooks that return nothing. The sample bodies are one
  minimal request per protocol generation, as parsed, as decoded (optional fields
  \<^verbatim>\<open>null\<close>) and as normalized.
\<close>

definition sample_env :: env where
  "sample_env =
     \<lparr> env_now = ''2026-01-01T00:00:00.000Z'', env_hostname = ''host'', env_hrtime = (0, 0),
       env_duration = (\<lambda>start. JNum 0), env_toFixed6 = (\<lambda>d. ''0.000000'') \<rparr>"

definition request_value :: "ContextRequest \<Rightarrow> jsval" where
  "request_value rq =
     JObj [(''version'', JNum (int (rq_version rq))),
           (''id'', rq_id rq),
           (''args'', rq_args rq),
           (''name'', rq_name rq),
           (''extra'', rq_extra rq),
           (''headers'', JObj (map (\<lambda>(k, v). (k, JStr v)) (rq_headers rq))),
           (''deviceInfo'',
            JObj [(''id'', di_id (rq_deviceInfo rq)),
                  (''language'', di_language (rq_deviceInfo rq)),
                  (''platform'', di_platform (rq_deviceInfo rq)),
                  (''timezone'', di_timezone (rq_deviceInfo rq)),
                  (''type'', di_type (rq_deviceInfo rq)),
                  (''version'', di_version (rq_deviceInfo rq))])]"

definition context_value :: "unit Context \<Rightarrow> jsval" where
  "context_value ctx =
     JObj [(''ip'', JStr (ctx_ip ctx)),
           (''request'', request_value (ctx_request ctx)),
           (''hrStart'', JArr [JNum (int (fst (ctx_hrStart ctx))),
                               JNum (int (snd (ctx_hrStart ctx)))])]"

definition sample_builtin :: "string \<Rightarrow> unit Context \<Rightarrow> jsval \<Rightarrow> exn + jsval" where
  "sample_builtin name ctx args =
     (if name = ''constructor'' then Inr (context_value ctx)
      else if name = ''toString'' then Inr (JStr ''[object Undefined]'')
      else if name = ''__proto__''
      then Inl (TypeError ''functionImplementation is not a function'')
      else Inl (TypeError ''Cannot convert undefined or null to object''))"

definition sample_platform :: "jsval \<Rightarrow> jsval \<Rightarrow> (unit, string) platform" where
  "sample_platform json decoded =
     \<lparr> pf_json_parse = (\<lambda>body. Inr json),
       pf_decode = (\<lambda>types path t v. if path = ''root'' then Inr decoded else Inr v),
       pf_encode = (\<lambda>types path t v. Inr v),
       pf_exec = (\<lambda>r path. None),
       pf_env = sample_env,
       pf_builtin = sample_builtin \<rparr>"

definition sample_server :: "jsval \<Rightarrow> (unit, string) server" where
  "sample_server ret =
     \<lparr> apiConfig =
         \<lparr> functionTable =
             (\<lambda>name. if name = ''ping''
                     then Some \<lparr> fd_args = TFields [], fd_ret = TName ''any'' \<rparr> else None),
           typeTable = [],
           fn = (\<lambda>name. if name = ''ping'' then Some (\<lambda>ctx args. Inr ret) else None),
           onHealthCheck = Inr True,
           onRequestStart = (\<lambda>ctx. Inr None),
           onRequestEnd = (\<lambda>ctx reply. Inr None) \<rparr>,
       extraContext = (),
       headers =
         [(''access-control-allow-methods'', ''DELETE, HEAD, PUT, POST, PATCH, GET, OPTIONS''),
          (''access-control-allow-headers'', ''Content-Type''),
          (''access-control-max-age'', ''86400'')],
       handlers =
         map (\<lambda>path. \<lparr> h_method = ''GET'', h_matcher = Literal path,
                        h_handler = (\<lambda>req body s. (res_end s, None)) \<rparr>)
           [''/targets/node/api.ts'', ''/targets/node/client.ts'', ''/targets/web/client.ts'',
            ''/targets/flutter/client.dart''],
       dynamicCorsOrigin = True,
       ignoredUrlPrefix = [] \<rparr>"

definition sample_post :: request where
  "sample_post =
     \<lparr> req_method = ''POST'', req_pathname = ''/'', req_headers = [],
       req_clientIp = Some ''10.0.0.1'' \<rparr>"

definition v1_body :: "string \<Rightarrow> jsval" where
  "v1_body name =
     JObj [(''id'', JStr ''r1''), (''args'', JObj []), (''name'', JStr name),
           (''device'', JObj [])]"

definition v1_decoded :: "string \<Rightarrow> jsval" where
  "v1_decoded name =
     JObj [(''id'', JStr ''r1''), (''args'', JObj []), (''name'', JStr name),
           (''device'', JObj [(''id'', JNull), (''type'', JNull), (''platform'', JNull),
                              (''version'', JNull), (''language'', JNull),
                              (''timezone'', JNull)])]"

definition v1_request :: "string \<Rightarrow> ContextRequest" where
  "v1_request name =
     \<lparr> rq_version = 1, rq_id = JStr ''r1'', rq_args = JObj [], rq_name = JStr name,
       rq_extra = JObj [], rq_headers = [],
       rq_deviceInfo =
         \<lparr> di_id = JStr ''r1'', di_language = JNull, di_platform = JNull,
           di_timezone = JNull, di_type = JStr [], di_version = JNull \<rparr> \<rparr>"

definition v2_body :: "string \<Rightarrow> jsval" where
  "v2_body name =
     JObj [(''requestId'', JStr ''r2''), (''deviceId'', JStr ''d2''), (''args'', JObj []),
           (''name'', JStr name),
           (''info'', JObj [(''type'', JStr ''web''), (''language'', JStr ''en'')])]"

definition v2_decoded :: "string \<Rightarrow> jsval" where
  "v2_decoded name =
     JObj [(''requestId'', JStr ''r2''), (''deviceId'', JStr ''d2''), (''sessionId'', JNull),
           (''partnerId'', JNull), (''args'', JObj []), (''name'', JStr name),
           (''info'', JObj [(''type'', JStr ''web''), (''browserUserAgent'', JNull),
                            (''language'', JStr ''en'')])]"

definition v2_request :: "string \<Rightarrow> ContextRequest" where
  "v2_request name =
     \<lparr> rq_version = 2, rq_id = JStr ''r2'', rq_args = JObj [], rq_name = JStr name,
       rq_extra = JObj [(''sessionId'', JNull), (''partnerId'', JNull)], rq_headers = [],
       rq_deviceInfo =
         \<lparr> di_id = JStr ''d2'', di_language = JStr ''en'',
           di_platform = JObj [(''browserUserAgent'', JNull)],
           di_timezone = JNull, di_type = JStr ''web'', di_version = JStr [] \<rparr> \<rparr>"

definition v3_body :: "string \<Rightarrow> jsval" where
  "v3_body name =
     JObj [(''version'', JNum 3), (''requestId'', JStr ''r3''), (''name'', JStr name),
           (''args'', JObj []), (''deviceInfo'', JObj [(''id'', JStr ''d3'')])]"

definition v3_decoded :: "string \<Rightarrow> jsval" where
  "v3_decoded name =
     JObj [(''requestId'', JStr ''r3''), (''name'', JStr name), (''args'', JObj []),
           (''extra'', JNull),
           (''deviceInfo'', JObj [(''id'', JStr ''d3''), (''type'', JNull),
                                  (''browserUserAgent'', JNull), (''timezone'', JNull),
                                  (''version'', JNull), (''language'', JNull)])]"

definition v3_request :: "string \<Rightarrow> ContextRequest" where
  "v3_request name =
     \<lparr> rq_version = 3, rq_id = JStr ''r3'', rq_args = JObj [], rq_name = JStr name,
       rq_extra = JObj [], rq_headers = [],
       rq_deviceInfo =
         \<lparr> di_id = JStr ''d3'', di_language = JNull,
           di_platform = JObj [(''browserUserAgent'', JNull)],
           di_timezone = JNull, di_type = JStr ''api'', di_version = JNull \<rparr> \<rparr>"

definition with_hooks ::
  "('x Context \<Rightarrow> exn + ContextReply option) \<Rightarrow>
   ('x Context \<Rightarrow> ContextReply \<Rightarrow> exn + ContextReply option) \<Rightarrow>
   ('x, 're) server \<Rightarrow> ('x, 're) server" where
  "with_hooks start finish srv =
     srv\<lparr> apiConfig := (apiConfig srv)\<lparr> onRequestStart := start, onRequestEnd := finish \<rparr> \<rparr>"

definition syntax_error :: exn where
  "syntax_error =
     Thrown (Inr JUndefined) (Inr (JStr ''Unexpected token h in JSON at position 0''))
       (Inr ''SyntaxError: Unexpected token h in JSON at position 0'')"

section \<open>Properties of the values\<close>

lemma digit_char_dec: "d < 10 \<Longrightarrow> digit_char d \<in> set ''0123456789''"
proof -
  assume "d < 10"
  then have "d \<in> {0, 1, 2, 3, 4, 5, 6, 7, 8, 9}" by auto
  then show ?thesis by (auto simp: digit_char_def)
qed

lemma string_of_nat_digits: "set (string_of_nat n) \<subseteq> set ''0123456789''"
proof (induction n rule: string_of_nat.induct)
  case (1 n)
  show ?case
  proof (cases "n < 10")
    case True
    then show ?thesis using digit_char_dec [of n] by (subst string_of_nat.simps) simp
  next
    case False
    have "n mod 10 < 10" by simp
    then have "digit_char (n mod 10) \<in> set ''0123456789''" by (rule digit_char_dec)
    with 1 False show ?thesis by (subst string_of_nat.simps) simp
  qed
qed

lemma index_of_non_digit:
  "k \<noteq> [] \<Longrightarrow> hd k \<notin> set ''0123456789'' \<Longrightarrow> index_of k n = None"
proof -
  assume k: "k \<noteq> []" "hd k \<notin> set ''0123456789''"
  have "string_of_nat i \<noteq> k" for i
  proof
    assume "string_of_nat i = k"
    with k have "hd k \<in> set (string_of_nat i)" by auto
    with string_of_nat_digits [of i] k show False by blast
  qed
  then show ?thesis by (simp add: index_of_def find_None_iff)
qed

section \<open>Version detection\<close>

text \<open>
  Claim C1, for a body whose JSON value is an object or an array. When the value is an
  object with a \<^verbatim>\<open>version\<close> field, the detected version is that field's value as it
  stands; otherwise it is 2 when the object has a \<^verbatim>\<open>requestId\<close> field, and 1 when it has
  neither. An array has neither field, so its version is 1. A body whose \<^verbatim>\<open>version\<close> is
  the number 3 is parsed by the V3 parser, whatever other fields it has.
\<close>

theorem identifyRequestVersion_detects:
  assumes "json_parse body = Inr parsed"
  shows "(parsed = JObj kvs \<longrightarrow>
            identifyRequestVersion json_parse body =
              Inr (case map_of kvs ''version'' of
                     Some v \<Rightarrow> v
                   | None \<Rightarrow> if ''requestId'' \<in> fst ` set kvs then JNum 2 else JNum 1)) \<and>
         (parsed = JArr xs \<longrightarrow> identifyRequestVersion json_parse body = Inr (JNum 1)) \<and>
         (parsed = JObj kvs \<and> map_of kvs ''version'' = Some (JNum 3) \<longrightarrow>
            parseRequest json_parse decode req body g =
              parseRequestV3 json_parse decode req body g)"
proof (intro conjI impI)
  assume p: "parsed = JObj kvs"
  show "identifyRequestVersion json_parse body =
      Inr (case map_of kvs ''version'' of
             Some v \<Rightarrow> v
           | None \<Rightarrow> if ''requestId'' \<in> fst ` set kvs then JNum 2 else JNum 1)"
  proof (cases "map_of kvs ''version''")
    case None
    then have "''version'' \<notin> fst ` set kvs"
      by (simp add: map_of_eq_None_iff)
    with assms p None show ?thesis
      by (simp add: identifyRequestVersion_def bindE_def own_prop_def)
  next
    case (Some v)
    then have "''version'' \<in> fst ` set kvs"
      using map_of_eq_None_iff [of kvs "''version''"] by simp
    with assms p Some show ?thesis
      by (simp add: identifyRequestVersion_def bindE_def own_prop_def)
  qed
next
  assume "parsed = JArr xs"
  with assms show "identifyRequestVersion json_parse body = Inr (JNum 1)"
    by (simp add: identifyRequestVersion_def bindE_def index_of_non_digit)
next
  assume "parsed = JObj kvs \<and> map_of kvs ''version'' = Some (JNum 3)"
  with assms have "identifyRequestVersion json_parse body = Inr (JNum 3)"
    using map_of_eq_None_iff [of kvs "''version''"]
    by (simp add: identifyRequestVersion_def bindE_def own_prop_def)
  then show "parseRequest json_parse decode req body g =
      parseRequestV3 json_parse decode req body g"
    by (simp add: parseRequest_def bindE_def)
qed

theorem identifyRequestVersion_detects_witness:
  "identifyRequestVersion (\<lambda>b. Inr (JObj [(''version'', JNum 3), (''requestId'', JStr ''abc'')]))
     ''body'' = Inr (JNum 3) \<and>
   identifyRequestVersion (\<lambda>b. Inr (JObj [(''requestId'', JStr ''abc'')])) ''body'' = Inr (JNum 2)"
  using identifyRequestVersion_detects
          [of "\<lambda>b. Inr (JObj [(''version'', JNum 3), (''requestId'', JStr ''abc'')])" "''body''"
              "JObj [(''version'', JNum 3), (''requestId'', JStr ''abc'')]"
              "[(''version'', JNum 3), (''requestId'', JStr ''abc'')]"]
        identifyRequestVersion_detects
          [of "\<lambda>b. Inr (JObj [(''requestId'', JStr ''abc'')])" "''body''"
              "JObj [(''requestId'', JStr ''abc'')]" "[(''requestId'', JStr ''abc'')]"]
  by simp

text \<open>
  Claim C1 as stated covers every valid JSON body. The body \<^verbatim>\<open>null\<close> is valid JSON and has
  neither field, yet no version is detected: \<^verbatim>\<open>"version" in null\<close> throws.
\<close>

theorem identifyRequestVersion_null_counterexample:
  "identifyRequestVersion (\<lambda>b. Inr JNull) ''null'' \<noteq> Inr (JNum 1) \<and>
   (\<exists>e. identifyRequestVersion (\<lambda>b. Inr JNull) ''null'' = Inl e)"
  by (simp add: identifyRequestVersion_def bindE_def own_prop_def)

section \<open>Random identifiers\<close>

lemma digit_char_hex: "d < 16 \<Longrightarrow> is_hex_char (digit_char d)"
proof -
  assume "d < 16"
  then have "d < length ''0123456789abcdef''" by simp
  then have "''0123456789abcdef'' ! d \<in> set ''0123456789abcdef''" by (rule nth_mem)
  then show ?thesis by (simp only: digit_char_def is_hex_char_def)
qed

lemma digit_char_inj: "d < 16 \<Longrightarrow> e < 16 \<Longrightarrow> digit_char d = digit_char e \<Longrightarrow> d = e"
proof -
  assume a: "d < 16" "e < 16" "digit_char d = digit_char e"
  have "distinct ''0123456789abcdef''" by simp
  moreover have "length ''0123456789abcdef'' = 16" by simp
  ultimately show ?thesis
    using a nth_eq_iff_index_eq [of "''0123456789abcdef''" d e]
    by (simp add: digit_char_def)
qed

lemma unat_byte_div: "unat (b :: 8 word) div 16 < 16"
proof -
  have "unat b < 2 ^ LENGTH(8)" by (rule unsigned_less)
  then have "unat b < 256" by simp
  then show ?thesis by simp
qed

lemma hex_byte_inj: "hex_byte b = hex_byte c \<Longrightarrow> b = c"
proof -
  assume "hex_byte b = hex_byte c"
  then have h: "digit_char (unat b div 16) = digit_char (unat c div 16)"
               "digit_char (unat b mod 16) = digit_char (unat c mod 16)"
    by (simp_all add: hex_byte_def)
  have d: "unat b div 16 = unat c div 16"
    using digit_char_inj [OF unat_byte_div unat_byte_div h(1)] .
  have m: "unat b mod 16 = unat c mod 16"
    using digit_char_inj [OF _ _ h(2)] by simp
  have "unat b = unat b div 16 * 16 + unat b mod 16" by simp
  also have "\<dots> = unat c div 16 * 16 + unat c mod 16" by (simp only: d m)
  also have "\<dots> = unat c" by simp
  finally have "unat b = unat c" .
  then show ?thesis by (rule word_unat_eq_iff [THEN iffD2])
qed

lemma toHex_inj: "toHex bs = toHex cs \<Longrightarrow> bs = cs"
proof (induction bs arbitrary: cs)
  case Nil
  then show ?case by (cases cs) (simp_all add: toHex_def hex_byte_def)
next
  case (Cons b bs)
  show ?case
  proof (cases cs)
    case Nil
    with Cons.prems show ?thesis by (simp add: toHex_def hex_byte_def)
  next
    case (Cons c cs')
    with Cons.prems have "hex_byte b @ toHex bs = hex_byte c @ toHex cs'"
      by (simp add: toHex_def)
    moreover have "length (hex_byte b) = length (hex_byte c)" by (simp add: hex_byte_def)
    ultimately have "hex_byte b = hex_byte c" "toHex bs = toHex cs'" by simp_all
    with Cons.IH Cons show ?thesis by (simp add: hex_byte_inj)
  qed
qed

lemma length_toHex: "length (toHex bs) = 2 * length bs"
  by (induction bs) (simp_all add: toHex_def hex_byte_def)

lemma toHex_hex_chars: "c \<in> set (toHex bs) \<Longrightarrow> is_hex_char c"
proof (induction bs)
  case Nil
  then show ?case by (simp add: toHex_def)
next
  case (Cons b bs)
  have "unat b mod 16 < 16" by simp
  with Cons unat_byte_div [of b] show ?case
    by (auto simp: toHex_def hex_byte_def digit_char_hex)
qed

lemma or_random_present: "truthy v \<Longrightarrow> or_random v g = (v, g)"
  by (simp add: or_random_def)

lemma absent_falsy: "absent v \<Longrightarrow> \<not> truthy v"
  by (auto simp: absent_def)

lemma js_or_absent: "absent v \<Longrightarrow> js_or v d = d"
  by (auto simp: absent_def js_or_def)

section \<open>Normalization\<close>

text \<open>What the V3 parser returns for a decoded object, field by field.\<close>

lemma parseRequestV3_decoded:
  assumes "json_parse body = Inr json"
    and "decode typesV3 ''root'' (TName ''Request'') json = Inr (JObj kvs)"
    and "js_or (own_prop kvs ''deviceInfo'') (JObj []) = JObj dkvs"
  shows "parseRequestV3 json_parse decode req body g =
     Inr (\<lparr> rq_version = 3,
            rq_id = fst (or_random (own_prop kvs ''requestId'') g),
            rq_args = own_prop kvs ''args'',
            rq_name = own_prop kvs ''name'',
            rq_extra = (if truthy (own_prop kvs ''extra'')
                        then JObj (spread (own_prop kvs ''extra'')) else JObj []),
            rq_headers = req_headers req,
            rq_deviceInfo =
              \<lparr> di_id = fst (or_random (own_prop dkvs ''id'')
                                (snd (or_random (own_prop kvs ''requestId'') g))),
                di_language = js_or (own_prop dkvs ''language'') JNull,
                di_platform = JObj [(''browserUserAgent'',
                                     js_or (own_prop dkvs ''browserUserAgent'') JNull)],
                di_timezone = js_or (own_prop dkvs ''timezone'') JNull,
                di_type = js_or (own_prop dkvs ''type'') (JStr ''api''),
                di_version = js_or (own_prop dkvs ''version'') JNull \<rparr> \<rparr>,
          snd (or_random (own_prop dkvs ''id'')
                 (snd (or_random (own_prop kvs ''requestId'') g))))"
  using assms
  by (simp add: parseRequestV3_def bindE_def Let_def split: prod.splits)

lemma parseRequestV1_decoded:
  assumes "json_parse body = Inr json"
    and "decode typesV1 ''root'' (TName ''Request'') json = Inr (JObj kvs)"
    and "own_prop kvs ''device'' = JObj dkvs"
  shows "parseRequestV1 json_parse decode req body =
     Inr \<lparr> rq_version = 1,
           rq_id = own_prop kvs ''id'',
           rq_args = own_prop kvs ''args'',
           rq_name = own_prop kvs ''name'',
           rq_extra = JObj [],
           rq_headers = req_headers req,
           rq_deviceInfo =
             \<lparr> di_id = js_or (own_prop dkvs ''id'') (own_prop kvs ''id''),
               di_language = own_prop dkvs ''language'',
               di_platform = own_prop dkvs ''platform'',
               di_timezone = own_prop dkvs ''timezone'',
               di_type = js_or (js_or (own_prop dkvs ''type'') (own_prop dkvs ''platform''))
                           (JStr []),
               di_version = own_prop dkvs ''version'' \<rparr> \<rparr>"
  using assms
  by (simp add: parseRequestV1_def bindE_def)


lemma parseRequestV2_decoded:
  assumes "json_parse body = Inr json"
    and "decode typesV2 ''root'' (TName ''Request'') json = Inr (JObj kvs)"
    and "own_prop kvs ''info'' = JObj ikvs"
  shows "parseRequestV2 json_parse decode req body =
     Inr \<lparr> rq_version = 2,
           rq_id = own_prop kvs ''requestId'',
           rq_args = own_prop kvs ''args'',
           rq_name = own_prop kvs ''name'',
           rq_extra = JObj [(''sessionId'', own_prop kvs ''sessionId''),
                            (''partnerId'', own_prop kvs ''partnerId'')],
           rq_headers = req_headers req,
           rq_deviceInfo =
             \<lparr> di_id = own_prop kvs ''deviceId'',
               di_language = own_prop ikvs ''language'',
               di_platform = JObj [(''browserUserAgent'',
                                    js_or (own_prop ikvs ''browserUserAgent'') JNull)],
               di_timezone = JNull,
               di_type = own_prop ikvs ''type'',
               di_version = JStr [] \<rparr> \<rparr>"
  using assms
  by (simp add: parseRequestV2_def bindE_def)

lemma or_random_falsy:
  "\<not> truthy v \<Longrightarrow> or_random v g = (random_id g 0, \<lambda>i. g (i + 16))"
  by (simp add: or_random_def randomBytes_def random_id_def)

lemma random_id_shift: "random_id (\<lambda>i. g (i + k)) n = random_id g (n + k)"
  by (simp add: random_id_def add.assoc)

lemma random_id_shape:
  "random_id g n = JStr s \<Longrightarrow> length s = 32 \<and> (\<forall>c \<in> set s. is_hex_char c)"
  by (auto simp: random_id_def length_toHex toHex_hex_chars)

lemma random_id_inj:
  "random_id g n = random_id h m \<Longrightarrow>
     map (\<lambda>i. g (i + n)) [0..<16] = map (\<lambda>i. h (i + m)) [0..<16]"
  by (simp only: random_id_def jsval.inject toHex_inj)

lemma random_id_eq_iff:
  "(random_id g n = random_id h m) =
     (map (\<lambda>i. g (i + n)) [0..<16] = map (\<lambda>i. h (i + m)) [0..<16])"
proof
  assume "random_id g n = random_id h m"
  then show "map (\<lambda>i. g (i + n)) [0..<16] = map (\<lambda>i. h (i + m)) [0..<16]"
    by (rule random_id_inj)
next
  assume "map (\<lambda>i. g (i + n)) [0..<16] = map (\<lambda>i. h (i + m)) [0..<16]"
  then show "random_id g n = random_id h m" by (simp only: random_id_def)
qed

lemma or_random_fst: "fst (or_random v g) = (if truthy v then v else random_id g 0)"
  by (simp add: or_random_present or_random_falsy)

lemma or_random_snd: "snd (or_random v g) = (\<lambda>i. g (i + drawn v))"
  by (simp add: or_random_present or_random_falsy drawn_def)

lemma or_random_twice:
  "fst (or_random w (snd (or_random v g))) = (if truthy w then w else random_id g (drawn v))"
  "snd (or_random w (snd (or_random v g))) = (\<lambda>i. g (i + (drawn v + drawn w)))"
  by (simp_all add: or_random_fst or_random_snd random_id_shift add.assoc add.commute [of "drawn w"])

text \<open>The V3 parser on a decoded object, with the identifiers and the random source written out.\<close>

lemma parseRequestV3_fields:
  assumes "json_parse body = Inr json"
    and "decode typesV3 ''root'' (TName ''Request'') json = Inr (JObj kvs)"
    and "js_or (own_prop kvs ''deviceInfo'') (JObj []) = JObj dkvs"
  shows "parseRequestV3 json_parse decode req body g =
     Inr (\<lparr> rq_version = 3,
            rq_id = (if truthy (own_prop kvs ''requestId'') then own_prop kvs ''requestId''
                     else random_id g 0),
            rq_args = own_prop kvs ''args'',
            rq_name = own_prop kvs ''name'',
            rq_extra = (if truthy (own_prop kvs ''extra'')
                        then JObj (spread (own_prop kvs ''extra'')) else JObj []),
            rq_headers = req_headers req,
            rq_deviceInfo =
              \<lparr> di_id = (if truthy (own_prop dkvs ''id'') then own_prop dkvs ''id''
                         else random_id g (drawn (own_prop kvs ''requestId''))),
                di_language = js_or (own_prop dkvs ''language'') JNull,
                di_platform = JObj [(''browserUserAgent'',
                                     js_or (own_prop dkvs ''browserUserAgent'') JNull)],
                di_timezone = js_or (own_prop dkvs ''timezone'') JNull,
                di_type = js_or (own_prop dkvs ''type'') (JStr ''api''),
                di_version = js_or (own_prop dkvs ''version'') JNull \<rparr> \<rparr>,
          \<lambda>i. g (i + (drawn (own_prop kvs ''requestId'') + drawn (own_prop dkvs ''id''))))"
  unfolding parseRequestV3_decoded
              [where json_parse = json_parse and body = body and json = json and
                     decode = decode and kvs = kvs and dkvs = dkvs and req = req and g = g,
               OF assms]
            or_random_twice
  unfolding or_random_fst
  by (rule refl)

text \<open>
  Claim C2. The decoder is a collaborator, so the statement is about what it returns: a
  field is absent when it reads as \<^verbatim>\<open>undefined\<close> or \<^verbatim>\<open>null\<close> in the decoded request.

  V3: when the decoder returns an object, the parser returns a request, and the random
  source advanced by the bytes it drew. An absent \<^verbatim>\<open>requestId\<close> becomes the identifier
  made from the next 16 random bytes, and an absent device id the one made from the 16
  bytes after those the request id took; the device type defaults to \<^verbatim>\<open>"api"\<close>; language,
  timezone and version default to \<^verbatim>\<open>null\<close>, and the user agent to \<^verbatim>\<open>null\<close> inside the
  platform object. \<^verbatim>\<open>extra\<close> defaults to the empty object, and an object given as
  \<^verbatim>\<open>extra\<close> is copied as it stands; in general the result is the object of the own
  enumerable properties of a truthy \<^verbatim>\<open>extra\<close>, and the empty object for a falsy one.

  V1: the device id defaults to the request id, and the device type to the platform,
  or to the empty string when the platform is absent too.

  V2 has no optional field with a default of its own: the timezone is \<^verbatim>\<open>null\<close>, the
  version the empty string, \<^verbatim>\<open>extra\<close> holds the session and partner ids, and an absent
  user agent is \<^verbatim>\<open>null\<close> inside the platform object.

  A generated identifier has 32 characters, all lowercase hexadecimal digits, and two
  identifiers are equal exactly when they are made from the same bytes. So when a body
  without \<^verbatim>\<open>requestId\<close> is parsed twice in a row, the second call reading the random source
  where the first left it, the two request ids are equal exactly when the source yields
  the same 16 bytes again.
\<close>

theorem parse_defaults:
  assumes "json_parse body = Inr json"
  shows
    "(decode typesV3 ''root'' (TName ''Request'') json = Inr (JObj kvs) \<and>
      js_or (own_prop kvs ''deviceInfo'') (JObj []) = JObj dkvs \<longrightarrow>
       (\<exists>r. parseRequestV3 json_parse decode req body g =
               Inr (r, \<lambda>i. g (i + (drawn (own_prop kvs ''requestId'') +
                                     drawn (own_prop dkvs ''id'')))) \<and>
          (absent (own_prop kvs ''requestId'') \<longrightarrow> rq_id r = random_id g 0) \<and>
          (absent (own_prop dkvs ''id'') \<longrightarrow>
             di_id (rq_deviceInfo r) =
               random_id g (if truthy (own_prop kvs ''requestId'') then 0 else 16)) \<and>
          (absent (own_prop dkvs ''type'') \<longrightarrow> di_type (rq_deviceInfo r) = JStr ''api'') \<and>
          (absent (own_prop dkvs ''language'') \<longrightarrow> di_language (rq_deviceInfo r) = JNull) \<and>
          (absent (own_prop dkvs ''timezone'') \<longrightarrow> di_timezone (rq_deviceInfo r) = JNull) \<and>
          (absent (own_prop dkvs ''version'') \<longrightarrow> di_version (rq_deviceInfo r) = JNull) \<and>
          (absent (own_prop dkvs ''browserUserAgent'') \<longrightarrow>
             di_platform (rq_deviceInfo r) = JObj [(''browserUserAgent'', JNull)]) \<and>
          (absent (own_prop kvs ''extra'') \<longrightarrow> rq_extra r = JObj []) \<and>
          (own_prop kvs ''extra'' = JObj ex \<longrightarrow> rq_extra r = JObj ex) \<and>
          rq_extra r = JObj (if truthy (own_prop kvs ''extra'')
                             then spread (own_prop kvs ''extra'') else []))) \<and>
     (decode typesV3 ''root'' (TName ''Request'') json = Inr (JObj kvs) \<and>
      js_or (own_prop kvs ''deviceInfo'') (JObj []) = JObj dkvs \<and>
      absent (own_prop kvs ''requestId'') \<and>
      parseRequestV3 json_parse decode req body g = Inr (ra, ga) \<and>
      parseRequestV3 json_parse decode req body ga = Inr (rb, gb) \<longrightarrow>
        rq_id ra = random_id g 0 \<and>
        rq_id rb = random_id g (16 + drawn (own_prop dkvs ''id'')) \<and>
        (rq_id ra = rq_id rb) =
          (map g [0..<16] =
           map (\<lambda>i. g (i + (16 + drawn (own_prop dkvs ''id'')))) [0..<16])) \<and>
     (decode typesV1 ''root'' (TName ''Request'') json = Inr (JObj kvs') \<and>
      own_prop kvs' ''device'' = JObj dkvs' \<longrightarrow>
       (\<exists>r. parseRequestV1 json_parse decode req body = Inr r \<and>
          rq_id r = own_prop kvs' ''id'' \<and>
          rq_extra r = JObj [] \<and>
          (absent (own_prop dkvs' ''id'') \<longrightarrow> di_id (rq_deviceInfo r) = rq_id r) \<and>
          (absent (own_prop dkvs' ''type'') \<longrightarrow>
             di_type (rq_deviceInfo r) = js_or (own_prop dkvs' ''platform'') (JStr [])) \<and>
          (absent (own_prop dkvs' ''type'') \<and> absent (own_prop dkvs' ''platform'') \<longrightarrow>
             di_type (rq_deviceInfo r) = JStr []))) \<and>
     (decode typesV2 ''root'' (TName ''Request'') json = Inr (JObj vkvs) \<and>
      own_prop vkvs ''info'' = JObj ikvs \<longrightarrow>
       (\<exists>r. parseRequestV2 json_parse decode req body = Inr r \<and>
          rq_id r = own_prop vkvs ''requestId'' \<and>
          rq_extra r = JObj [(''sessionId'', own_prop vkvs ''sessionId''),
                             (''partnerId'', own_prop vkvs ''partnerId'')] \<and>
          di_timezone (rq_deviceInfo r) = JNull \<and>
          di_version (rq_deviceInfo r) = JStr [] \<and>
          (absent (own_prop ikvs ''browserUserAgent'') \<longrightarrow>
             di_platform (rq_deviceInfo r) = JObj [(''browserUserAgent'', JNull)]))) \<and>
     (\<forall>n s. random_id g n = JStr s \<longrightarrow> length s = 32 \<and> (\<forall>c \<in> set s. is_hex_char c)) \<and>
     (\<forall>n h m. (random_id g n = random_id h m) =
                (map (\<lambda>i. g (i + n)) [0..<16] = map (\<lambda>i. h (i + m)) [0..<16]))"
proof (intro conjI impI allI)
  assume a: "decode typesV3 ''root'' (TName ''Request'') json = Inr (JObj kvs) \<and>
      js_or (own_prop kvs ''deviceInfo'') (JObj []) = JObj dkvs"
  note d = parseRequestV3_fields
             [where json_parse = json_parse and body = body and json = json and
                    decode = decode and kvs = kvs and dkvs = dkvs and req = req and g = g,
              OF assms conjunct1 [OF a] conjunct2 [OF a]]
  show "\<exists>r. parseRequestV3 json_parse decode req body g =
               Inr (r, \<lambda>i. g (i + (drawn (own_prop kvs ''requestId'') +
                                     drawn (own_prop dkvs ''id'')))) \<and>
          (absent (own_prop kvs ''requestId'') \<longrightarrow> rq_id r = random_id g 0) \<and>
          (absent (own_prop dkvs ''id'') \<longrightarrow>
             di_id (rq_deviceInfo r) =
               random_id g (if truthy (own_prop kvs ''requestId'') then 0 else 16)) \<and>
          (absent (own_prop dkvs ''type'') \<longrightarrow> di_type (rq_deviceInfo r) = JStr ''api'') \<and>
          (absent (own_prop dkvs ''language'') \<longrightarrow> di_language (rq_deviceInfo r) = JNull) \<and>
          (absent (own_prop dkvs ''timezone'') \<longrightarrow> di_timezone (rq_deviceInfo r) = JNull) \<and>
          (absent (own_prop dkvs ''version'') \<longrightarrow> di_version (rq_deviceInfo r) = JNull) \<and>
          (absent (own_prop dkvs ''browserUserAgent'') \<longrightarrow>
             di_platform (rq_deviceInfo r) = JObj [(''browserUserAgent'', JNull)]) \<and>
          (absent (own_prop kvs ''extra'') \<longrightarrow> rq_extra r = JObj []) \<and>
          (own_prop kvs ''extra'' = JObj ex \<longrightarrow> rq_extra r = JObj ex) \<and>
          rq_extra r = JObj (if truthy (own_prop kvs ''extra'')
                             then spread (own_prop kvs ''extra'') else [])"
    unfolding d
    by (intro exI conjI impI, rule refl)
       (simp_all add: js_or_absent absent_falsy drawn_def)
next
  assume a: "decode typesV3 ''root'' (TName ''Request'') json = Inr (JObj kvs) \<and>
      js_or (own_prop kvs ''deviceInfo'') (JObj []) = JObj dkvs \<and>
      absent (own_prop kvs ''requestId'') \<and>
      parseRequestV3 json_parse decode req body g = Inr (ra, ga) \<and>
      parseRequestV3 json_parse decode req body ga = Inr (rb, gb)"
  then have dec: "decode typesV3 ''root'' (TName ''Request'') json = Inr (JObj kvs)"
      "js_or (own_prop kvs ''deviceInfo'') (JObj []) = JObj dkvs"
    and ab: "absent (own_prop kvs ''requestId'')"
    and pa: "parseRequestV3 json_parse decode req body g = Inr (ra, ga)"
    and pb: "parseRequestV3 json_parse decode req body ga = Inr (rb, gb)"
    by blast+
  from ab have f: "\<not> truthy (own_prop kvs ''requestId'')" by (rule absent_falsy)
  then have dr: "drawn (own_prop kvs ''requestId'') = 16" by (simp add: drawn_def)
  note d = parseRequestV3_fields
             [where json_parse = json_parse and body = body and json = json and
                    decode = decode and kvs = kvs and dkvs = dkvs and req = req,
              OF assms dec]
  from pa have ra: "rq_id ra = random_id g 0"
    and ga: "ga = (\<lambda>i. g (i + (16 + drawn (own_prop dkvs ''id''))))"
    unfolding d [of g] by (auto simp: f dr)
  from pb have "rq_id rb = random_id ga 0" unfolding d [of ga] by (auto simp: f)
  then have rb: "rq_id rb = random_id g (16 + drawn (own_prop dkvs ''id''))"
    unfolding ga by (simp add: random_id_shift)
  show "rq_id ra = random_id g 0" by (rule ra)
  show "rq_id rb = random_id g (16 + drawn (own_prop dkvs ''id''))" by (rule rb)
  show "(rq_id ra = rq_id rb) =
          (map g [0..<16] =
           map (\<lambda>i. g (i + (16 + drawn (own_prop dkvs ''id'')))) [0..<16])"
    unfolding ra rb random_id_eq_iff by simp
next
  assume a: "decode typesV1 ''root'' (TName ''Request'') json = Inr (JObj kvs') \<and>
      own_prop kvs' ''device'' = JObj dkvs'"
  note d = parseRequestV1_decoded
             [where json_parse = json_parse and body = body and json = json and
                    decode = decode and kvs = kvs' and dkvs = dkvs' and req = req,
              OF assms conjunct1 [OF a] conjunct2 [OF a]]
  then obtain r where r: "parseRequestV1 json_parse decode req body = Inr r"
    and r_id: "rq_id r = own_prop kvs' ''id''"
    and r_extra: "rq_extra r = JObj []"
    and r_dev_id: "di_id (rq_deviceInfo r) = js_or (own_prop dkvs' ''id'') (own_prop kvs' ''id'')"
    and r_dev_type: "di_type (rq_deviceInfo r) =
                       js_or (js_or (own_prop dkvs' ''type'') (own_prop dkvs' ''platform''))
                         (JStr [])"
    by simp
  show "\<exists>r. parseRequestV1 json_parse decode req body = Inr r \<and>
          rq_id r = own_prop kvs' ''id'' \<and>
          rq_extra r = JObj [] \<and>
          (absent (own_prop dkvs' ''id'') \<longrightarrow> di_id (rq_deviceInfo r) = rq_id r) \<and>
          (absent (own_prop dkvs' ''type'') \<longrightarrow>
             di_type (rq_deviceInfo r) = js_or (own_prop dkvs' ''platform'') (JStr [])) \<and>
          (absent (own_prop dkvs' ''type'') \<and> absent (own_prop dkvs' ''platform'') \<longrightarrow>
             di_type (rq_deviceInfo r) = JStr [])"
  proof (intro exI [of _ r] conjI impI)
    show "parseRequestV1 json_parse decode req body = Inr r" by (rule r)
  qed (simp_all add: r_id r_extra r_dev_id r_dev_type js_or_absent)
next
  assume a: "decode typesV2 ''root'' (TName ''Request'') json = Inr (JObj vkvs) \<and>
      own_prop vkvs ''info'' = JObj ikvs"
  note d = parseRequestV2_decoded
             [where json_parse = json_parse and body = body and json = json and
                    decode = decode and kvs = vkvs and ikvs = ikvs and req = req,
              OF assms conjunct1 [OF a] conjunct2 [OF a]]
  then obtain r where r: "parseRequestV2 json_parse decode req body = Inr r"
    and r_id: "rq_id r = own_prop vkvs ''requestId''"
    and r_extra: "rq_extra r = JObj [(''sessionId'', own_prop vkvs ''sessionId''),
                                     (''partnerId'', own_prop vkvs ''partnerId'')]"
    and r_dev: "di_timezone (rq_deviceInfo r) = JNull" "di_version (rq_deviceInfo r) = JStr []"
      "di_platform (rq_deviceInfo r) =
         JObj [(''browserUserAgent'', js_or (own_prop ikvs ''browserUserAgent'') JNull)]"
    by simp
  show "\<exists>r. parseRequestV2 json_parse decode req body = Inr r \<and>
          rq_id r = own_prop vkvs ''requestId'' \<and>
          rq_extra r = JObj [(''sessionId'', own_prop vkvs ''sessionId''),
                             (''partnerId'', own_prop vkvs ''partnerId'')] \<and>
          di_timezone (rq_deviceInfo r) = JNull \<and>
          di_version (rq_deviceInfo r) = JStr [] \<and>
          (absent (own_prop ikvs ''browserUserAgent'') \<longrightarrow>
             di_platform (rq_deviceInfo r) = JObj [(''browserUserAgent'', JNull)])"
  proof (intro exI [of _ r] conjI impI)
    show "parseRequestV2 json_parse decode req body = Inr r" by (rule r)
  qed (simp_all add: r_id r_extra r_dev js_or_absent)
next
  fix n s assume "random_id g n = JStr s"
  then show "length s = 32" by (simp add: random_id_shape)
next
  fix n s assume "random_id g n = JStr s"
  then show "\<forall>c \<in> set s. is_hex_char c" by (simp add: random_id_shape)
next
  fix n h m
  show "(random_id g n = random_id h m) =
          (map (\<lambda>i. g (i + n)) [0..<16] = map (\<lambda>i. h (i + m)) [0..<16])"
    by (rule random_id_eq_iff)
qed

lemma random_id_sample:
  "random_id (\<lambda>i. of_nat i) 0 = JStr ''000102030405060708090a0b0c0d0e0f''"
  "random_id (\<lambda>i. of_nat i) 16 = JStr ''101112131415161718191a1b1c1d1e1f''"
  "random_id (\<lambda>i. of_nat i) 32 = JStr ''202122232425262728292a2b2c2d2e2f''"
  "random_id (\<lambda>i. 0) 0 = JStr ''00000000000000000000000000000000''"
  by code_simp+

theorem parse_defaults_witness:
  "(\<exists>r g'. parseRequestV3
              (\<lambda>b. Inr (JObj [(''id'', JStr ''r1''), (''name'', JStr ''ping''),
                               (''args'', JObj []), (''device'', JObj [])]))
              (\<lambda>tt path t v.
                 if tt = typesV2
                 then Inr (JObj [(''requestId'', JStr ''r2''), (''deviceId'', JStr ''d2''),
                                 (''args'', JObj []), (''name'', JStr ''ping''),
                                 (''info'', JObj [(''type'', JStr ''web''),
                                                  (''language'', JStr ''en'')])])
                 else Inr v)
              \<lparr> req_method = ''POST'', req_pathname = ''/'', req_headers = [],
                req_clientIp = Some ''10.0.0.1'' \<rparr>
              ''body'' (\<lambda>i. of_nat i) = Inr (r, g') \<and>
      rq_id r = JStr ''000102030405060708090a0b0c0d0e0f'' \<and>
      di_id (rq_deviceInfo r) = JStr ''101112131415161718191a1b1c1d1e1f'' \<and>
      di_type (rq_deviceInfo r) = JStr ''api'' \<and>
      di_language (rq_deviceInfo r) = JNull \<and>
      di_timezone (rq_deviceInfo r) = JNull \<and>
      di_version (rq_deviceInfo r) = JNull \<and>
      di_platform (rq_deviceInfo r) = JObj [(''browserUserAgent'', JNull)] \<and>
      rq_extra r = JObj []) \<and>
   (\<exists>r. parseRequestV1
           (\<lambda>b. Inr (JObj [(''id'', JStr ''r1''), (''name'', JStr ''ping''),
                            (''args'', JObj []), (''device'', JObj [])]))
           (\<lambda>tt path t v.
                 if tt = typesV2
                 then Inr (JObj [(''requestId'', JStr ''r2''), (''deviceId'', JStr ''d2''),
                                 (''args'', JObj []), (''name'', JStr ''ping''),
                                 (''info'', JObj [(''type'', JStr ''web''),
                                                  (''language'', JStr ''en'')])])
                 else Inr v)
           \<lparr> req_method = ''POST'', req_pathname = ''/'', req_headers = [],
             req_clientIp = Some ''10.0.0.1'' \<rparr>
           ''body'' = Inr r \<and>
      rq_id r = JStr ''r1'' \<and>
      di_id (rq_deviceInfo r) = JStr ''r1'' \<and>
      di_type (rq_deviceInfo r) = JStr []) \<and>
   (\<exists>r. parseRequestV2
           (\<lambda>b. Inr (JObj [(''id'', JStr ''r1''), (''name'', JStr ''ping''),
                            (''args'', JObj []), (''device'', JObj [])]))
           (\<lambda>tt path t v.
                 if tt = typesV2
                 then Inr (JObj [(''requestId'', JStr ''r2''), (''deviceId'', JStr ''d2''),
                                 (''args'', JObj []), (''name'', JStr ''ping''),
                                 (''info'', JObj [(''type'', JStr ''web''),
                                                  (''language'', JStr ''en'')])])
                 else Inr v)
           \<lparr> req_method = ''POST'', req_pathname = ''/'', req_headers = [],
             req_clientIp = Some ''10.0.0.1'' \<rparr>
           ''body'' = Inr r \<and>
      rq_id r = JStr ''r2'' \<and>
      di_timezone (rq_deviceInfo r) = JNull \<and>
      di_version (rq_deviceInfo r) = JStr [] \<and>
      di_platform (rq_deviceInfo r) = JObj [(''browserUserAgent'', JNull)]) \<and>
   (\<exists>ra ga rb gb.
      parseRequestV3
        (\<lambda>b. Inr (JObj [(''id'', JStr ''r1''), (''name'', JStr ''ping''),
                         (''args'', JObj []), (''device'', JObj [])]))
        (\<lambda>tt path t v.
           if tt = typesV2
           then Inr (JObj [(''requestId'', JStr ''r2''), (''deviceId'', JStr ''d2''),
                           (''args'', JObj []), (''name'', JStr ''ping''),
                           (''info'', JObj [(''type'', JStr ''web''),
                                            (''language'', JStr ''en'')])])
           else Inr v)
        \<lparr> req_method = ''POST'', req_pathname = ''/'', req_headers = [],
          req_clientIp = Some ''10.0.0.1'' \<rparr>
        ''body'' (\<lambda>i. of_nat i) = Inr (ra, ga) \<and>
      parseRequestV3
        (\<lambda>b. Inr (JObj [(''id'', JStr ''r1''), (''name'', JStr ''ping''),
                         (''args'', JObj []), (''device'', JObj [])]))
        (\<lambda>tt path t v.
           if tt = typesV2
           then Inr (JObj [(''requestId'', JStr ''r2''), (''deviceId'', JStr ''d2''),
                           (''args'', JObj []), (''name'', JStr ''ping''),
                           (''info'', JObj [(''type'', JStr ''web''),
                                            (''language'', JStr ''en'')])])
           else Inr v)
        \<lparr> req_method = ''POST'', req_pathname = ''/'', req_headers = [],
          req_clientIp = Some ''10.0.0.1'' \<rparr>
        ''body'' ga = Inr (rb, gb) \<and>
      rq_id ra = JStr ''000102030405060708090a0b0c0d0e0f'' \<and>
      rq_id rb = JStr ''202122232425262728292a2b2c2d2e2f'')"
proof -
  define json where "json = JObj [(''id'', JStr ''r1''), (''name'', JStr ''ping''),
                                   (''args'', JObj []), (''device'', JObj [])]"
  define parser :: json_parser where "parser = (\<lambda>b. Inr json)"
  define decoder :: codec where "decoder =
    (\<lambda>tt path t v.
       if tt = typesV2
       then Inr (JObj [(''requestId'', JStr ''r2''), (''deviceId'', JStr ''d2''),
                       (''args'', JObj []), (''name'', JStr ''ping''),
                       (''info'', JObj [(''type'', JStr ''web''), (''language'', JStr ''en'')])])
       else Inr v)"
  define rq where "rq = \<lparr> req_method = ''POST'', req_pathname = ''/'', req_headers = [],
                          req_clientIp = Some ''10.0.0.1'' \<rparr>"
  define src :: rng where "src = (\<lambda>i. of_nat i)"
  have t: "typesV1 \<noteq> typesV2" "typesV3 \<noteq> typesV2"
    by (simp_all add: typesV1_def typesV2_def typesV3_def)
  have p: "parser ''body'' = Inr json" by (simp add: parser_def)
  have dec: "decoder typesV3 ''root'' (TName ''Request'') json =
               Inr (JObj [(''id'', JStr ''r1''), (''name'', JStr ''ping''),
                          (''args'', JObj []), (''device'', JObj [])])"
    "js_or (own_prop [(''id'', JStr ''r1''), (''name'', JStr ''ping''),
                      (''args'', JObj []), (''device'', JObj [])] ''deviceInfo'') (JObj []) =
       JObj []"
    by (simp_all add: decoder_def t json_def own_prop_def js_or_def)
  have ab: "absent (own_prop [(''id'', JStr ''r1''), (''name'', JStr ''ping''),
                              (''args'', JObj []), (''device'', JObj [])] ''requestId'')"
    by (simp add: own_prop_def absent_def)
  have dr: "drawn (own_prop [(''id'', JStr ''r1''), (''name'', JStr ''ping''),
                             (''args'', JObj []), (''device'', JObj [])] ''requestId'') = 16"
    "drawn (own_prop [] ''id'') = 16"
    by (simp_all add: own_prop_def drawn_def)
  note f = parseRequestV3_fields
             [where json_parse = parser and body = "''body''" and json = json
                and decode = decoder
                and kvs = "[(''id'', JStr ''r1''), (''name'', JStr ''ping''),
                            (''args'', JObj []), (''device'', JObj [])]"
                and dkvs = "[]" and req = rq,
              OF p dec]
  obtain ra where ra: "parseRequestV3 parser decoder rq ''body'' src =
                         Inr (ra, \<lambda>i. src (i + 32))"
    unfolding f dr by simp
  obtain rb gb where rb: "parseRequestV3 parser decoder rq ''body'' (\<lambda>i. src (i + 32)) =
                            Inr (rb, gb)"
    unfolding f by simp
  note w = parse_defaults
          [where json_parse = parser and body = "''body''" and json = json
             and decode = decoder
             and kvs = "[(''id'', JStr ''r1''), (''name'', JStr ''ping''),
                         (''args'', JObj []), (''device'', JObj [])]"
             and dkvs = "[]"
             and kvs' = "[(''id'', JStr ''r1''), (''name'', JStr ''ping''),
                          (''args'', JObj []), (''device'', JObj [])]"
             and dkvs' = "[]"
             and vkvs = "[(''requestId'', JStr ''r2''), (''deviceId'', JStr ''d2''),
                          (''args'', JObj []), (''name'', JStr ''ping''),
                          (''info'', JObj [(''type'', JStr ''web''),
                                           (''language'', JStr ''en'')])]"
             and ikvs = "[(''type'', JStr ''web''), (''language'', JStr ''en'')]"
             and ex = "[]" and req = rq and g = src
             and ra = ra and ga = "\<lambda>i. src (i + 32)" and rb = rb and gb = gb,
           OF p]
  have single: "(\<exists>r g'. parseRequestV3 parser decoder rq ''body'' src = Inr (r, g') \<and>
      rq_id r = JStr ''000102030405060708090a0b0c0d0e0f'' \<and>
      di_id (rq_deviceInfo r) = JStr ''101112131415161718191a1b1c1d1e1f'' \<and>
      di_type (rq_deviceInfo r) = JStr ''api'' \<and>
      di_language (rq_deviceInfo r) = JNull \<and>
      di_timezone (rq_deviceInfo r) = JNull \<and>
      di_version (rq_deviceInfo r) = JNull \<and>
      di_platform (rq_deviceInfo r) = JObj [(''browserUserAgent'', JNull)] \<and>
      rq_extra r = JObj []) \<and>
   (\<exists>r. parseRequestV1 parser decoder rq ''body'' = Inr r \<and>
      rq_id r = JStr ''r1'' \<and>
      di_id (rq_deviceInfo r) = JStr ''r1'' \<and>
      di_type (rq_deviceInfo r) = JStr []) \<and>
   (\<exists>r. parseRequestV2 parser decoder rq ''body'' = Inr r \<and>
      rq_id r = JStr ''r2'' \<and>
      di_timezone (rq_deviceInfo r) = JNull \<and>
      di_version (rq_deviceInfo r) = JStr [] \<and>
      di_platform (rq_deviceInfo r) = JObj [(''browserUserAgent'', JNull)])"
    using w
    by (auto simp add: decoder_def json_def t own_prop_def js_or_def absent_def src_def
          random_id_sample)
  from w dec ab ra rb have "rq_id ra = random_id src 0 \<and> rq_id rb = random_id src (16 + 16)"
    unfolding dr by blast
  then have "rq_id ra = JStr ''000102030405060708090a0b0c0d0e0f'' \<and>
             rq_id rb = JStr ''202122232425262728292a2b2c2d2e2f''"
    by (simp add: src_def random_id_sample)
  with ra rb have twice: "\<exists>ra ga rb gb.
      parseRequestV3 parser decoder rq ''body'' src = Inr (ra, ga) \<and>
      parseRequestV3 parser decoder rq ''body'' ga = Inr (rb, gb) \<and>
      rq_id ra = JStr ''000102030405060708090a0b0c0d0e0f'' \<and>
      rq_id rb = JStr ''202122232425262728292a2b2c2d2e2f''"
    by blast
  show ?thesis
    using single twice unfolding parser_def decoder_def rq_def src_def json_def
    by (simp only: simp_thms)
qed

lemma spread_sample: "spread (JStr ''ab'') = [(''0'', JStr ''a''), (''1'', JStr ''b'')]"
proof -
  have "[0..<length ''ab''] = [0, 1]" by (simp add: upt_rec)
  moreover have "string_of_nat 0 = ''0''" "string_of_nat 1 = ''1''"
    by (subst string_of_nat.simps, simp add: digit_char_def)+
  ultimately show ?thesis by (simp add: digit_char_def)
qed

text \<open>
  Claim C2 as stated says that a given \<^verbatim>\<open>extra\<close> is copied verbatim, and that generated ids
  are distinct across calls. The schema admits any value as \<^verbatim>\<open>extra\<close>: the string \<^verbatim>\<open>"ab"\<close>
  is normalized to the object of its characters, and the number 5 to the empty object.
  And the parser does not compare the ids it generates: when the random source yields the
  same bytes twice (here, zeros only), two calls in a row generate the same request id.
\<close>

theorem parse_defaults_counterexample:
  "(\<exists>r g'. parseRequestV3
              (\<lambda>b. Inr (JObj [(''version'', JNum 3), (''name'', JStr ''ping''),
                               (''args'', JObj []), (''extra'', JStr ''ab'')]))
              (\<lambda>tt path t v. Inr v) sample_post ''body'' (\<lambda>i. 0) = Inr (r, g') \<and>
      rq_extra r = JObj [(''0'', JStr ''a''), (''1'', JStr ''b'')] \<and>
      rq_extra r \<noteq> JStr ''ab'') \<and>
   (\<exists>r g'. parseRequestV3
              (\<lambda>b. Inr (JObj [(''version'', JNum 3), (''name'', JStr ''ping''),
                               (''args'', JObj []), (''extra'', JNum 5)]))
              (\<lambda>tt path t v. Inr v) sample_post ''body'' (\<lambda>i. 0) = Inr (r, g') \<and>
      rq_extra r = JObj [] \<and> rq_extra r \<noteq> JNum 5) \<and>
   (\<exists>ra ga rb gb.
      parseRequestV3
        (\<lambda>b. Inr (JObj [(''version'', JNum 3), (''name'', JStr ''ping''),
                         (''args'', JObj [])]))
        (\<lambda>tt path t v. Inr v) sample_post ''body'' (\<lambda>i. 0) = Inr (ra, ga) \<and>
      parseRequestV3
        (\<lambda>b. Inr (JObj [(''version'', JNum 3), (''name'', JStr ''ping''),
                         (''args'', JObj [])]))
        (\<lambda>tt path t v. Inr v) sample_post ''body'' ga = Inr (rb, gb) \<and>
      rq_id ra = JStr ''00000000000000000000000000000000'' \<and>
      rq_id rb = rq_id ra)"
proof (intro conjI)
  have "parseRequestV3
          (\<lambda>b. Inr (JObj [(''version'', JNum 3), (''name'', JStr ''ping''),
                           (''args'', JObj []), (''extra'', JStr ''ab'')]))
          (\<lambda>tt path t v. Inr v) sample_post ''body'' (\<lambda>i. 0) =
        Inr (\<lparr> rq_version = 3, rq_id = random_id (\<lambda>i. 0) 0, rq_args = JObj [],
               rq_name = JStr ''ping'',
               rq_extra = JObj [(''0'', JStr ''a''), (''1'', JStr ''b'')],
               rq_headers = [],
               rq_deviceInfo =
                 \<lparr> di_id = random_id (\<lambda>i. 0) 16, di_language = JNull,
                   di_platform = JObj [(''browserUserAgent'', JNull)],
                   di_timezone = JNull, di_type = JStr ''api'', di_version = JNull \<rparr> \<rparr>,
             \<lambda>i. 0)"
    by (subst parseRequestV3_fields [where kvs = "[(''version'', JNum 3), (''name'', JStr ''ping''),
                           (''args'', JObj []), (''extra'', JStr ''ab'')]" and dkvs = "[]"])
       (simp_all add: own_prop_def js_or_def drawn_def spread_sample sample_post_def
          del: spread.simps)
  then show "\<exists>r g'. parseRequestV3
              (\<lambda>b. Inr (JObj [(''version'', JNum 3), (''name'', JStr ''ping''),
                               (''args'', JObj []), (''extra'', JStr ''ab'')]))
              (\<lambda>tt path t v. Inr v) sample_post ''body'' (\<lambda>i. 0) = Inr (r, g') \<and>
      rq_extra r = JObj [(''0'', JStr ''a''), (''1'', JStr ''b'')] \<and>
      rq_extra r \<noteq> JStr ''ab''"
    by simp
next
  have "parseRequestV3
          (\<lambda>b. Inr (JObj [(''version'', JNum 3), (''name'', JStr ''ping''),
                           (''args'', JObj []), (''extra'', JNum 5)]))
          (\<lambda>tt path t v. Inr v) sample_post ''body'' (\<lambda>i. 0) =
        Inr (\<lparr> rq_version = 3, rq_id = random_id (\<lambda>i. 0) 0, rq_args = JObj [],
               rq_name = JStr ''ping'', rq_extra = JObj [], rq_headers = [],
               rq_deviceInfo =
                 \<lparr> di_id = random_id (\<lambda>i. 0) 16, di_language = JNull,
                   di_platform = JObj [(''browserUserAgent'', JNull)],
                   di_timezone = JNull, di_type = JStr ''api'', di_version = JNull \<rparr> \<rparr>,
             \<lambda>i. 0)"
    by (subst parseRequestV3_fields [where kvs = "[(''version'', JNum 3), (''name'', JStr ''ping''),
                           (''args'', JObj []), (''extra'', JNum 5)]" and dkvs = "[]"])
       (simp_all add: own_prop_def js_or_def drawn_def sample_post_def)
  then show "\<exists>r g'. parseRequestV3
              (\<lambda>b. Inr (JObj [(''version'', JNum 3), (''name'', JStr ''ping''),
                               (''args'', JObj []), (''extra'', JNum 5)]))
              (\<lambda>tt path t v. Inr v) sample_post ''body'' (\<lambda>i. 0) = Inr (r, g') \<and>
      rq_extra r = JObj [] \<and> rq_extra r \<noteq> JNum 5"
    by simp
next
  have p: "parseRequestV3
          (\<lambda>b. Inr (JObj [(''version'', JNum 3), (''name'', JStr ''ping''),
                           (''args'', JObj [])]))
          (\<lambda>tt path t v. Inr v) sample_post ''body'' (\<lambda>i. 0) =
        Inr (\<lparr> rq_version = 3, rq_id = random_id (\<lambda>i. 0) 0, rq_args = JObj [],
               rq_name = JStr ''ping'', rq_extra = JObj [], rq_headers = [],
               rq_deviceInfo =
                 \<lparr> di_id = random_id (\<lambda>i. 0) 16, di_language = JNull,
                   di_platform = JObj [(''browserUserAgent'', JNull)],
                   di_timezone = JNull, di_type = JStr ''api'', di_version = JNull \<rparr> \<rparr>,
             \<lambda>i. 0)"
    by (subst parseRequestV3_fields [where kvs = "[(''version'', JNum 3), (''name'', JStr ''ping''),
                           (''args'', JObj [])]" and dkvs = "[]"])
       (simp_all add: own_prop_def js_or_def drawn_def sample_post_def)
  show "\<exists>ra ga rb gb.
      parseRequestV3
        (\<lambda>b. Inr (JObj [(''version'', JNum 3), (''name'', JStr ''ping''),
                         (''args'', JObj [])]))
        (\<lambda>tt path t v. Inr v) sample_post ''body'' (\<lambda>i. 0) = Inr (ra, ga) \<and>
      parseRequestV3
        (\<lambda>b. Inr (JObj [(''version'', JNum 3), (''name'', JStr ''ping''),
                         (''args'', JObj [])]))
        (\<lambda>tt path t v. Inr v) sample_post ''body'' ga = Inr (rb, gb) \<and>
      rq_id ra = JStr ''00000000000000000000000000000000'' \<and>
      rq_id rb = rq_id ra"
    by (intro exI conjI, rule p, rule p) (simp_all add: random_id_sample)
qed

lemma blank_falsy: "blank v \<Longrightarrow> \<not> truthy v"
  by (auto simp: blank_def absent_def)

lemma same_or_blank_cases:
  assumes "same_or_blank v w"
  obtains "v = w" | "\<not> truthy v" "\<not> truthy w"
  using assms unfolding same_or_blank_def by (blast dest: blank_falsy)

lemma same_or_blank_js_or: "same_or_blank v w \<Longrightarrow> js_or v d = js_or w d"
  by (erule same_or_blank_cases) (simp_all add: js_or_def)

lemma same_or_blank_id:
  "same_or_blank v w \<Longrightarrow> (if truthy v then v else d) = (if truthy w then w else d)"
  by (erule same_or_blank_cases) simp_all

lemma same_or_blank_drawn: "same_or_blank v w \<Longrightarrow> drawn v = drawn w"
  by (erule same_or_blank_cases) (simp_all add: drawn_def)

lemma same_or_blank_extra:
  "same_or_blank v w \<Longrightarrow>
     (if truthy v then JObj (spread v) else JObj []) =
     (if truthy w then JObj (spread w) else JObj [])"
  by (erule same_or_blank_cases) simp_all

text \<open>
  Claim C10. The defaults are chosen by truthiness. In a decoded V3 request, the request
  id and the device id are kept when truthy and replaced by a generated identifier
  otherwise, so also when they are the empty string; in a decoded V1 request, the device
  id is kept when truthy and replaced by the request id otherwise, and the device type
  falls back to the platform and then to the empty string. Two decoded requests that
  differ only in that fields with such a default are the empty string in one and absent
  in the other are normalized to the same request: that is every optional field of V3,
  the device id and type of V1, and the user agent of V2. The other optional fields are
  copied as they are: language, platform, timezone and version of a V1 device, and the
  session and partner ids of V2.
\<close>

theorem empty_string_defaults:
  assumes "json_parse body = Inr json" and "json_parse body' = Inr json'"
  shows
    "(decode typesV3 ''root'' (TName ''Request'') json = Inr (JObj kvs) \<and>
      js_or (own_prop kvs ''deviceInfo'') (JObj []) = JObj dkvs \<longrightarrow>
       (\<exists>r g'. parseRequestV3 json_parse decode req body g = Inr (r, g') \<and>
          rq_id r = (if truthy (own_prop kvs ''requestId'') then own_prop kvs ''requestId''
                     else random_id g 0) \<and>
          di_id (rq_deviceInfo r) =
            (if truthy (own_prop dkvs ''id'') then own_prop dkvs ''id''
             else random_id g (if truthy (own_prop kvs ''requestId'') then 0 else 16)) \<and>
          (own_prop kvs ''requestId'' = JStr [] \<longrightarrow> rq_id r = random_id g 0) \<and>
          (own_prop dkvs ''id'' = JStr [] \<longrightarrow>
             di_id (rq_deviceInfo r) =
               random_id g (if truthy (own_prop kvs ''requestId'') then 0 else 16)))) \<and>
     (decode typesV3 ''root'' (TName ''Request'') json = Inr (JObj kvs) \<and>
      js_or (own_prop kvs ''deviceInfo'') (JObj []) = JObj dkvs \<and>
      decode typesV3 ''root'' (TName ''Request'') json' = Inr (JObj kvs') \<and>
      js_or (own_prop kvs' ''deviceInfo'') (JObj []) = JObj dkvs' \<and>
      own_prop kvs ''args'' = own_prop kvs' ''args'' \<and>
      own_prop kvs ''name'' = own_prop kvs' ''name'' \<and>
      same_or_blank (own_prop kvs ''requestId'') (own_prop kvs' ''requestId'') \<and>
      same_or_blank (own_prop kvs ''extra'') (own_prop kvs' ''extra'') \<and>
      same_or_blank (own_prop dkvs ''id'') (own_prop dkvs' ''id'') \<and>
      same_or_blank (own_prop dkvs ''type'') (own_prop dkvs' ''type'') \<and>
      same_or_blank (own_prop dkvs ''language'') (own_prop dkvs' ''language'') \<and>
      same_or_blank (own_prop dkvs ''timezone'') (own_prop dkvs' ''timezone'') \<and>
      same_or_blank (own_prop dkvs ''version'') (own_prop dkvs' ''version'') \<and>
      same_or_blank (own_prop dkvs ''browserUserAgent'') (own_prop dkvs' ''browserUserAgent'') \<longrightarrow>
        parseRequestV3 json_parse decode req body g =
        parseRequestV3 json_parse decode req body' g) \<and>
     (decode typesV1 ''root'' (TName ''Request'') json = Inr (JObj kvs) \<and>
      own_prop kvs ''device'' = JObj dkvs \<longrightarrow>
       (\<exists>r. parseRequestV1 json_parse decode req body = Inr r \<and>
          rq_id r = own_prop kvs ''id'' \<and>
          di_id (rq_deviceInfo r) =
            (if truthy (own_prop dkvs ''id'') then own_prop dkvs ''id''
             else own_prop kvs ''id'') \<and>
          (own_prop dkvs ''id'' = JStr [] \<longrightarrow> di_id (rq_deviceInfo r) = own_prop kvs ''id'') \<and>
          di_type (rq_deviceInfo r) =
            (if truthy (own_prop dkvs ''type'') then own_prop dkvs ''type''
             else if truthy (own_prop dkvs ''platform'') then own_prop dkvs ''platform''
             else JStr []) \<and>
          di_language (rq_deviceInfo r) = own_prop dkvs ''language'' \<and>
          di_platform (rq_deviceInfo r) = own_prop dkvs ''platform'' \<and>
          di_timezone (rq_deviceInfo r) = own_prop dkvs ''timezone'' \<and>
          di_version (rq_deviceInfo r) = own_prop dkvs ''version'')) \<and>
     (decode typesV1 ''root'' (TName ''Request'') json = Inr (JObj kvs) \<and>
      own_prop kvs ''device'' = JObj dkvs \<and>
      decode typesV1 ''root'' (TName ''Request'') json' = Inr (JObj kvs') \<and>
      own_prop kvs' ''device'' = JObj dkvs' \<and>
      own_prop kvs ''id'' = own_prop kvs' ''id'' \<and>
      own_prop kvs ''args'' = own_prop kvs' ''args'' \<and>
      own_prop kvs ''name'' = own_prop kvs' ''name'' \<and>
      same_or_blank (own_prop dkvs ''id'') (own_prop dkvs' ''id'') \<and>
      same_or_blank (own_prop dkvs ''type'') (own_prop dkvs' ''type'') \<and>
      own_prop dkvs ''language'' = own_prop dkvs' ''language'' \<and>
      own_prop dkvs ''platform'' = own_prop dkvs' ''platform'' \<and>
      own_prop dkvs ''timezone'' = own_prop dkvs' ''timezone'' \<and>
      own_prop dkvs ''version'' = own_prop dkvs' ''version'' \<longrightarrow>
        parseRequestV1 json_parse decode req body =
        parseRequestV1 json_parse decode req body') \<and>
     (decode typesV2 ''root'' (TName ''Request'') json = Inr (JObj vkvs) \<and>
      own_prop vkvs ''info'' = JObj ikvs \<longrightarrow>
       (\<exists>r. parseRequestV2 json_parse decode req body = Inr r \<and>
          rq_id r = own_prop vkvs ''requestId'' \<and>
          di_id (rq_deviceInfo r) = own_prop vkvs ''deviceId'' \<and>
          rq_extra r = JObj [(''sessionId'', own_prop vkvs ''sessionId''),
                             (''partnerId'', own_prop vkvs ''partnerId'')] \<and>
          di_platform (rq_deviceInfo r) =
            JObj [(''browserUserAgent'',
                   if truthy (own_prop ikvs ''browserUserAgent'')
                   then own_prop ikvs ''browserUserAgent'' else JNull)])) \<and>
     (decode typesV2 ''root'' (TName ''Request'') json = Inr (JObj vkvs) \<and>
      own_prop vkvs ''info'' = JObj ikvs \<and>
      decode typesV2 ''root'' (TName ''Request'') json' = Inr (JObj vkvs') \<and>
      own_prop vkvs' ''info'' = JObj ikvs' \<and>
      own_prop vkvs ''requestId'' = own_prop vkvs' ''requestId'' \<and>
      own_prop vkvs ''deviceId'' = own_prop vkvs' ''deviceId'' \<and>
      own_prop vkvs ''sessionId'' = own_prop vkvs' ''sessionId'' \<and>
      own_prop vkvs ''partnerId'' = own_prop vkvs' ''partnerId'' \<and>
      own_prop vkvs ''args'' = own_prop vkvs' ''args'' \<and>
      own_prop vkvs ''name'' = own_prop vkvs' ''name'' \<and>
      own_prop ikvs ''type'' = own_prop ikvs' ''type'' \<and>
      own_prop ikvs ''language'' = own_prop ikvs' ''language'' \<and>
      same_or_blank (own_prop ikvs ''browserUserAgent'') (own_prop ikvs' ''browserUserAgent'') \<longrightarrow>
        parseRequestV2 json_parse decode req body =
        parseRequestV2 json_parse decode req body')"
proof (intro conjI impI)
  assume a: "decode typesV3 ''root'' (TName ''Request'') json = Inr (JObj kvs) \<and>
      js_or (own_prop kvs ''deviceInfo'') (JObj []) = JObj dkvs"
  note d = parseRequestV3_fields
             [where json_parse = json_parse and body = body and json = json and
                    decode = decode and kvs = kvs and dkvs = dkvs and req = req and g = g,
              OF assms(1) conjunct1 [OF a] conjunct2 [OF a]]
  show "\<exists>r g'. parseRequestV3 json_parse decode req body g = Inr (r, g') \<and>
          rq_id r = (if truthy (own_prop kvs ''requestId'') then own_prop kvs ''requestId''
                     else random_id g 0) \<and>
          di_id (rq_deviceInfo r) =
            (if truthy (own_prop dkvs ''id'') then own_prop dkvs ''id''
             else random_id g (if truthy (own_prop kvs ''requestId'') then 0 else 16)) \<and>
          (own_prop kvs ''requestId'' = JStr [] \<longrightarrow> rq_id r = random_id g 0) \<and>
          (own_prop dkvs ''id'' = JStr [] \<longrightarrow>
             di_id (rq_deviceInfo r) =
               random_id g (if truthy (own_prop kvs ''requestId'') then 0 else 16))"
    unfolding d
    by (intro exI conjI impI, rule refl) (simp_all add: drawn_def)
next
  assume a: "decode typesV3 ''root'' (TName ''Request'') json = Inr (JObj kvs) \<and>
      js_or (own_prop kvs ''deviceInfo'') (JObj []) = JObj dkvs \<and>
      decode typesV3 ''root'' (TName ''Request'') json' = Inr (JObj kvs') \<and>
      js_or (own_prop kvs' ''deviceInfo'') (JObj []) = JObj dkvs' \<and>
      own_prop kvs ''args'' = own_prop kvs' ''args'' \<and>
      own_prop kvs ''name'' = own_prop kvs' ''name'' \<and>
      same_or_blank (own_prop kvs ''requestId'') (own_prop kvs' ''requestId'') \<and>
      same_or_blank (own_prop kvs ''extra'') (own_prop kvs' ''extra'') \<and>
      same_or_blank (own_prop dkvs ''id'') (own_prop dkvs' ''id'') \<and>
      same_or_blank (own_prop dkvs ''type'') (own_prop dkvs' ''type'') \<and>
      same_or_blank (own_prop dkvs ''language'') (own_prop dkvs' ''language'') \<and>
      same_or_blank (own_prop dkvs ''timezone'') (own_prop dkvs' ''timezone'') \<and>
      same_or_blank (own_prop dkvs ''version'') (own_prop dkvs' ''version'') \<and>
      same_or_blank (own_prop dkvs ''browserUserAgent'') (own_prop dkvs' ''browserUserAgent'')"
  then have dec: "decode typesV3 ''root'' (TName ''Request'') json = Inr (JObj kvs)"
      "js_or (own_prop kvs ''deviceInfo'') (JObj []) = JObj dkvs"
      "decode typesV3 ''root'' (TName ''Request'') json' = Inr (JObj kvs')"
      "js_or (own_prop kvs' ''deviceInfo'') (JObj []) = JObj dkvs'"
    and top: "own_prop kvs ''args'' = own_prop kvs' ''args''"
      "own_prop kvs ''name'' = own_prop kvs' ''name''"
    and rid: "same_or_blank (own_prop kvs ''requestId'') (own_prop kvs' ''requestId'')"
    and ext: "same_or_blank (own_prop kvs ''extra'') (own_prop kvs' ''extra'')"
    and did: "same_or_blank (own_prop dkvs ''id'') (own_prop dkvs' ''id'')"
    and dev: "same_or_blank (own_prop dkvs ''type'') (own_prop dkvs' ''type'')"
      "same_or_blank (own_prop dkvs ''language'') (own_prop dkvs' ''language'')"
      "same_or_blank (own_prop dkvs ''timezone'') (own_prop dkvs' ''timezone'')"
      "same_or_blank (own_prop dkvs ''version'') (own_prop dkvs' ''version'')"
      "same_or_blank (own_prop dkvs ''browserUserAgent'') (own_prop dkvs' ''browserUserAgent'')"
    by blast+
  note d = parseRequestV3_fields
             [where json_parse = json_parse and body = body and json = json and
                    decode = decode and kvs = kvs and dkvs = dkvs and req = req and g = g,
              OF assms(1) dec(1) dec(2)]
  note d' = parseRequestV3_fields
             [where json_parse = json_parse and body = body' and json = json' and
                    decode = decode and kvs = kvs' and dkvs = dkvs' and req = req and g = g,
              OF assms(2) dec(3) dec(4)]
  note eqs = same_or_blank_id [OF rid] same_or_blank_id [OF did]
    same_or_blank_drawn [OF rid] same_or_blank_drawn [OF did] same_or_blank_extra [OF ext]
    dev [THEN same_or_blank_js_or]
  show "parseRequestV3 json_parse decode req body g =
        parseRequestV3 json_parse decode req body' g"
    by (simp only: d d' top eqs)
next
  assume a: "decode typesV1 ''root'' (TName ''Request'') json = Inr (JObj kvs) \<and>
      own_prop kvs ''device'' = JObj dkvs"
  note d = parseRequestV1_decoded
             [where json_parse = json_parse and body = body and json = json and
                    decode = decode and kvs = kvs and dkvs = dkvs and req = req,
              OF assms(1) conjunct1 [OF a] conjunct2 [OF a]]
  show "\<exists>r. parseRequestV1 json_parse decode req body = Inr r \<and>
          rq_id r = own_prop kvs ''id'' \<and>
          di_id (rq_deviceInfo r) =
            (if truthy (own_prop dkvs ''id'') then own_prop dkvs ''id''
             else own_prop kvs ''id'') \<and>
          (own_prop dkvs ''id'' = JStr [] \<longrightarrow> di_id (rq_deviceInfo r) = own_prop kvs ''id'') \<and>
          di_type (rq_deviceInfo r) =
            (if truthy (own_prop dkvs ''type'') then own_prop dkvs ''type''
             else if truthy (own_prop dkvs ''platform'') then own_prop dkvs ''platform''
             else JStr []) \<and>
          di_language (rq_deviceInfo r) = own_prop dkvs ''language'' \<and>
          di_platform (rq_deviceInfo r) = own_prop dkvs ''platform'' \<and>
          di_timezone (rq_deviceInfo r) = own_prop dkvs ''timezone'' \<and>
          di_version (rq_deviceInfo r) = own_prop dkvs ''version''"
    unfolding d
    by (intro exI conjI impI, rule refl) (simp_all add: js_or_def)
next
  assume a: "decode typesV1 ''root'' (TName ''Request'') json = Inr (JObj kvs) \<and>
      own_prop kvs ''device'' = JObj dkvs \<and>
      decode typesV1 ''root'' (TName ''Request'') json' = Inr (JObj kvs') \<and>
      own_prop kvs' ''device'' = JObj dkvs' \<and>
      own_prop kvs ''id'' = own_prop kvs' ''id'' \<and>
      own_prop kvs ''args'' = own_prop kvs' ''args'' \<and>
      own_prop kvs ''name'' = own_prop kvs' ''name'' \<and>
      same_or_blank (own_prop dkvs ''id'') (own_prop dkvs' ''id'') \<and>
      same_or_blank (own_prop dkvs ''type'') (own_prop dkvs' ''type'') \<and>
      own_prop dkvs ''language'' = own_prop dkvs' ''language'' \<and>
      own_prop dkvs ''platform'' = own_prop dkvs' ''platform'' \<and>
      own_prop dkvs ''timezone'' = own_prop dkvs' ''timezone'' \<and>
      own_prop dkvs ''version'' = own_prop dkvs' ''version''"
  then have dec: "decode typesV1 ''root'' (TName ''Request'') json = Inr (JObj kvs)"
      "own_prop kvs ''device'' = JObj dkvs"
      "decode typesV1 ''root'' (TName ''Request'') json' = Inr (JObj kvs')"
      "own_prop kvs' ''device'' = JObj dkvs'"
    and top: "own_prop kvs ''id'' = own_prop kvs' ''id''"
      "own_prop kvs ''args'' = own_prop kvs' ''args''"
      "own_prop kvs ''name'' = own_prop kvs' ''name''"
    and did: "same_or_blank (own_prop dkvs ''id'') (own_prop dkvs' ''id'')"
    and dty: "same_or_blank (own_prop dkvs ''type'') (own_prop dkvs' ''type'')"
    and dev: "own_prop dkvs ''language'' = own_prop dkvs' ''language''"
      "own_prop dkvs ''platform'' = own_prop dkvs' ''platform''"
      "own_prop dkvs ''timezone'' = own_prop dkvs' ''timezone''"
      "own_prop dkvs ''version'' = own_prop dkvs' ''version''"
    by blast+
  note d = parseRequestV1_decoded
             [where json_parse = json_parse and body = body and json = json and
                    decode = decode and kvs = kvs and dkvs = dkvs and req = req,
              OF assms(1) dec(1) dec(2)]
  note d' = parseRequestV1_decoded
             [where json_parse = json_parse and body = body' and json = json' and
                    decode = decode and kvs = kvs' and dkvs = dkvs' and req = req,
              OF assms(2) dec(3) dec(4)]
  note eqs = same_or_blank_js_or [OF did] same_or_blank_js_or [OF dty]
  show "parseRequestV1 json_parse decode req body =
        parseRequestV1 json_parse decode req body'"
    by (simp only: d d' top dev eqs)
next
  assume a: "decode typesV2 ''root'' (TName ''Request'') json = Inr (JObj vkvs) \<and>
      own_prop vkvs ''info'' = JObj ikvs"
  note d = parseRequestV2_decoded
             [where json_parse = json_parse and body = body and json = json and
                    decode = decode and kvs = vkvs and ikvs = ikvs and req = req,
              OF assms(1) conjunct1 [OF a] conjunct2 [OF a]]
  show "\<exists>r. parseRequestV2 json_parse decode req body = Inr r \<and>
          rq_id r = own_prop vkvs ''requestId'' \<and>
          di_id (rq_deviceInfo r) = own_prop vkvs ''deviceId'' \<and>
          rq_extra r = JObj [(''sessionId'', own_prop vkvs ''sessionId''),
                             (''partnerId'', own_prop vkvs ''partnerId'')] \<and>
          di_platform (rq_deviceInfo r) =
            JObj [(''browserUserAgent'',
                   if truthy (own_prop ikvs ''browserUserAgent'')
                   then own_prop ikvs ''browserUserAgent'' else JNull)]"
    unfolding d
    by (intro exI conjI impI, rule refl) (simp_all add: js_or_def)
next
  assume a: "decode typesV2 ''root'' (TName ''Request'') json = Inr (JObj vkvs) \<and>
      own_prop vkvs ''info'' = JObj ikvs \<and>
      decode typesV2 ''root'' (TName ''Request'') json' = Inr (JObj vkvs') \<and>
      own_prop vkvs' ''info'' = JObj ikvs' \<and>
      own_prop vkvs ''requestId'' = own_prop vkvs' ''requestId'' \<and>
      own_prop vkvs ''deviceId'' = own_prop vkvs' ''deviceId'' \<and>
      own_prop vkvs ''sessionId'' = own_prop vkvs' ''sessionId'' \<and>
      own_prop vkvs ''partnerId'' = own_prop vkvs' ''partnerId'' \<and>
      own_prop vkvs ''args'' = own_prop vkvs' ''args'' \<and>
      own_prop vkvs ''name'' = own_prop vkvs' ''name'' \<and>
      own_prop ikvs ''type'' = own_prop ikvs' ''type'' \<and>
      own_prop ikvs ''language'' = own_prop ikvs' ''language'' \<and>
      same_or_blank (own_prop ikvs ''browserUserAgent'') (own_prop ikvs' ''browserUserAgent'')"
  then have dec: "decode typesV2 ''root'' (TName ''Request'') json = Inr (JObj vkvs)"
      "own_prop vkvs ''info'' = JObj ikvs"
      "decode typesV2 ''root'' (TName ''Request'') json' = Inr (JObj vkvs')"
      "own_prop vkvs' ''info'' = JObj ikvs'"
    and top: "own_prop vkvs ''requestId'' = own_prop vkvs' ''requestId''"
      "own_prop vkvs ''deviceId'' = own_prop vkvs' ''deviceId''"
      "own_prop vkvs ''sessionId'' = own_prop vkvs' ''sessionId''"
      "own_prop vkvs ''partnerId'' = own_prop vkvs' ''partnerId''"
      "own_prop vkvs ''args'' = own_prop vkvs' ''args''"
      "own_prop vkvs ''name'' = own_prop vkvs' ''name''"
      "own_prop ikvs ''type'' = own_prop ikvs' ''type''"
      "own_prop ikvs ''language'' = own_prop ikvs' ''language''"
    and bua: "same_or_blank (own_prop ikvs ''browserUserAgent'') (own_prop ikvs' ''browserUserAgent'')"
    by blast+
  note d = parseRequestV2_decoded
             [where json_parse = json_parse and body = body and json = json and
                    decode = decode and kvs = vkvs and ikvs = ikvs and req = req,
              OF assms(1) dec(1) dec(2)]
  note d' = parseRequestV2_decoded
             [where json_parse = json_parse and body = body' and json = json' and
                    decode = decode and kvs = vkvs' and ikvs = ikvs' and req = req,
              OF assms(2) dec(3) dec(4)]
  show "parseRequestV2 json_parse decode req body =
        parseRequestV2 json_parse decode req body'"
    by (simp only: d d' top same_or_blank_js_or [OF bua])
qed

theorem empty_string_defaults_witness:
  "parseRequestV3
     (\<lambda>b. if b = ''blank'' then Inr (JObj [(''requestId'', JStr []), (''name'', JStr ''ping''),
                                             (''args'', JObj []),
                                             (''deviceInfo'', JObj [(''id'', JStr [])])])
          else Inr (JObj [(''name'', JStr ''ping''), (''args'', JObj [])]))
     (\<lambda>tt path t v. Inr v)
     \<lparr> req_method = ''POST'', req_pathname = ''/'', req_headers = [],
       req_clientIp = Some ''10.0.0.1'' \<rparr>
     ''blank'' (\<lambda>i. of_nat i) =
   parseRequestV3
     (\<lambda>b. if b = ''blank'' then Inr (JObj [(''requestId'', JStr []), (''name'', JStr ''ping''),
                                             (''args'', JObj []),
                                             (''deviceInfo'', JObj [(''id'', JStr [])])])
          else Inr (JObj [(''name'', JStr ''ping''), (''args'', JObj [])]))
     (\<lambda>tt path t v. Inr v)
     \<lparr> req_method = ''POST'', req_pathname = ''/'', req_headers = [],
       req_clientIp = Some ''10.0.0.1'' \<rparr>
     ''minimal'' (\<lambda>i. of_nat i) \<and>
   (\<exists>r. parseRequestV1
           (\<lambda>b. Inr (JObj [(''id'', JStr ''r1''), (''name'', JStr ''ping''),
                            (''args'', JObj []), (''device'', JObj [(''id'', JStr [])])]))
           (\<lambda>tt path t v. Inr v)
           \<lparr> req_method = ''POST'', req_pathname = ''/'', req_headers = [],
             req_clientIp = Some ''10.0.0.1'' \<rparr>
           ''body'' = Inr r \<and>
      rq_id r = JStr ''r1'' \<and> di_id (rq_deviceInfo r) = JStr ''r1'') \<and>
   (\<exists>r. parseRequestV1
           (\<lambda>b. Inr (JObj [(''id'', JStr ''r1''), (''name'', JStr ''ping''),
                            (''args'', JObj []), (''device'', JObj [(''id'', JStr ''d1'')])]))
           (\<lambda>tt path t v. Inr v)
           \<lparr> req_method = ''POST'', req_pathname = ''/'', req_headers = [],
             req_clientIp = Some ''10.0.0.1'' \<rparr>
           ''body'' = Inr r \<and>
      rq_id r = JStr ''r1'' \<and> di_id (rq_deviceInfo r) = JStr ''d1'')"
  using empty_string_defaults
          [where json_parse =
                   "\<lambda>b. if b = ''blank''
                        then Inr (JObj [(''requestId'', JStr []), (''name'', JStr ''ping''),
                                        (''args'', JObj []),
                                        (''deviceInfo'', JObj [(''id'', JStr [])])])
                        else Inr (JObj [(''name'', JStr ''ping''), (''args'', JObj [])])"
             and body = "''blank''" and body' = "''minimal''"
             and json = "JObj [(''requestId'', JStr []), (''name'', JStr ''ping''),
                              (''args'', JObj []), (''deviceInfo'', JObj [(''id'', JStr [])])]"
             and json' = "JObj [(''name'', JStr ''ping''), (''args'', JObj [])]"
             and decode = "\<lambda>tt path t v. Inr v"
             and kvs = "[(''requestId'', JStr []), (''name'', JStr ''ping''),
                         (''args'', JObj []), (''deviceInfo'', JObj [(''id'', JStr [])])]"
             and dkvs = "[(''id'', JStr [])]"
             and kvs' = "[(''name'', JStr ''ping''), (''args'', JObj [])]"
             and dkvs' = "[]"
             and vkvs = "[]" and ikvs = "[]" and vkvs' = "[]" and ikvs' = "[]"
             and req = "\<lparr> req_method = ''POST'', req_pathname = ''/'', req_headers = [],
                          req_clientIp = Some ''10.0.0.1'' \<rparr>"
             and g = "\<lambda>i. of_nat i"]
        empty_string_defaults
          [where json_parse =
                   "\<lambda>b. Inr (JObj [(''id'', JStr ''r1''), (''name'', JStr ''ping''),
                                    (''args'', JObj []), (''device'', JObj [(''id'', JStr [])])])"
             and body = "''body''" and body' = "''body''"
             and json = "JObj [(''id'', JStr ''r1''), (''name'', JStr ''ping''),
                              (''args'', JObj []), (''device'', JObj [(''id'', JStr [])])]"
             and json' = "JObj [(''id'', JStr ''r1''), (''name'', JStr ''ping''),
                               (''args'', JObj []), (''device'', JObj [(''id'', JStr [])])]"
             and decode = "\<lambda>tt path t v. Inr v"
             and kvs = "[(''id'', JStr ''r1''), (''name'', JStr ''ping''),
                         (''args'', JObj []), (''device'', JObj [(''id'', JStr [])])]"
             and dkvs = "[(''id'', JStr [])]"
             and kvs' = "[(''id'', JStr ''r1''), (''name'', JStr ''ping''),
                          (''args'', JObj []), (''device'', JObj [(''id'', JStr [])])]"
             and dkvs' = "[(''id'', JStr [])]"
             and vkvs = "[]" and ikvs = "[]" and vkvs' = "[]" and ikvs' = "[]"
             and req = "\<lparr> req_method = ''POST'', req_pathname = ''/'', req_headers = [],
                          req_clientIp = Some ''10.0.0.1'' \<rparr>"]
        empty_string_defaults
          [where json_parse =
                   "\<lambda>b. Inr (JObj [(''id'', JStr ''r1''), (''name'', JStr ''ping''),
                                    (''args'', JObj []), (''device'', JObj [(''id'', JStr ''d1'')])])"
             and body = "''body''" and body' = "''body''"
             and json = "JObj [(''id'', JStr ''r1''), (''name'', JStr ''ping''),
                              (''args'', JObj []), (''device'', JObj [(''id'', JStr ''d1'')])]"
             and json' = "JObj [(''id'', JStr ''r1''), (''name'', JStr ''ping''),
                               (''args'', JObj []), (''device'', JObj [(''id'', JStr ''d1'')])]"
             and decode = "\<lambda>tt path t v. Inr v"
             and kvs = "[(''id'', JStr ''r1''), (''name'', JStr ''ping''),
                         (''args'', JObj []), (''device'', JObj [(''id'', JStr ''d1'')])]"
             and dkvs = "[(''id'', JStr ''d1'')]"
             and kvs' = "[(''id'', JStr ''r1''), (''name'', JStr ''ping''),
                          (''args'', JObj []), (''device'', JObj [(''id'', JStr ''d1'')])]"
             and dkvs' = "[(''id'', JStr ''d1'')]"
             and vkvs = "[]" and ikvs = "[]" and vkvs' = "[]" and ikvs' = "[]"
             and req = "\<lparr> req_method = ''POST'', req_pathname = ''/'', req_headers = [],
                          req_clientIp = Some ''10.0.0.1'' \<rparr>"]
  by (auto simp add: own_prop_def js_or_def absent_def blank_def same_or_blank_def)

text \<open>
  Claim C10 as stated ends on every optional field. A V1 device language that is the
  empty string stays the empty string, where an absent one is \<^verbatim>\<open>null\<close>; and a V2 session id
  that is the empty string stays the empty string in \<^verbatim>\<open>extra\<close>, where an absent one is
  \<^verbatim>\<open>null\<close>.
\<close>

theorem empty_string_defaults_counterexample:
  "(\<exists>r r'. parseRequestV1
              (\<lambda>b. Inr (JObj [(''id'', JStr ''r1''), (''args'', JObj []), (''name'', JStr ''ping''),
                               (''device'', JObj [(''language'', JStr [])])]))
              (\<lambda>tt path t v. Inr v) sample_post ''body'' = Inr r \<and>
            parseRequestV1
              (\<lambda>b. Inr (JObj [(''id'', JStr ''r1''), (''args'', JObj []), (''name'', JStr ''ping''),
                               (''device'', JObj [(''language'', JNull)])]))
              (\<lambda>tt path t v. Inr v) sample_post ''body'' = Inr r' \<and>
            di_language (rq_deviceInfo r) = JStr [] \<and>
            di_language (rq_deviceInfo r') = JNull \<and> r \<noteq> r') \<and>
   (\<exists>r r'. parseRequestV2
              (\<lambda>b. Inr (JObj [(''requestId'', JStr ''r2''), (''deviceId'', JStr ''d2''),
                               (''sessionId'', JStr []), (''args'', JObj []),
                               (''name'', JStr ''ping''),
                               (''info'', JObj [(''type'', JStr ''web''),
                                                (''language'', JStr ''en'')])]))
              (\<lambda>tt path t v. Inr v) sample_post ''body'' = Inr r \<and>
            parseRequestV2
              (\<lambda>b. Inr (JObj [(''requestId'', JStr ''r2''), (''deviceId'', JStr ''d2''),
                               (''sessionId'', JNull), (''args'', JObj []),
                               (''name'', JStr ''ping''),
                               (''info'', JObj [(''type'', JStr ''web''),
                                                (''language'', JStr ''en'')])]))
              (\<lambda>tt path t v. Inr v) sample_post ''body'' = Inr r' \<and>
            rq_extra r = JObj [(''sessionId'', JStr []), (''partnerId'', JUndefined)] \<and>
            rq_extra r' = JObj [(''sessionId'', JNull), (''partnerId'', JUndefined)] \<and>
            r \<noteq> r')"
  by (auto simp: parseRequestV1_def parseRequestV2_def bindE_def own_prop_def js_or_def)

section \<open>Route resolution\<close>













section \<open>Dispatch and replies\<close>

text \<open>When a read of a table yields nothing, and what it yields for an own entry.\<close>

lemma js_read_falsy:
  "falsy_member (js_read table name) =
     (table name = None \<and> name \<notin> set object_prototype_names)"
  by (simp add: js_read_def split: option.splits)

lemma js_read_Own: "table name = Some v \<Longrightarrow> js_read table name = Own v"
  by (simp add: js_read_def)

lemma js_read_Inherited:
  "table name = None \<Longrightarrow> name \<in> set object_prototype_names \<Longrightarrow>
     js_read table name = Inherited"
  by (simp add: js_read_def)

lemma member_Own [simp]:
  "member_description (Own d) = d"
  "member_impl pf name (Own f) = f"
  by (simp_all add: member_description_def member_impl_def)

lemma dispatch_missing:
  assumes "rpc_request pf srv req body g ip request"
    and "falsy_member (js_read (functionTable (apiConfig srv)) (toStr (rq_name request))) \<or>
         falsy_member (js_read (fn (apiConfig srv)) (toStr (rq_name request)))"
  shows "handleRequestWithBody pf srv req body g s =
           (writeReply (pf_env pf) (Some (make_ctx pf srv ip request))
              (error_reply (JStr ''Fatal'')
                 (JStr (''Function does not exist: '' @ toStr (rq_name request))))
              (json_header s), None)"
  using assms
  by (auto simp: rpc_request_def handleRequestWithBody_def make_ctx_def json_header_def Let_def)

lemma dispatch_unknown:
  assumes "rpc_request pf srv req body g ip request"
    and "toStr (rq_name request) \<notin> set object_prototype_names"
    and "functionTable (apiConfig srv) (toStr (rq_name request)) = None \<or>
         fn (apiConfig srv) (toStr (rq_name request)) = None"
  shows "handleRequestWithBody pf srv req body g s =
           (writeReply (pf_env pf) (Some (make_ctx pf srv ip request))
              (error_reply (JStr ''Fatal'')
                 (JStr (''Function does not exist: '' @ toStr (rq_name request))))
              (json_header s), None)"
  using assms(2,3) by (intro dispatch_missing [OF assms(1)]) (auto simp: js_read_falsy)

lemma dispatch_found:
  assumes "rpc_request pf srv req body g ip request"
    and "\<not> falsy_member (js_read (functionTable (apiConfig srv)) (toStr (rq_name request)))"
    and "\<not> falsy_member (js_read (fn (apiConfig srv)) (toStr (rq_name request)))"
  shows "handleRequestWithBody pf srv req body g s =
           (case execute pf (apiConfig srv) (make_ctx pf srv ip request)
                   (member_description
                      (js_read (functionTable (apiConfig srv)) (toStr (rq_name request))))
                   (member_impl pf (toStr (rq_name request))
                      (js_read (fn (apiConfig srv)) (toStr (rq_name request)))) of
              Inl e \<Rightarrow> (json_header s, Some e)
            | Inr reply \<Rightarrow>
                (case onRequestEnd (apiConfig srv) (make_ctx pf srv ip request) reply of
                   Inl e \<Rightarrow> (json_header s, Some e)
                 | Inr ended \<Rightarrow>
                     (writeReply (pf_env pf) (Some (make_ctx pf srv ip request))
                        (case ended of Some r \<Rightarrow> r | None \<Rightarrow> reply)
                        (json_header s), None)))"
  using assms
  by (auto simp: rpc_request_def handleRequestWithBody_def make_ctx_def json_header_def Let_def
           split: sum.splits)

lemma dispatch_known:
  assumes "rpc_request pf srv req body g ip request"
    and "functionTable (apiConfig srv) (toStr (rq_name request)) = Some fd"
    and "fn (apiConfig srv) (toStr (rq_name request)) = Some impl"
  shows "handleRequestWithBody pf srv req body g s =
           (case execute pf (apiConfig srv) (make_ctx pf srv ip request) fd impl of
              Inl e \<Rightarrow> (json_header s, Some e)
            | Inr reply \<Rightarrow>
                (case onRequestEnd (apiConfig srv) (make_ctx pf srv ip request) reply of
                   Inl e \<Rightarrow> (json_header s, Some e)
                 | Inr ended \<Rightarrow>
                     (writeReply (pf_env pf) (Some (make_ctx pf srv ip request))
                        (case ended of Some r \<Rightarrow> r | None \<Rightarrow> reply)
                        (json_header s), None)))"
  using dispatch_found [OF assms(1), of s] by (simp add: js_read_def assms(2,3))

text \<open>
  A name that every object inherits is found in both tables, whether the host defines it
  or not: the dispatcher goes on to the call, with \<^verbatim>\<open>undefined\<close> for the schemas and the
  built-in member for the implementation.
\<close>

lemma dispatch_inherited:
  assumes "rpc_request pf srv req body g ip request"
    and "toStr (rq_name request) \<in> set object_prototype_names"
    and "functionTable (apiConfig srv) (toStr (rq_name request)) = None"
    and "fn (apiConfig srv) (toStr (rq_name request)) = None"
  shows "handleRequestWithBody pf srv req body g s =
           (case execute pf (apiConfig srv) (make_ctx pf srv ip request)
                   \<lparr> fd_args = TUndefined, fd_ret = TUndefined \<rparr>
                   (pf_builtin pf (toStr (rq_name request))) of
              Inl e \<Rightarrow> (json_header s, Some e)
            | Inr reply \<Rightarrow>
                (case onRequestEnd (apiConfig srv) (make_ctx pf srv ip request) reply of
                   Inl e \<Rightarrow> (json_header s, Some e)
                 | Inr ended \<Rightarrow>
                     (writeReply (pf_env pf) (Some (make_ctx pf srv ip request))
                        (case ended of Some r \<Rightarrow> r | None \<Rightarrow> reply)
                        (json_header s), None)))"
  using dispatch_found [OF assms(1), of s]
  by (simp add: js_read_def assms(2-4) member_description_def member_impl_def)

lemma writeReply_context_V1:
  assumes "rq_version (ctx_request ctx) = 1"
  shows "writeReply e (Some ctx) reply s =
     res_end
       (res_write
          (Json (JObj [(''id'', rq_id (ctx_request ctx)),
                       (''ok'', JBool (rep_error reply = None)),
                       (''deviceId'', di_id (rq_deviceInfo (ctx_request ctx))),
                       (''duration'', env_duration e (ctx_hrStart ctx)),
                       (''host'', JStr (env_hostname e)),
                       (''result'', js_or (rep_result reply) JNull),
                       (''error'', error_json (rep_error reply))]))
          ((log e (toStr (rq_id (ctx_request ctx)) @ '' ['' @
                   env_toFixed6 e (env_duration e (ctx_hrStart ctx)) @ ''s] '' @
                   toStr (rq_name (ctx_request ctx)) @ ''() -> '' @
                   (case rep_error reply of
                      Some err \<Rightarrow> toStr (err_type err)
                    | None \<Rightarrow> ''OK'')) s)
           \<lparr> res_statusCode := status_of (rep_error reply) \<rparr>))"
  using assms by (simp add: writeReply_def Let_def)

lemma writeReply_context_V2:
  assumes "rq_version (ctx_request ctx) = 2"
  shows "writeReply e (Some ctx) reply s =
     res_end
       (log e (toStr (rq_id (ctx_request ctx)) @ '' ['' @
               env_toFixed6 e (env_duration e (ctx_hrStart ctx)) @ ''s] '' @
               toStr (rq_name (ctx_request ctx)) @ ''() -> '' @
               (case rep_error reply of
                  Some err \<Rightarrow> toStr (err_type err)
                | None \<Rightarrow> ''OK'')) s)"
  using assms by (simp add: writeReply_def Let_def)

lemma writeReply_context_V3:
  assumes "rq_version (ctx_request ctx) = 3"
  shows "writeReply e (Some ctx) reply s =
     res_end
       (res_write
          (Json (JObj [(''duration'', env_duration e (ctx_hrStart ctx)),
                       (''host'', JStr (env_hostname e)),
                       (''result'', js_or (rep_result reply) JNull),
                       (''error'', error_json (rep_error reply))]))
          ((log e (toStr (rq_id (ctx_request ctx)) @ '' ['' @
                   env_toFixed6 e (env_duration e (ctx_hrStart ctx)) @ ''s] '' @
                   toStr (rq_name (ctx_request ctx)) @ ''() -> '' @
                   (case rep_error reply of
                      Some err \<Rightarrow> toStr (err_type err)
                    | None \<Rightarrow> ''OK'')) s)
           \<lparr> res_statusCode := status_of (rep_error reply) \<rparr>))"
  using assms by (simp add: writeReply_def Let_def)

lemma io_ops [simp]:
  "res_statusCode (res_end s) = res_statusCode s"
  "res_body (res_end s) = res_body s"
  "console (res_end s) = console s"
  "res_ended (res_end s) = True"
  "res_headers (res_end s) = res_headers s"
  "res_statusCode (res_write c s) = res_statusCode s"
  "res_body (res_write c s) = res_body s @ [c]"
  "console (res_write c s) = console s"
  "res_ended (res_write c s) = res_ended s"
  "res_headers (res_write c s) = res_headers s"
  "res_statusCode (log e m s) = res_statusCode s"
  "res_body (log e m s) = res_body s"
  "console (log e m s) = console s @ [env_now e @ '' '' @ m]"
  "res_ended (log e m s) = res_ended s"
  "res_headers (log e m s) = res_headers s"
  "res_statusCode (setHeader h v s) = res_statusCode s"
  "res_body (setHeader h v s) = res_body s"
  "console (setHeader h v s) = console s"
  "res_ended (setHeader h v s) = res_ended s"
  "res_headers (setHeader h v s) = res_headers s @ [(h, v)]"
  "res_statusCode (writeHead n s) = n"
  "res_body (writeHead n s) = res_body s"
  "console (writeHead n s) = console s"
  "res_ended (writeHead n s) = res_ended s"
  by (simp_all add: res_end_def res_write_def log_def setHeader_def writeHead_def)

text \<open>
  Claim C4. A reply written with a context for a V1 or V3 request sets the status 200
  when it carries no error, 500 when its error's type is \<^verbatim>\<open>"Fatal"\<close>, and 400 when its error
  has any other type.
\<close>

theorem writeReply_status:
  assumes "rq_version (ctx_request ctx) = 1 \<or> rq_version (ctx_request ctx) = 3"
  shows "(rep_error reply = None \<longrightarrow>
            res_statusCode (writeReply e (Some ctx) reply s) = 200) \<and>
         (\<forall>err. rep_error reply = Some err \<and> err_type err = JStr ''Fatal'' \<longrightarrow>
            res_statusCode (writeReply e (Some ctx) reply s) = 500) \<and>
         (\<forall>err. rep_error reply = Some err \<and> err_type err \<noteq> JStr ''Fatal'' \<longrightarrow>
            res_statusCode (writeReply e (Some ctx) reply s) = 400)"
  using assms
proof
  assume "rq_version (ctx_request ctx) = 1"
  then show ?thesis by (simp add: writeReply_context_V1 status_of_def)
next
  assume "rq_version (ctx_request ctx) = 3"
  then show ?thesis by (simp add: writeReply_context_V3 status_of_def)
qed

theorem writeReply_status_witness:
  "res_statusCode
     (writeReply sample_env
        (Some \<lparr> ctx_extra = (), ctx_ip = ''10.0.0.1'', ctx_request = v1_request ''ping'',
                ctx_hrStart = (0, 0) \<rparr>)
        (error_reply (JStr ''Fatal'') (JStr ''boom'')) fresh_io) = 500 \<and>
   res_statusCode
     (writeReply sample_env
        (Some \<lparr> ctx_extra = (), ctx_ip = ''10.0.0.1'', ctx_request = v3_request ''ping'',
                ctx_hrStart = (0, 0) \<rparr>)
        (error_reply (JStr ''NotFound'') (JStr ''no such user'')) fresh_io) = 400 \<and>
   res_statusCode
     (writeReply sample_env
        (Some \<lparr> ctx_extra = (), ctx_ip = ''10.0.0.1'', ctx_request = v3_request ''ping'',
                ctx_hrStart = (0, 0) \<rparr>)
        (result_reply (JStr ''pong'')) fresh_io) = 200"
  using writeReply_status
          [of "\<lparr> ctx_extra = (), ctx_ip = ''10.0.0.1'', ctx_request = v1_request ''ping'',
                 ctx_hrStart = (0, 0) \<rparr>"
              "error_reply (JStr ''Fatal'') (JStr ''boom'')" sample_env fresh_io]
        writeReply_status
          [of "\<lparr> ctx_extra = (), ctx_ip = ''10.0.0.1'', ctx_request = v3_request ''ping'',
                 ctx_hrStart = (0, 0) \<rparr>"
              "error_reply (JStr ''NotFound'') (JStr ''no such user'')" sample_env fresh_io]
        writeReply_status
          [of "\<lparr> ctx_extra = (), ctx_ip = ''10.0.0.1'', ctx_request = v3_request ''ping'',
                 ctx_hrStart = (0, 0) \<rparr>"
              "result_reply (JStr ''pong'')" sample_env fresh_io]
  by (simp add: v1_request_def v3_request_def error_reply_def result_reply_def)

lemma sample_no_handler:
  "findBestHandler (pf_exec (sample_platform j d)) (handlers (sample_server r))
     (strip_prefix (ignoredUrlPrefix (sample_server r)) (req_pathname sample_post)) sample_post =
   Inr None"
  by (simp add: findBestHandler_def sample_server_def sample_post_def bindE_def)

lemma sample_rpc_v1:
  "rpc_request (sample_platform (v1_body name) (v1_decoded name)) (sample_server ret)
     sample_post body g ''10.0.0.1'' (v1_request name)"
  by (simp add: rpc_request_def sample_no_handler)
     (simp add: sample_platform_def sample_post_def v1_body_def v1_decoded_def v1_request_def
        parseRequest_def identifyRequestVersion_def parseRequestV1_def bindE_def own_prop_def
        js_or_def)

lemma sample_rpc_v2:
  "rpc_request (sample_platform (v2_body name) (v2_decoded name)) (sample_server ret)
     sample_post body g ''10.0.0.1'' (v2_request name)"
  by (simp add: rpc_request_def sample_no_handler)
     (simp add: sample_platform_def sample_post_def v2_body_def v2_decoded_def v2_request_def
        parseRequest_def identifyRequestVersion_def parseRequestV2_def bindE_def own_prop_def
        js_or_def)

lemma sample_rpc_v3:
  "rpc_request (sample_platform (v3_body name) (v3_decoded name)) (sample_server ret)
     sample_post body g ''10.0.0.1'' (v3_request name)"
  by (simp add: rpc_request_def sample_no_handler)
     (simp add: sample_platform_def sample_post_def v3_body_def v3_decoded_def v3_request_def
        parseRequest_def identifyRequestVersion_def parseRequestV3_def bindE_def own_prop_def
        js_or_def or_random_def Let_def)

lemma fold_headers_preserves:
  "res_statusCode (fold (\<lambda>(header, v) t. if P header then t else setHeader header v t) hs s) =
     res_statusCode s \<and>
   res_body (fold (\<lambda>(header, v) t. if P header then t else setHeader header v t) hs s) =
     res_body s \<and>
   console (fold (\<lambda>(header, v) t. if P header then t else setHeader header v t) hs s) =
     console s \<and>
   res_ended (fold (\<lambda>(header, v) t. if P header then t else setHeader header v t) hs s) =
     res_ended s"
  by (induction hs arbitrary: s) (auto split: prod.splits)

lemma handleRequest_not_OPTIONS:
  fixes srv :: "('x, 're) server"
  assumes "req_method req \<noteq> ''OPTIONS''"
  shows "\<exists>s2. res_statusCode s2 = res_statusCode s \<and> res_body s2 = res_body s \<and>
              console s2 = console s \<and> res_ended s2 = res_ended s \<and>
           handleRequest pf srv req body g s =
             (case handleRequestWithBody pf srv req body g s2 of
                (s3, None) \<Rightarrow> s3
              | (s3, Some e) \<Rightarrow>
                  (case ex_toString e of
                     Inl e' \<Rightarrow> s3
                   | Inr str \<Rightarrow>
                       writeReply (pf_env pf) (None :: 'x Context option)
                         (error_reply (JStr ''Fatal'') (JStr str)) s3))"
proof -
  define s1 where "s1 =
    (if dynamicCorsOrigin srv \<and>
        (case map_of (req_headers req) ''origin'' of None \<Rightarrow> [] | Some v \<Rightarrow> v) \<noteq> []
     then setHeader ''Vary'' ''Origin''
            (setHeader ''Access-Control-Allow-Origin''
               (case map_of (req_headers req) ''origin'' of None \<Rightarrow> [] | Some v \<Rightarrow> v) s)
     else s)"
  define s2 where "s2 =
    fold (\<lambda>(header, v) t.
            if req_method req = ''OPTIONS'' \<and> take 15 header \<noteq> ''access-control-''
            then t else setHeader header v t) (headers srv) s1"
  have s1: "res_statusCode s1 = res_statusCode s" "res_body s1 = res_body s"
    "console s1 = console s" "res_ended s1 = res_ended s"
    by (simp_all add: s1_def)
  have "res_statusCode s2 = res_statusCode s1 \<and> res_body s2 = res_body s1 \<and>
        console s2 = console s1 \<and> res_ended s2 = res_ended s1"
    unfolding s2_def by (rule fold_headers_preserves)
  with s1 have s2: "res_statusCode s2 = res_statusCode s" "res_body s2 = res_body s"
    "console s2 = console s" "res_ended s2 = res_ended s"
    by simp_all
  have "handleRequest pf srv req body g s =
          (case handleRequestWithBody pf srv req body g s2 of
             (s3, None) \<Rightarrow> s3
           | (s3, Some e) \<Rightarrow>
               (case ex_toString e of
                  Inl e' \<Rightarrow> s3
                | Inr str \<Rightarrow>
                    writeReply (pf_env pf) (None :: 'x Context option)
                      (error_reply (JStr ''Fatal'') (JStr str)) s3))"
    using assms by (simp add: handleRequest_def Let_def s1_def s2_def)
  with s2 show ?thesis by blast
qed

lemma writeReply_contextless:
  "writeReply e (None :: 'x Context option) (error_reply t m) s =
     res_end (res_write (Json (JObj [(''error'', JObj [(''type'', t), (''message'', m)])]))
                (s\<lparr> res_statusCode := 500 \<rparr>))"
  by (simp add: writeReply_def error_reply_def error_json_def Let_def)

lemma parse_failure_reply:
  fixes srv :: "('x, 're) server"
  assumes "findBestHandler (pf_exec pf) (handlers srv)
             (strip_prefix (ignoredUrlPrefix srv) (req_pathname req)) req = Inr None"
    and "req_method req = ''POST''" and "req_clientIp req = Some ip" and "ip \<noteq> []"
    and "parseRequest (pf_json_parse pf) (pf_decode pf) req body g = Inl e"
    and "ex_toString e = Inr str"
  shows "res_statusCode (handleRequest pf srv req body g s) = 500 \<and>
         res_body (handleRequest pf srv req body g s) =
           res_body s @ [Json (JObj [(''error'', JObj [(''type'', JStr ''Fatal''),
                                                       (''message'', JStr str)])])] \<and>
         console (handleRequest pf srv req body g s) = console s"
proof -
  from assms(2) have "req_method req \<noteq> ''OPTIONS''" by simp
  from handleRequest_not_OPTIONS [OF this, of s pf srv body g]
  obtain s2 where s2: "res_statusCode s2 = res_statusCode s" "res_body s2 = res_body s"
      "console s2 = console s"
    and h: "handleRequest pf srv req body g s =
             (case handleRequestWithBody pf srv req body g s2 of
                (s3, None) \<Rightarrow> s3
              | (s3, Some e) \<Rightarrow>
                  (case ex_toString e of
                     Inl e' \<Rightarrow> s3
                   | Inr str \<Rightarrow>
                       writeReply (pf_env pf) (None :: 'x Context option)
                         (error_reply (JStr ''Fatal'') (JStr str)) s3))"
    by blast
  have "handleRequestWithBody pf srv req body g s2 = (json_header s2, Some e)"
    using assms(1-5) by (simp add: handleRequestWithBody_def json_header_def Let_def)
  with h s2 assms(6) show ?thesis
    by (simp add: writeReply_contextless json_header_def)
qed

lemma handleRequest_rpc:
  fixes srv :: "('x, 're) server"
  assumes "rpc_request pf srv req body g ip request"
  shows "\<exists>s2. res_statusCode s2 = res_statusCode s \<and> res_body s2 = res_body s \<and>
              console s2 = console s \<and>
           handleRequest pf srv req body g s =
             (case handleRequestWithBody pf srv req body g s2 of
                (s3, None) \<Rightarrow> s3
              | (s3, Some e) \<Rightarrow>
                  (case ex_toString e of
                     Inl e' \<Rightarrow> s3
                   | Inr str \<Rightarrow>
                       writeReply (pf_env pf) (None :: 'x Context option)
                         (error_reply (JStr ''Fatal'') (JStr str)) s3))"
proof -
  from assms have "req_method req \<noteq> ''OPTIONS''" by (simp add: rpc_request_def)
  from handleRequest_not_OPTIONS [OF this, of s pf srv body g] show ?thesis by blast
qed

lemma reply_fields [simp]:
  "rep_error (error_reply t m) = Some \<lparr> err_type = t, err_message = m \<rparr>"
  "rep_result (error_reply t m) = JUndefined"
  "rep_error (result_reply v) = None"
  "rep_result (result_reply v) = v"
  by (simp_all add: error_reply_def result_reply_def)

lemma parseRequestV1_version:
  "parseRequestV1 json_parse decode req body = Inr r \<Longrightarrow> rq_version r = 1"
  by (auto simp: parseRequestV1_def bindE_def split: sum.splits)

lemma parseRequestV2_version:
  "parseRequestV2 json_parse decode req body = Inr r \<Longrightarrow> rq_version r = 2"
  by (auto simp: parseRequestV2_def bindE_def split: sum.splits)

lemma parseRequestV3_version:
  "parseRequestV3 json_parse decode req body g = Inr (r, g') \<Longrightarrow> rq_version r = 3"
  by (auto simp: parseRequestV3_def bindE_def Let_def split: sum.splits prod.splits)

lemma parseRequest_version:
  assumes "parseRequest json_parse decode req body g = Inr (r, g')"
  shows "rq_version r = 1 \<or> rq_version r = 2 \<or> rq_version r = 3"
  using assms
  by (auto simp: parseRequest_def bindE_def
           dest: parseRequestV1_version parseRequestV2_version parseRequestV3_version
           split: sum.splits if_splits)

lemma rpc_request_version:
  "rpc_request pf srv req body g ip request \<Longrightarrow>
     rq_version request = 1 \<or> rq_version request = 2 \<or> rq_version request = 3"
  unfolding rpc_request_def using parseRequest_version by blast

text \<open>
  Claim C8, by protocol version. When a parsed request names a function that has no
  descriptor or no implementation, and the name is not one that every object inherits
  (\<^verbatim>\<open>constructor\<close>, \<^verbatim>\<open>toString\<close>, ...), the reply is written with the request's context and
  carries the Fatal error \<^verbatim>\<open>"Function does not exist: <name>"\<close>; the access log line ends in
  \<^verbatim>\<open>Fatal\<close>. For V1 the status is 500 and the body has \<^verbatim>\<open>ok: false\<close>, a null result and
  the error; for V3 the status is 500 and the body has the duration, the host, a null
  result and the error, and no \<^verbatim>\<open>ok\<close> field; for V2 nothing is written and the status
  is unchanged.
\<close>

theorem unknown_function_reply:
  fixes srv :: "('x, 're) server"
  assumes "rpc_request pf srv req body g ip request"
    and "toStr (rq_name request) \<notin> set object_prototype_names"
    and "functionTable (apiConfig srv) (toStr (rq_name request)) = None \<or>
         fn (apiConfig srv) (toStr (rq_name request)) = None"
  shows
    "res_ended (handleRequest pf srv req body g s) \<and>
     console (handleRequest pf srv req body g s) =
       console s @ [access_log (pf_env pf) (make_ctx pf srv ip request) ''Fatal''] \<and>
     (rq_version request = 1 \<longrightarrow>
        res_statusCode (handleRequest pf srv req body g s) = 500 \<and>
        res_body (handleRequest pf srv req body g s) =
          res_body s @
          [Json (JObj [(''id'', rq_id request),
                       (''ok'', JBool False),
                       (''deviceId'', di_id (rq_deviceInfo request)),
                       (''duration'', env_duration (pf_env pf) (env_hrtime (pf_env pf))),
                       (''host'', JStr (env_hostname (pf_env pf))),
                       (''result'', JNull),
                       (''error'',
                        JObj [(''type'', JStr ''Fatal''),
                              (''message'',
                               JStr (''Function does not exist: '' @
                                     toStr (rq_name request)))])])]) \<and>
     (rq_version request = 3 \<longrightarrow>
        res_statusCode (handleRequest pf srv req body g s) = 500 \<and>
        res_body (handleRequest pf srv req body g s) =
          res_body s @
          [Json (JObj [(''duration'', env_duration (pf_env pf) (env_hrtime (pf_env pf))),
                       (''host'', JStr (env_hostname (pf_env pf))),
                       (''result'', JNull),
                       (''error'',
                        JObj [(''type'', JStr ''Fatal''),
                              (''message'',
                               JStr (''Function does not exist: '' @
                                     toStr (rq_name request)))])])]) \<and>
     (rq_version request = 2 \<longrightarrow>
        res_statusCode (handleRequest pf srv req body g s) = res_statusCode s \<and>
        res_body (handleRequest pf srv req body g s) = res_body s)"
proof -
  let ?ctx = "make_ctx pf srv ip request"
  let ?reply = "error_reply (JStr ''Fatal'')
                  (JStr (''Function does not exist: '' @ toStr (rq_name request)))"
  from handleRequest_rpc [OF assms(1), of s]
  obtain s2 where s2: "res_statusCode s2 = res_statusCode s" "res_body s2 = res_body s"
      "console s2 = console s"
    and h: "handleRequest pf srv req body g s =
             (case handleRequestWithBody pf srv req body g s2 of
                (s3, None) \<Rightarrow> s3
              | (s3, Some e) \<Rightarrow>
                  (case ex_toString e of
                     Inl e' \<Rightarrow> s3
                   | Inr str \<Rightarrow>
                       writeReply (pf_env pf) (None :: 'x Context option)
                         (error_reply (JStr ''Fatal'') (JStr str)) s3))"
    by blast
  have w: "handleRequest pf srv req body g s =
             writeReply (pf_env pf) (Some ?ctx) ?reply (json_header s2)"
    by (simp add: h dispatch_unknown [OF assms])
  have c: "ctx_request ?ctx = request" "ctx_hrStart ?ctx = env_hrtime (pf_env pf)"
    by (simp_all add: make_ctx_def)
  have ended: "res_ended (handleRequest pf srv req body g s)"
    using rpc_request_version [OF assms(1)]
    by (auto simp: w writeReply_context_V1 writeReply_context_V2 writeReply_context_V3 c)
  have logged: "console (handleRequest pf srv req body g s) =
       console s @ [access_log (pf_env pf) ?ctx ''Fatal'']"
    by (simp add: w writeReply_def Let_def json_header_def s2 access_log_def)
  have v1: "res_statusCode (handleRequest pf srv req body g s) = 500 \<and>
        res_body (handleRequest pf srv req body g s) =
          res_body s @
          [Json (JObj [(''id'', rq_id request),
                       (''ok'', JBool False),
                       (''deviceId'', di_id (rq_deviceInfo request)),
                       (''duration'', env_duration (pf_env pf) (env_hrtime (pf_env pf))),
                       (''host'', JStr (env_hostname (pf_env pf))),
                       (''result'', JNull),
                       (''error'',
                        JObj [(''type'', JStr ''Fatal''),
                              (''message'',
                               JStr (''Function does not exist: '' @
                                     toStr (rq_name request)))])])]"
    if "rq_version request = 1"
    using that
    by (simp add: w writeReply_context_V1 c s2 json_header_def status_of_def js_or_def
          error_json_def)
  have v3: "res_statusCode (handleRequest pf srv req body g s) = 500 \<and>
        res_body (handleRequest pf srv req body g s) =
          res_body s @
          [Json (JObj [(''duration'', env_duration (pf_env pf) (env_hrtime (pf_env pf))),
                       (''host'', JStr (env_hostname (pf_env pf))),
                       (''result'', JNull),
                       (''error'',
                        JObj [(''type'', JStr ''Fatal''),
                              (''message'',
                               JStr (''Function does not exist: '' @
                                     toStr (rq_name request)))])])]"
    if "rq_version request = 3"
    using that
    by (simp add: w writeReply_context_V3 c s2 json_header_def status_of_def js_or_def
          error_json_def)
  have v2: "res_statusCode (handleRequest pf srv req body g s) = res_statusCode s \<and>
        res_body (handleRequest pf srv req body g s) = res_body s"
    if "rq_version request = 2"
    using that by (simp add: w writeReply_context_V2 c s2 json_header_def)
  from ended logged v1 v2 v3 show ?thesis by blast
qed

lemma sample_fields [simp]:
  "pf_env (sample_platform j d) = sample_env"
  "env_now sample_env = ''2026-01-01T00:00:00.000Z''"
  "env_hostname sample_env = ''host''"
  "env_hrtime sample_env = (0, 0)"
  "env_duration sample_env t = JNum 0"
  "env_toFixed6 sample_env v = ''0.000000''"
  "functionTable (apiConfig (sample_server ret)) name =
     (if name = ''ping'' then Some \<lparr> fd_args = TFields [], fd_ret = TName ''any'' \<rparr> else None)"
  "fn (apiConfig (sample_server ret)) name =
     (if name = ''ping'' then Some (\<lambda>ctx args. Inr ret) else None)"
  "onRequestStart (apiConfig (sample_server ret)) = (\<lambda>ctx. Inr None)"
  "onRequestEnd (apiConfig (sample_server ret)) = (\<lambda>ctx reply. Inr None)"
  by (simp_all add: sample_platform_def sample_env_def sample_server_def)

lemma nope_not_inherited [simp]: "''nope'' \<notin> set object_prototype_names"
  by (simp add: object_prototype_names_def)

theorem unknown_function_reply_witness:
  "res_statusCode
     (handleRequest (sample_platform (v1_body ''nope'') (v1_decoded ''nope''))
        (sample_server JNull) sample_post ''body'' (\<lambda>i. 0) fresh_io) = 500 \<and>
   res_body
     (handleRequest (sample_platform (v1_body ''nope'') (v1_decoded ''nope''))
        (sample_server JNull) sample_post ''body'' (\<lambda>i. 0) fresh_io) =
     [Json (JObj [(''id'', JStr ''r1''), (''ok'', JBool False), (''deviceId'', JStr ''r1''),
                  (''duration'', JNum 0), (''host'', JStr ''host''), (''result'', JNull),
                  (''error'', JObj [(''type'', JStr ''Fatal''),
                                    (''message'', JStr ''Function does not exist: nope'')])])]"
  using unknown_function_reply
          [OF sample_rpc_v1 [of "''nope''" JNull "''body''" "\<lambda>i. 0"], of fresh_io]
  by (simp add: v1_request_def fresh_io_def)

text \<open>
  Claim C8 as stated promises status 500 for every request and \<^verbatim>\<open>ok: false\<close> in V1 and
  V3 bodies. A V2 request for the unknown function \<^verbatim>\<open>nope\<close> ends with status 200 and an
  empty body, and the body of the V3 reply has no \<^verbatim>\<open>ok\<close> field.
\<close>

theorem unknown_function_reply_counterexample:
  "res_statusCode
     (handleRequest (sample_platform (v2_body ''nope'') (v2_decoded ''nope''))
        (sample_server JNull) sample_post ''body'' (\<lambda>i. 0) fresh_io) = 200 \<and>
   res_body
     (handleRequest (sample_platform (v2_body ''nope'') (v2_decoded ''nope''))
        (sample_server JNull) sample_post ''body'' (\<lambda>i. 0) fresh_io) = [] \<and>
   res_body
     (handleRequest (sample_platform (v3_body ''nope'') (v3_decoded ''nope''))
        (sample_server JNull) sample_post ''body'' (\<lambda>i. 0) fresh_io) =
     [Json (JObj [(''duration'', JNum 0), (''host'', JStr ''host''), (''result'', JNull),
                  (''error'', JObj [(''type'', JStr ''Fatal''),
                                    (''message'', JStr ''Function does not exist: nope'')])])] \<and>
   own_prop [(''duration'', JNum 0), (''host'', JStr ''host''), (''result'', JNull),
             (''error'', JObj [(''type'', JStr ''Fatal''),
                               (''message'', JStr ''Function does not exist: nope'')])] ''ok'' =
     JUndefined"
proof -
  have n2: "toStr (rq_name (v2_request ''nope'')) \<notin> set object_prototype_names"
    by (simp add: v2_request_def)
  have n3: "toStr (rq_name (v3_request ''nope'')) \<notin> set object_prototype_names"
    by (simp add: v3_request_def)
  have v2: "functionTable (apiConfig (sample_server JNull)) (toStr (rq_name (v2_request ''nope''))) = None \<or>
            fn (apiConfig (sample_server JNull)) (toStr (rq_name (v2_request ''nope''))) = None"
    by (simp add: v2_request_def)
  have v3: "functionTable (apiConfig (sample_server JNull)) (toStr (rq_name (v3_request ''nope''))) = None \<or>
            fn (apiConfig (sample_server JNull)) (toStr (rq_name (v3_request ''nope''))) = None"
    by (simp add: v3_request_def)
  note a = handleRequest_rpc [OF sample_rpc_v2 [of "''nope''" JNull "''body''" "\<lambda>i. 0"], of fresh_io]
  note b = handleRequest_rpc [OF sample_rpc_v3 [of "''nope''" JNull "''body''" "\<lambda>i. 0"], of fresh_io]
  show ?thesis
    using a b
    by (auto simp: dispatch_unknown [OF sample_rpc_v2 n2 v2]
          dispatch_unknown [OF sample_rpc_v3 n3 v3]
          writeReply_context_V2 writeReply_context_V3 make_ctx_def v2_request_def v3_request_def
          json_header_def fresh_io_def status_of_def js_or_def error_json_def own_prop_def)
qed

text \<open>
  Claim C7. Writing a reply with the context of a V2 request, whatever the reply, adds
  nothing to the body and leaves the status as it was; the response is ended. A POST that
  is parsed as a V2 request either gets such a reply, so that its handling leaves the
  body and the status as they were (empty and 200 on a fresh response), or the
  dispatcher's promise is rejected before anything is written. It gets such a reply
  whenever the table reads find no function, and whenever the call yields a reply
  (nothing thrown, or something the \<^verbatim>\<open>catch\<close> block can read) and the end hook returns.
\<close>

theorem V2_reply_empty:
  fixes srv :: "('x, 're) server"
  shows
    "(rq_version (ctx_request ctx) = 2 \<longrightarrow>
        res_body (writeReply e (Some ctx) reply s) = res_body s \<and>
        res_statusCode (writeReply e (Some ctx) reply s) = res_statusCode s \<and>
        res_ended (writeReply e (Some ctx) reply s)) \<and>
     (rpc_request pf srv req body g ip request \<and> rq_version request = 2 \<longrightarrow>
        (\<exists>s'. handleRequestWithBody pf srv req body g s = (s', None) \<and>
              res_body s' = res_body s \<and> res_statusCode s' = res_statusCode s \<and>
              res_ended s') \<or>
        (\<exists>thrown. handleRequestWithBody pf srv req body g s = (json_header s, Some thrown))) \<and>
     (rpc_request pf srv req body g ip request \<and> rq_version request = 2 \<and>
      rctx = make_ctx pf srv ip request \<and>
      described = js_read (functionTable (apiConfig srv)) (toStr (rq_name request)) \<and>
      implemented = js_read (fn (apiConfig srv)) (toStr (rq_name request)) \<and>
      (falsy_member described \<or> falsy_member implemented \<or>
       execute pf (apiConfig srv) rctx (member_description described)
         (member_impl pf (toStr (rq_name request)) implemented) = Inr outcome \<and>
       onRequestEnd (apiConfig srv) rctx outcome = Inr ended) \<longrightarrow>
        res_body (handleRequest pf srv req body g s) = res_body s \<and>
        res_statusCode (handleRequest pf srv req body g s) = res_statusCode s \<and>
        res_ended (handleRequest pf srv req body g s))"
proof (intro conjI impI)
  assume "rq_version (ctx_request ctx) = 2"
  then show "res_body (writeReply e (Some ctx) reply s) = res_body s"
    "res_statusCode (writeReply e (Some ctx) reply s) = res_statusCode s"
    "res_ended (writeReply e (Some ctx) reply s)"
    by (simp_all add: writeReply_context_V2)
next
  assume a: "rpc_request pf srv req body g ip request \<and> rq_version request = 2"
  then have rpc: "rpc_request pf srv req body g ip request" and v: "rq_version request = 2"
    by blast+
  let ?ctx = "make_ctx pf srv ip request"
  let ?d = "js_read (functionTable (apiConfig srv)) (toStr (rq_name request))"
  let ?i = "js_read (fn (apiConfig srv)) (toStr (rq_name request))"
  let ?x = "execute pf (apiConfig srv) ?ctx (member_description ?d)
              (member_impl pf (toStr (rq_name request)) ?i)"
  have cv: "rq_version (ctx_request ?ctx) = 2" using v by (simp add: make_ctx_def)
  have written: "\<exists>s'. (writeReply (pf_env pf) (Some ?ctx) r (json_header s), None :: exn option) =
                        (s', None) \<and>
                      res_body s' = res_body s \<and> res_statusCode s' = res_statusCode s \<and>
                      res_ended s'" for r
    by (simp add: writeReply_context_V2 [OF cv] json_header_def)
  show "(\<exists>s'. handleRequestWithBody pf srv req body g s = (s', None) \<and>
              res_body s' = res_body s \<and> res_statusCode s' = res_statusCode s \<and>
              res_ended s') \<or>
        (\<exists>thrown. handleRequestWithBody pf srv req body g s = (json_header s, Some thrown))"
  proof (cases "falsy_member ?d \<or> falsy_member ?i")
    case True
    show ?thesis unfolding dispatch_missing [OF rpc True] using written by blast
  next
    case False
    then have f: "\<not> falsy_member ?d" "\<not> falsy_member ?i" by blast+
    show ?thesis
    proof (cases ?x)
      case (Inl thrown)
      then show ?thesis by (simp add: dispatch_found [OF rpc f])
    next
      case (Inr outcome)
      show ?thesis
      proof (cases "onRequestEnd (apiConfig srv) ?ctx outcome")
        case (Inl thrown)
        with Inr show ?thesis by (simp add: dispatch_found [OF rpc f])
      next
        case ended: (Inr ended)
        have "handleRequestWithBody pf srv req body g s =
                (writeReply (pf_env pf) (Some ?ctx)
                   (case ended of Some r \<Rightarrow> r | None \<Rightarrow> outcome) (json_header s), None)"
          using Inr ended by (simp add: dispatch_found [OF rpc f])
        then show ?thesis using written by simp
      qed
    qed
  qed
next
  assume a: "rpc_request pf srv req body g ip request \<and> rq_version request = 2 \<and>
      rctx = make_ctx pf srv ip request \<and>
      described = js_read (functionTable (apiConfig srv)) (toStr (rq_name request)) \<and>
      implemented = js_read (fn (apiConfig srv)) (toStr (rq_name request)) \<and>
      (falsy_member described \<or> falsy_member implemented \<or>
       execute pf (apiConfig srv) rctx (member_description described)
         (member_impl pf (toStr (rq_name request)) implemented) = Inr outcome \<and>
       onRequestEnd (apiConfig srv) rctx outcome = Inr ended)"
  then have rpc: "rpc_request pf srv req body g ip request" and v: "rq_version request = 2"
    and d: "rctx = make_ctx pf srv ip request"
      "described = js_read (functionTable (apiConfig srv)) (toStr (rq_name request))"
      "implemented = js_read (fn (apiConfig srv)) (toStr (rq_name request))"
    and o: "falsy_member described \<or> falsy_member implemented \<or>
       execute pf (apiConfig srv) rctx (member_description described)
         (member_impl pf (toStr (rq_name request)) implemented) = Inr outcome \<and>
       onRequestEnd (apiConfig srv) rctx outcome = Inr ended"
    by blast+
  let ?ctx = "make_ctx pf srv ip request"
  have cv: "rq_version (ctx_request ?ctx) = 2" using v by (simp add: make_ctx_def)
  from handleRequest_rpc [OF rpc, of s]
  obtain s2 where s2: "res_statusCode s2 = res_statusCode s" "res_body s2 = res_body s"
    and h: "handleRequest pf srv req body g s =
             (case handleRequestWithBody pf srv req body g s2 of
                (s3, None) \<Rightarrow> s3
              | (s3, Some e) \<Rightarrow>
                  (case ex_toString e of
                     Inl e' \<Rightarrow> s3
                   | Inr str \<Rightarrow>
                       writeReply (pf_env pf) (None :: 'x Context option)
                         (error_reply (JStr ''Fatal'') (JStr str)) s3))"
    by blast
  have "\<exists>r. handleRequest pf srv req body g s =
          writeReply (pf_env pf) (Some ?ctx) r (json_header s2)"
  proof (cases "falsy_member described \<or> falsy_member implemented")
    case True
    then have "falsy_member (js_read (functionTable (apiConfig srv)) (toStr (rq_name request))) \<or>
               falsy_member (js_read (fn (apiConfig srv)) (toStr (rq_name request)))"
      by (simp only: d)
    then show ?thesis by (intro exI) (simp add: h dispatch_missing [OF rpc])
  next
    case False
    with o have x: "execute pf (apiConfig srv) rctx (member_description described)
         (member_impl pf (toStr (rq_name request)) implemented) = Inr outcome"
      and y: "onRequestEnd (apiConfig srv) rctx outcome = Inr ended"
      by blast+
    from False have f: "\<not> falsy_member (js_read (functionTable (apiConfig srv)) (toStr (rq_name request)))"
      "\<not> falsy_member (js_read (fn (apiConfig srv)) (toStr (rq_name request)))"
      by (simp_all only: d not_False_eq_True de_Morgan_disj simp_thms)
    from x y show ?thesis
      unfolding d by (intro exI) (simp add: h dispatch_found [OF rpc f])
  qed
  then obtain r where w: "handleRequest pf srv req body g s =
          writeReply (pf_env pf) (Some ?ctx) r (json_header s2)"
    by blast
  show "res_body (handleRequest pf srv req body g s) = res_body s"
    "res_statusCode (handleRequest pf srv req body g s) = res_statusCode s"
    "res_ended (handleRequest pf srv req body g s)"
    by (simp_all add: w writeReply_context_V2 [OF cv] json_header_def s2)
qed

lemma sample_ping [simp]:
  "js_read (functionTable (apiConfig (sample_server ret))) ''ping'' =
     Own \<lparr> fd_args = TFields [], fd_ret = TName ''any'' \<rparr>"
  "js_read (fn (apiConfig (sample_server ret))) ''ping'' = Own (\<lambda>ctx args. Inr ret)"
  by (simp_all add: js_read_def)

lemma sample_nope [simp]:
  "js_read (functionTable (apiConfig (sample_server ret))) ''nope'' = Missing"
  "js_read (fn (apiConfig (sample_server ret))) ''nope'' = Missing"
  by (simp_all add: js_read_def)

lemma sample_execute:
  "execute (sample_platform j d) (apiConfig (sample_server ret)) ctx
     \<lparr> fd_args = TFields [], fd_ret = TName ''any'' \<rparr> (\<lambda>ctx args. Inr ret) =
   Inr (result_reply ret)"
  by (simp add: execute_def bindE_def Let_def sample_platform_def)

theorem V2_reply_empty_witness:
  "res_body
     (handleRequest (sample_platform (v2_body ''ping'') (v2_decoded ''ping''))
        (sample_server (JStr ''pong'')) sample_post ''body'' (\<lambda>i. 0) fresh_io) = [] \<and>
   res_statusCode
     (handleRequest (sample_platform (v2_body ''ping'') (v2_decoded ''ping''))
        (sample_server (JStr ''pong'')) sample_post ''body'' (\<lambda>i. 0) fresh_io) = 200 \<and>
   res_body
     (handleRequest (sample_platform (v2_body ''nope'') (v2_decoded ''nope''))
        (sample_server (JStr ''pong'')) sample_post ''body'' (\<lambda>i. 0) fresh_io) = [] \<and>
   res_statusCode
     (handleRequest (sample_platform (v2_body ''nope'') (v2_decoded ''nope''))
        (sample_server (JStr ''pong'')) sample_post ''body'' (\<lambda>i. 0) fresh_io) = 200"
  using V2_reply_empty
          [where pf = "sample_platform (v2_body ''ping'') (v2_decoded ''ping'')"
             and srv = "sample_server (JStr ''pong'')" and req = sample_post
             and body = "''body''" and g = "\<lambda>i. 0" and ip = "''10.0.0.1''"
             and request = "v2_request ''ping''" and s = fresh_io
             and ctx = "make_ctx (sample_platform (v2_body ''ping'') (v2_decoded ''ping''))
                          (sample_server (JStr ''pong'')) ''10.0.0.1'' (v2_request ''ping'')"
             and rctx = "make_ctx (sample_platform (v2_body ''ping'') (v2_decoded ''ping''))
                          (sample_server (JStr ''pong'')) ''10.0.0.1'' (v2_request ''ping'')"
             and described = "Own \<lparr> fd_args = TFields [], fd_ret = TName ''any'' \<rparr>"
             and implemented = "Own (\<lambda>ctx args. Inr (JStr ''pong''))"
             and outcome = "result_reply (JStr ''pong'')" and ended = None]
        V2_reply_empty
          [where pf = "sample_platform (v2_body ''nope'') (v2_decoded ''nope'')"
             and srv = "sample_server (JStr ''pong'')" and req = sample_post
             and body = "''body''" and g = "\<lambda>i. 0" and ip = "''10.0.0.1''"
             and request = "v2_request ''nope''" and s = fresh_io
             and ctx = "make_ctx (sample_platform (v2_body ''nope'') (v2_decoded ''nope''))
                          (sample_server (JStr ''pong'')) ''10.0.0.1'' (v2_request ''nope'')"
             and rctx = "make_ctx (sample_platform (v2_body ''nope'') (v2_decoded ''nope''))
                          (sample_server (JStr ''pong'')) ''10.0.0.1'' (v2_request ''nope'')"
             and described = Missing and implemented = Missing]
        sample_rpc_v2 [of "''ping''" "JStr ''pong''" "''body''" "\<lambda>i. 0"]
        sample_rpc_v2 [of "''nope''" "JStr ''pong''" "''body''" "\<lambda>i. 0"]
  by (simp add: v2_request_def fresh_io_def sample_execute)

lemma execute_started:
  "onRequestStart api ctx = Inr (Some started) \<Longrightarrow> execute pf api ctx fd impl = Inr started"
  by (simp add: execute_def bindE_def Let_def)

lemma execute_called:
  assumes "onRequestStart api ctx = Inr None"
    and "pf_decode pf (typeTable api) (toStr (rq_name (ctx_request ctx)) @ ''.args'')
           (fd_args fd) (rq_args (ctx_request ctx)) = Inr args"
    and "impl ctx args = Inr ret"
    and "pf_encode pf (typeTable api) (toStr (rq_name (ctx_request ctx)) @ ''.ret'')
           (fd_ret fd) ret = Inr encodedRet"
  shows "execute pf api ctx fd impl = Inr (result_reply encodedRet)"
  using assms by (simp add: execute_def bindE_def Let_def)

text \<open>
  What the \<^verbatim>\<open>catch\<close> block makes of an exception whose properties can be read, and of a
  thrown \<^verbatim>\<open>null\<close>.
\<close>

lemma caught_readable:
  "caught (Thrown (Inr t) (Inr m) (Inr str)) =
     Inr (error_reply (js_or t (JStr ''Fatal'')) (js_or m (JStr str)))"
  by (simp add: caught_def bindE_def js_or_def)

lemma caught_null: "\<exists>e. caught (throw_value JNull) = Inl e"
  by (simp add: caught_def throw_value_def bindE_def)

lemma execute_thrown_null:
  assumes "onRequestStart api ctx = Inr None"
    and "pf_decode pf (typeTable api) (toStr (rq_name (ctx_request ctx)) @ ''.args'')
           (fd_args fd) (rq_args (ctx_request ctx)) = Inr args"
    and "impl ctx args = Inl (throw_value JNull)"
  shows "\<exists>e. execute pf api ctx fd impl = Inl e \<and> (\<exists>str. ex_toString e = Inr str)"
  using assms by (simp add: execute_def bindE_def Let_def caught_def throw_value_def TypeError_def)

text \<open>
  A V2 request whose implementation throws \<^verbatim>\<open>null\<close>: the \<^verbatim>\<open>catch\<close> block throws in turn, the
  promise is rejected, and the reply is the one written without context, with status 500
  and the error in the body.
\<close>

lemma V2_thrown_null:
  "res_statusCode
     (handleRequest (sample_platform (v2_body ''ping'') (v2_decoded ''ping''))
        ((sample_server JNull)
           \<lparr> apiConfig := (apiConfig (sample_server JNull))
               \<lparr> fn := (\<lambda>name. if name = ''ping''
                                  then Some (\<lambda>ctx args. Inl (throw_value JNull)) else None) \<rparr> \<rparr>)
        sample_post ''body'' (\<lambda>i. 0) fresh_io) = 500 \<and>
   length (res_body
     (handleRequest (sample_platform (v2_body ''ping'') (v2_decoded ''ping''))
        ((sample_server JNull)
           \<lparr> apiConfig := (apiConfig (sample_server JNull))
               \<lparr> fn := (\<lambda>name. if name = ''ping''
                                  then Some (\<lambda>ctx args. Inl (throw_value JNull)) else None) \<rparr> \<rparr>)
        sample_post ''body'' (\<lambda>i. 0) fresh_io)) = 1"
proof -
  define pf where "pf = sample_platform (v2_body ''ping'') (v2_decoded ''ping'')"
  define srv :: "(unit, string) server" where "srv = (sample_server JNull)
           \<lparr> apiConfig := (apiConfig (sample_server JNull))
               \<lparr> fn := (\<lambda>name. if name = ''ping''
                                  then Some (\<lambda>ctx args. Inl (throw_value JNull)) else None) \<rparr> \<rparr>"
  define fd where "fd = \<lparr> fd_args = TFields [], fd_ret = TName ''any'' \<rparr>"
  define impl :: "unit Context \<Rightarrow> jsval \<Rightarrow> exn + jsval"
    where "impl = (\<lambda>ctx args. Inl (throw_value JNull))"
  let ?ctx = "make_ctx pf srv ''10.0.0.1'' (v2_request ''ping'')"
  have rpc: "rpc_request pf srv sample_post ''body'' (\<lambda>i. 0) ''10.0.0.1'' (v2_request ''ping'')"
    using sample_rpc_v2 [of "''ping''" JNull "''body''" "\<lambda>i. 0"]
    by (simp add: rpc_request_def pf_def srv_def)
  have look: "functionTable (apiConfig srv) (toStr (rq_name (v2_request ''ping''))) = Some fd"
    "fn (apiConfig srv) (toStr (rq_name (v2_request ''ping''))) = Some impl"
    by (simp_all add: srv_def v2_request_def fd_def impl_def)
  have "\<exists>e. execute pf (apiConfig srv) ?ctx fd impl = Inl e \<and> (\<exists>str. ex_toString e = Inr str)"
    by (rule execute_thrown_null [where args = "JObj []"])
       (simp_all add: srv_def pf_def sample_platform_def impl_def fd_def make_ctx_def
          v2_request_def)
  then obtain e str where x: "execute pf (apiConfig srv) ?ctx fd impl = Inl e"
    and str: "ex_toString e = Inr str"
    by blast
  from handleRequest_rpc [OF rpc, of fresh_io]
  obtain s2 where s2: "res_body s2 = res_body fresh_io"
    and h: "handleRequest pf srv sample_post ''body'' (\<lambda>i. 0) fresh_io =
             (case handleRequestWithBody pf srv sample_post ''body'' (\<lambda>i. 0) s2 of
                (s3, None) \<Rightarrow> s3
              | (s3, Some e) \<Rightarrow>
                  (case ex_toString e of
                     Inl e' \<Rightarrow> s3
                   | Inr str \<Rightarrow>
                       writeReply (pf_env pf) (None :: unit Context option)
                         (error_reply (JStr ''Fatal'') (JStr str)) s3))"
    by blast
  have "res_statusCode (handleRequest pf srv sample_post ''body'' (\<lambda>i. 0) fresh_io) = 500 \<and>
        length (res_body (handleRequest pf srv sample_post ''body'' (\<lambda>i. 0) fresh_io)) = 1"
    unfolding h dispatch_known [OF rpc look] x
    by (simp add: str writeReply_contextless json_header_def s2 fresh_io_def)
  then show ?thesis unfolding pf_def srv_def .
qed

text \<open>
  Claim C6. If the start hook returns a reply, that reply is the outcome of the call,
  whatever the decoder, the encoder, the function's descriptor and its implementation
  are: none of them contributes. And when the function exists and the call has an
  outcome, the reply that is written is the end hook's when it returns one, and the
  outcome of the call when it returns nothing.
\<close>

theorem hooks_override:
  fixes srv :: "('x, 're) server" and pf :: "('x, 're) platform"
  shows
    "(onRequestStart api ctx = Inr (Some started) \<longrightarrow>
        (\<forall>pf' fd' impl'. execute (pf' :: ('x, 're) platform) api ctx fd' impl' = Inr started)) \<and>
     (rpc_request pf srv req body g ip request \<and>
      functionTable (apiConfig srv) (toStr (rq_name request)) = Some fd \<and>
      fn (apiConfig srv) (toStr (rq_name request)) = Some impl \<and>
      rctx = make_ctx pf srv ip request \<and>
      execute pf (apiConfig srv) rctx fd impl = Inr reply \<longrightarrow>
        (\<forall>replaced. onRequestEnd (apiConfig srv) rctx reply = Inr (Some replaced) \<longrightarrow>
           handleRequestWithBody pf srv req body g s =
             (writeReply (pf_env pf) (Some rctx) replaced (json_header s), None)) \<and>
        (onRequestEnd (apiConfig srv) rctx reply = Inr None \<longrightarrow>
           handleRequestWithBody pf srv req body g s =
             (writeReply (pf_env pf) (Some rctx) reply (json_header s), None)))"
proof (intro conjI impI allI)
  fix pf' :: "('x, 're) platform" and fd' impl'
  assume "onRequestStart api ctx = Inr (Some started)"
  then show "execute pf' api ctx fd' impl' = Inr started" by (rule execute_started)
next
  fix replaced
  assume a: "rpc_request pf srv req body g ip request \<and>
      functionTable (apiConfig srv) (toStr (rq_name request)) = Some fd \<and>
      fn (apiConfig srv) (toStr (rq_name request)) = Some impl \<and>
      rctx = make_ctx pf srv ip request \<and>
      execute pf (apiConfig srv) rctx fd impl = Inr reply"
    and e: "onRequestEnd (apiConfig srv) rctx reply = Inr (Some replaced)"
  from a have rpc: "rpc_request pf srv req body g ip request"
    and f: "functionTable (apiConfig srv) (toStr (rq_name request)) = Some fd"
      "fn (apiConfig srv) (toStr (rq_name request)) = Some impl"
    and d: "rctx = make_ctx pf srv ip request"
    and x: "execute pf (apiConfig srv) rctx fd impl = Inr reply"
    by blast+
  from e x show "handleRequestWithBody pf srv req body g s =
      (writeReply (pf_env pf) (Some rctx) replaced (json_header s), None)"
    unfolding d by (simp add: dispatch_known [OF rpc f])
next
  assume a: "rpc_request pf srv req body g ip request \<and>
      functionTable (apiConfig srv) (toStr (rq_name request)) = Some fd \<and>
      fn (apiConfig srv) (toStr (rq_name request)) = Some impl \<and>
      rctx = make_ctx pf srv ip request \<and>
      execute pf (apiConfig srv) rctx fd impl = Inr reply"
    and e: "onRequestEnd (apiConfig srv) rctx reply = Inr None"
  from a have rpc: "rpc_request pf srv req body g ip request"
    and f: "functionTable (apiConfig srv) (toStr (rq_name request)) = Some fd"
      "fn (apiConfig srv) (toStr (rq_name request)) = Some impl"
    and d: "rctx = make_ctx pf srv ip request"
    and x: "execute pf (apiConfig srv) rctx fd impl = Inr reply"
    by blast+
  from e x show "handleRequestWithBody pf srv req body g s =
      (writeReply (pf_env pf) (Some rctx) reply (json_header s), None)"
    unfolding d by (simp add: dispatch_known [OF rpc f])
qed

lemma with_hooks_fields [simp]:
  "handlers (with_hooks a b srv) = handlers srv"
  "ignoredUrlPrefix (with_hooks a b srv) = ignoredUrlPrefix srv"
  "extraContext (with_hooks a b srv) = extraContext srv"
  "functionTable (apiConfig (with_hooks a b srv)) = functionTable (apiConfig srv)"
  "fn (apiConfig (with_hooks a b srv)) = fn (apiConfig srv)"
  "typeTable (apiConfig (with_hooks a b srv)) = typeTable (apiConfig srv)"
  "onRequestStart (apiConfig (with_hooks a b srv)) = a"
  "onRequestEnd (apiConfig (with_hooks a b srv)) = b"
  by (simp_all add: with_hooks_def)

lemma rpc_request_with_hooks:
  "rpc_request pf (with_hooks a b srv) req body g ip request =
   rpc_request pf srv req body g ip request"
  by (simp add: rpc_request_def)

theorem hooks_override_witness:
  "res_body
     (fst (handleRequestWithBody (sample_platform (v3_body ''ping'') (v3_decoded ''ping''))
             (with_hooks (\<lambda>ctx. Inr (Some (error_reply (JStr ''Unauthorized'') (JStr ''denied''))))
                (\<lambda>ctx reply. Inr None) (sample_server (JStr ''pong'')))
             sample_post ''body'' (\<lambda>i. 0) fresh_io)) =
     [Json (JObj [(''duration'', JNum 0), (''host'', JStr ''host''), (''result'', JNull),
                  (''error'', JObj [(''type'', JStr ''Unauthorized''),
                                    (''message'', JStr ''denied'')])])] \<and>
   res_body
     (fst (handleRequestWithBody (sample_platform (v3_body ''ping'') (v3_decoded ''ping''))
             (with_hooks (\<lambda>ctx. Inr None)
                (\<lambda>ctx reply. Inr (Some (result_reply (JStr ''cached''))))
                (sample_server (JStr ''pong'')))
             sample_post ''body'' (\<lambda>i. 0) fresh_io)) =
     [Json (JObj [(''duration'', JNum 0), (''host'', JStr ''host''),
                  (''result'', JStr ''cached''), (''error'', JNull)])]"
proof -
  define pf where "pf = sample_platform (v3_body ''ping'') (v3_decoded ''ping'')"
  define denied where "denied = error_reply (JStr ''Unauthorized'') (JStr ''denied'')"
  define cached where "cached = result_reply (JStr ''cached'')"
  define srv1 :: "(unit, string) server"
    where "srv1 = with_hooks (\<lambda>ctx. Inr (Some denied)) (\<lambda>ctx reply. Inr None)
                    (sample_server (JStr ''pong''))"
  define srv2 :: "(unit, string) server"
    where "srv2 = with_hooks (\<lambda>ctx. Inr None) (\<lambda>ctx reply. Inr (Some cached))
                    (sample_server (JStr ''pong''))"
  define ctx1 where "ctx1 = make_ctx pf srv1 ''10.0.0.1'' (v3_request ''ping'')"
  define ctx2 where "ctx2 = make_ctx pf srv2 ''10.0.0.1'' (v3_request ''ping'')"
  define fd where "fd = \<lparr> fd_args = TFields [], fd_ret = TName ''any'' \<rparr>"
  define impl :: "unit Context \<Rightarrow> jsval \<Rightarrow> exn + jsval"
    where "impl = (\<lambda>ctx args. Inr (JStr ''pong''))"
  have rpc1: "rpc_request pf srv1 sample_post ''body'' (\<lambda>i. 0) ''10.0.0.1'' (v3_request ''ping'')"
    unfolding srv1_def pf_def rpc_request_with_hooks by (rule sample_rpc_v3)
  have rpc2: "rpc_request pf srv2 sample_post ''body'' (\<lambda>i. 0) ''10.0.0.1'' (v3_request ''ping'')"
    unfolding srv2_def pf_def rpc_request_with_hooks by (rule sample_rpc_v3)
  have look1: "functionTable (apiConfig srv1) (toStr (rq_name (v3_request ''ping''))) = Some fd"
    "fn (apiConfig srv1) (toStr (rq_name (v3_request ''ping''))) = Some impl"
    by (simp_all add: srv1_def v3_request_def fd_def impl_def)
  have look2: "functionTable (apiConfig srv2) (toStr (rq_name (v3_request ''ping''))) = Some fd"
    "fn (apiConfig srv2) (toStr (rq_name (v3_request ''ping''))) = Some impl"
    by (simp_all add: srv2_def v3_request_def fd_def impl_def)
  have start1: "onRequestStart (apiConfig srv1) ctx1 = Inr (Some denied)"
    by (simp add: srv1_def)
  have ex2: "execute pf (apiConfig srv2) ctx2 fd impl = Inr (result_reply (JStr ''pong''))"
    by (rule execute_called [where args = "JObj []" and ret = "JStr ''pong''"])
       (simp_all add: srv2_def pf_def sample_platform_def ctx2_def make_ctx_def v3_request_def
          fd_def impl_def)
  have end1: "onRequestEnd (apiConfig srv1) ctx1 denied = Inr None"
    by (simp add: srv1_def)
  have end2: "onRequestEnd (apiConfig srv2) ctx2 (result_reply (JStr ''pong'')) =
                Inr (Some cached)"
    by (simp add: srv2_def)
  note h1 = hooks_override
              [where api = "apiConfig srv1" and ctx = ctx1 and started = denied and pf = pf
                 and srv = srv1 and req = sample_post and body = "''body''" and g = "\<lambda>i. 0"
                 and ip = "''10.0.0.1''" and request = "v3_request ''ping''" and fd = fd
                 and impl = impl and rctx = ctx1 and reply = denied and s = fresh_io]
  note h2 = hooks_override
              [where api = "apiConfig srv2" and ctx = ctx2 and started = denied and pf = pf
                 and srv = srv2 and req = sample_post and body = "''body''" and g = "\<lambda>i. 0"
                 and ip = "''10.0.0.1''" and request = "v3_request ''ping''" and fd = fd
                 and impl = impl and rctx = ctx2
                 and reply = "result_reply (JStr ''pong'')" and s = fresh_io]
  from h1 start1 have ex1: "execute pf (apiConfig srv1) ctx1 fd impl = Inr denied" by blast
  from h1 rpc1 look1 end1 ex1 have w1:
    "handleRequestWithBody pf srv1 sample_post ''body'' (\<lambda>i. 0) fresh_io =
       (writeReply (pf_env pf) (Some ctx1) denied (json_header fresh_io), None)"
    unfolding ctx1_def by blast
  from h2 rpc2 look2 end2 ex2 have w2:
    "handleRequestWithBody pf srv2 sample_post ''body'' (\<lambda>i. 0) fresh_io =
       (writeReply (pf_env pf) (Some ctx2) cached (json_header fresh_io), None)"
    unfolding ctx2_def by blast
  have v: "rq_version (ctx_request ctx1) = 3" "rq_version (ctx_request ctx2) = 3"
    by (simp_all add: ctx1_def ctx2_def make_ctx_def v3_request_def)
  have "res_body (fst (handleRequestWithBody pf srv1 sample_post ''body'' (\<lambda>i. 0) fresh_io)) =
     [Json (JObj [(''duration'', JNum 0), (''host'', JStr ''host''), (''result'', JNull),
                  (''error'', JObj [(''type'', JStr ''Unauthorized''),
                                    (''message'', JStr ''denied'')])])] \<and>
   res_body (fst (handleRequestWithBody pf srv2 sample_post ''body'' (\<lambda>i. 0) fresh_io)) =
     [Json (JObj [(''duration'', JNum 0), (''host'', JStr ''host''),
                  (''result'', JStr ''cached''), (''error'', JNull)])]"
    unfolding w1 w2 fst_conv writeReply_context_V3 [OF v(1)] writeReply_context_V3 [OF v(2)]
    by (simp add: pf_def denied_def cached_def json_header_def fresh_io_def js_or_def
          error_json_def)
  then show ?thesis
    unfolding pf_def srv1_def srv2_def denied_def cached_def .
qed

lemma V1_success_reply:
  fixes srv :: "('x, 're) server"
  assumes "rpc_request pf srv req body g ip request" and "rq_version request = 1"
    and "functionTable (apiConfig srv) (toStr (rq_name request)) = Some fd"
    and "fn (apiConfig srv) (toStr (rq_name request)) = Some impl"
    and "onRequestStart (apiConfig srv) (make_ctx pf srv ip request) = Inr None"
    and "pf_decode pf (typeTable (apiConfig srv)) (toStr (rq_name request) @ ''.args'')
           (fd_args fd) (rq_args request) = Inr args"
    and "impl (make_ctx pf srv ip request) args = Inr ret"
    and "pf_encode pf (typeTable (apiConfig srv)) (toStr (rq_name request) @ ''.ret'')
           (fd_ret fd) ret = Inr encodedRet"
    and "onRequestEnd (apiConfig srv) (make_ctx pf srv ip request) (result_reply encodedRet) =
           Inr None"
  shows "res_statusCode (handleRequest pf srv req body g s) = 200 \<and>
         res_body (handleRequest pf srv req body g s) =
           res_body s @
           [Json (JObj [(''id'', rq_id request),
                        (''ok'', JBool True),
                        (''deviceId'', di_id (rq_deviceInfo request)),
                        (''duration'', env_duration (pf_env pf) (env_hrtime (pf_env pf))),
                        (''host'', JStr (env_hostname (pf_env pf))),
                        (''result'', if truthy encodedRet then encodedRet else JNull),
                        (''error'', JNull)])]"
proof -
  let ?ctx = "make_ctx pf srv ip request"
  have c: "ctx_request ?ctx = request" "ctx_hrStart ?ctx = env_hrtime (pf_env pf)"
    by (simp_all add: make_ctx_def)
  have ex: "execute pf (apiConfig srv) ?ctx fd impl = Inr (result_reply encodedRet)"
    using assms(5-8) by (intro execute_called [where args = args and ret = ret]) (simp_all add: c)
  from handleRequest_rpc [OF assms(1), of s]
  obtain s2 where s2: "res_statusCode s2 = res_statusCode s" "res_body s2 = res_body s"
    and h: "handleRequest pf srv req body g s =
             (case handleRequestWithBody pf srv req body g s2 of
                (s3, None) \<Rightarrow> s3
              | (s3, Some e) \<Rightarrow>
                  (case ex_toString e of
                     Inl e' \<Rightarrow> s3
                   | Inr str \<Rightarrow>
                       writeReply (pf_env pf) (None :: 'x Context option)
                         (error_reply (JStr ''Fatal'') (JStr str)) s3))"
    by blast
  have w: "handleRequest pf srv req body g s =
             writeReply (pf_env pf) (Some ?ctx) (result_reply encodedRet) (json_header s2)"
    by (simp add: h dispatch_known [OF assms(1,3,4)] ex assms(9))
  from assms(2) have v: "rq_version (ctx_request ?ctx) = 1" by (simp add: c)
  show ?thesis
    unfolding w writeReply_context_V1 [OF v]
    by (simp add: c s2 json_header_def status_of_def js_or_def error_json_def)
qed

text \<open>
  Claim C9 at a function that returns \<^verbatim>\<open>false\<close>: the call succeeds (status 200,
  \<^verbatim>\<open>ok: true\<close>, no error), and the body's \<^verbatim>\<open>result\<close> is \<^verbatim>\<open>null\<close>, not the encoded return
  value \<^verbatim>\<open>false\<close>.
\<close>

theorem falsy_result_is_null:
  "res_statusCode
     (handleRequest (sample_platform (v1_body ''ping'') (v1_decoded ''ping''))
        (sample_server (JBool False)) sample_post ''body'' (\<lambda>i. 0) fresh_io) = 200 \<and>
   res_body
     (handleRequest (sample_platform (v1_body ''ping'') (v1_decoded ''ping''))
        (sample_server (JBool False)) sample_post ''body'' (\<lambda>i. 0) fresh_io) =
     [Json (JObj [(''id'', JStr ''r1''), (''ok'', JBool True), (''deviceId'', JStr ''r1''),
                  (''duration'', JNum 0), (''host'', JStr ''host''),
                  (''result'', JNull), (''error'', JNull)])]"
proof -
  have "res_statusCode
     (handleRequest (sample_platform (v1_body ''ping'') (v1_decoded ''ping''))
        (sample_server (JBool False)) sample_post ''body'' (\<lambda>i. 0) fresh_io) = 200 \<and>
   res_body
     (handleRequest (sample_platform (v1_body ''ping'') (v1_decoded ''ping''))
        (sample_server (JBool False)) sample_post ''body'' (\<lambda>i. 0) fresh_io) =
     res_body fresh_io @
     [Json (JObj [(''id'', rq_id (v1_request ''ping'')),
                  (''ok'', JBool True),
                  (''deviceId'', di_id (rq_deviceInfo (v1_request ''ping''))),
                  (''duration'',
                   env_duration (pf_env (sample_platform (v1_body ''ping'') (v1_decoded ''ping'')))
                     (env_hrtime (pf_env (sample_platform (v1_body ''ping'') (v1_decoded ''ping''))))),
                  (''host'',
                   JStr (env_hostname
                           (pf_env (sample_platform (v1_body ''ping'') (v1_decoded ''ping''))))),
                  (''result'', if truthy (JBool False) then JBool False else JNull),
                  (''error'', JNull)])]"
    by (rule V1_success_reply
              [OF sample_rpc_v1,
               where fd = "\<lparr> fd_args = TFields [], fd_ret = TName ''any'' \<rparr>"
                 and impl = "\<lambda>ctx args. Inr (JBool False)" and args = "JObj []"
                 and ret = "JBool False"])
       (simp_all add: v1_request_def sample_platform_def sample_server_def)
  then show ?thesis by (simp add: v1_request_def fresh_io_def)
qed

text \<open>
  Claim C5 at two bodies the parser rejects: a JSON body with an unknown version, and a
  body that is not JSON. Both replies are written without context, with status 500, a
  body holding only the error object, and no line printed; the message is the string
  form of the exception, not \<^verbatim>\<open>"Couldn't parse request"\<close>.
\<close>

theorem parse_failure_message:
  "res_statusCode
     (handleRequest
        (sample_platform (JObj [(''version'', JNum 4), (''name'', JStr ''ping''),
                                (''args'', JObj [])]) JNull)
        (sample_server JNull) sample_post ''body'' (\<lambda>i. 0) fresh_io) = 500 \<and>
   res_body
     (handleRequest
        (sample_platform (JObj [(''version'', JNum 4), (''name'', JStr ''ping''),
                                (''args'', JObj [])]) JNull)
        (sample_server JNull) sample_post ''body'' (\<lambda>i. 0) fresh_io) =
     [Json (JObj [(''error'', JObj [(''type'', JStr ''Fatal''),
                                    (''message'',
                                     JStr ''Error: Failed to understand request'')])])] \<and>
   console
     (handleRequest
        (sample_platform (JObj [(''version'', JNum 4), (''name'', JStr ''ping''),
                                (''args'', JObj [])]) JNull)
        (sample_server JNull) sample_post ''body'' (\<lambda>i. 0) fresh_io) = [] \<and>
   res_body
     (handleRequest
        ((sample_platform JNull JNull)\<lparr> pf_json_parse := (\<lambda>body. Inl syntax_error) \<rparr>)
        (sample_server JNull) sample_post ''hello'' (\<lambda>i. 0) fresh_io) =
     [Json (JObj [(''error'', JObj [(''type'', JStr ''Fatal''),
                                    (''message'',
                                     JStr ''SyntaxError: Unexpected token h in JSON at position 0'')])])]"
proof -
  define pf4 where "pf4 = sample_platform (JObj [(''version'', JNum 4), (''name'', JStr ''ping''),
                                                  (''args'', JObj [])]) JNull"
  define pfx where "pfx = (sample_platform JNull JNull)\<lparr> pf_json_parse := (\<lambda>body. Inl syntax_error) \<rparr>"
  have nh4: "findBestHandler (pf_exec pf4) (handlers (sample_server JNull))
               (strip_prefix (ignoredUrlPrefix (sample_server JNull)) (req_pathname sample_post))
               sample_post = Inr None"
    unfolding pf4_def by (rule sample_no_handler)
  have nhx: "findBestHandler (pf_exec pfx) (handlers (sample_server JNull))
               (strip_prefix (ignoredUrlPrefix (sample_server JNull)) (req_pathname sample_post))
               sample_post = Inr None"
    using sample_no_handler [of JNull JNull JNull] by (simp add: pfx_def sample_platform_def)
  have post: "req_method sample_post = ''POST''" "req_clientIp sample_post = Some ''10.0.0.1''"
    "''10.0.0.1'' \<noteq> []"
    by (simp_all add: sample_post_def)
  have p4: "parseRequest (pf_json_parse pf4) (pf_decode pf4) sample_post ''body'' (\<lambda>i. 0) =
              Inl (new_Error ''Failed to understand request'')"
    by (simp add: pf4_def sample_platform_def parseRequest_def identifyRequestVersion_def
          bindE_def own_prop_def)
  have px: "parseRequest (pf_json_parse pfx) (pf_decode pfx) sample_post ''hello'' (\<lambda>i. 0) =
              Inl syntax_error"
    by (simp add: pfx_def parseRequest_def identifyRequestVersion_def bindE_def)
  have s4: "ex_toString (new_Error ''Failed to understand request'') =
              Inr ''Error: Failed to understand request''"
    by (simp add: new_Error_def)
  have sx: "ex_toString syntax_error =
              Inr ''SyntaxError: Unexpected token h in JSON at position 0''"
    by (simp add: syntax_error_def)
  note r4 = parse_failure_reply [OF nh4 post p4 s4, of fresh_io]
  note rx = parse_failure_reply [OF nhx post px sx, of fresh_io]
  from r4 rx have "res_statusCode
     (handleRequest pf4 (sample_server JNull) sample_post ''body'' (\<lambda>i. 0) fresh_io) = 500 \<and>
   res_body (handleRequest pf4 (sample_server JNull) sample_post ''body'' (\<lambda>i. 0) fresh_io) =
     [Json (JObj [(''error'', JObj [(''type'', JStr ''Fatal''),
                                    (''message'',
                                     JStr ''Error: Failed to understand request'')])])] \<and>
   console (handleRequest pf4 (sample_server JNull) sample_post ''body'' (\<lambda>i. 0) fresh_io) = [] \<and>
   res_body (handleRequest pfx (sample_server JNull) sample_post ''hello'' (\<lambda>i. 0) fresh_io) =
     [Json (JObj [(''error'', JObj [(''type'', JStr ''Fatal''),
                                    (''message'',
                                     JStr ''SyntaxError: Unexpected token h in JSON at position 0'')])])]"
    by (simp add: fresh_io_def)
  then show ?thesis unfolding pf4_def pfx_def .
qed


end
